theory Spec2Isabelle
  imports Complex_Main "HOL-Library.Log_Nat"
begin

section \<open>Values and errors\<close>

text \<open>
  The exceptions that the constructor and the model functions of
  \<^verbatim>\<open>LocalEquilibrium\<close> can raise. \<open>GeometryDomainError\<close> and
  \<open>GridAlignmentError\<close> are the two error classes that the specification names; no
  statement of \<^verbatim>\<open>localequilibrium.py\<close> constructs either of them.
\<close>

datatype error =
    NameError
  | TypeError
  | ValueError
  | KeyError
  | IndexError
  | ZeroDivisionError
  | UnboundLocalError
  | AttributeError
  | GeometryDomainError
  | GridAlignmentError

section \<open>Double-precision arithmetic\<close>

text \<open>
  The radial grid is built from Python floats, and the lookups of the constructor compare
  its points for equality, so the grid is computed here in IEEE 754 binary64 with the
  default rounding, to nearest with ties to even. A double is a real number \<open>x\<close> with
  \<open>rnd x = x\<close>; the result of an operation on doubles is \<open>rnd\<close> of the exact result.

  \<open>expo x\<close> is the binary exponent \<open>\<lfloor>log 2 \<bar>x\<bar>\<rfloor>\<close> of a nonzero \<open>x\<close>, computed from
  the bit length of \<open>\<lfloor>\<bar>x\<bar>\<rfloor>\<close> or of \<open>\<lceil>1 / \<bar>x\<bar>\<rceil> - 1\<close>. The doubles next to \<open>x\<close> are
  the multiples of \<open>ulp x\<close>, which is \<open>2 powi (e - 52)\<close> for a normal number of
  exponent \<open>e\<close> and \<open>2 powi (-1074)\<close> below \<open>2 powi (-1022)\<close>. Overflow is not modelled:
  a result beyond the largest double stays a number larger than 1, which the filter of
  the grid drops as it drops \<^verbatim>\<open>inf\<close> and \<^verbatim>\<open>nan\<close>.
\<close>

definition expo :: "real \<Rightarrow> int" where
  "expo x = (if 1 \<le> \<bar>x\<bar> then bitlen \<lfloor>\<bar>x\<bar>\<rfloor> - 1 else - bitlen (\<lceil>1 / \<bar>x\<bar>\<rceil> - 1))"

definition round_even :: "real \<Rightarrow> int" where
  "round_even r =
     (let f = \<lfloor>r\<rfloor> in
      if r - of_int f < 1/2 then f
      else if r - of_int f > 1/2 then f + 1
      else if even f then f else f + 1)"

definition ulp :: "real \<Rightarrow> real" where
  "ulp x = 2 powi (max (expo x) (-1022) - 52)"

definition rnd :: "real \<Rightarrow> real" where
  "rnd x = ulp x * of_int (round_even (x / ulp x))"

section \<open>The radial grid of the constructor\<close>

text \<open>
  \<^verbatim>\<open>np.linspace(start, stop, num)\<close> on doubles, with the default
  \<^verbatim>\<open>endpoint=True\<close>, as numpy computes it:
  \<^verbatim>\<open>
  div = num - 1
  delta = stop - start
  y = arange(0, num)
  if div > 0:
      step = delta / div
      if step == 0:
          y /= div
          y = y * delta
      else:
          y = y * step
  else:
      y = y * delta
  y += start
  if num > 1:
      y[-1] = stop
  \<close>
  Every operation rounds; the integers \<open>0, \<dots>, num - 1\<close> and \<open>div\<close> are doubles
  themselves as long as \<open>num\<close> is below \<open>2 ^ 53\<close>.
\<close>

definition np_linspace :: "real \<Rightarrow> real \<Rightarrow> nat \<Rightarrow> real list" where
  "np_linspace start stop num =
     (let dv = num - 1;
          delta = rnd (stop - start);
          y = map real [0..<num];
          y = (if 0 < dv then
                 (let step = rnd (delta / real dv) in
                  if step = 0 then map (\<lambda>v. rnd (rnd (v / real dv) * delta)) y
                  else map (\<lambda>v. rnd (v * step)) y)
               else map (\<lambda>v. rnd (v * delta)) y);
          y = map (\<lambda>v. rnd (v + start)) y
      in if 1 < num then y[num - 1 := stop] else y)"

text \<open>
  Lines 100-111 of the constructor:
  \<^verbatim>\<open>
  if self.n_x > 1:
      _x_list = list(np.linspace(self.x_loc-self.x_loc*0.005,self.x_loc,int(self.n_x/2)))
      x_list_ = list(np.linspace(self.x_loc,self.x_loc+self.x_loc*0.005,int(self.n_x/2)))
      self.x_grid = [x for x in (_x_list[:-1]+x_list_) if 0. <= x <= 1.]
  else:
      self.x_grid = [self.x_loc]
  \<close>
  The target \<open>x_loc\<close> is a double and \<open>n_x\<close> an integer. The literal \<^verbatim>\<open>0.005\<close> is
  the double \<open>rnd 0.005\<close>, the product and the sum or difference round in turn,
  \<^verbatim>\<open>n_x/2\<close> is the rounded quotient, which \<^verbatim>\<open>int\<close> truncates, and
  \<^verbatim>\<open>_x_list[:-1]\<close> is \<open>butlast\<close>.
\<close>

definition x_grid :: "real \<Rightarrow> int \<Rightarrow> real list" where
  "x_grid x_loc n_x =
     (if n_x > 1 then
        (let num = nat \<lfloor>rnd (real_of_int n_x / 2)\<rfloor>;
             x_list_lo = np_linspace (rnd (x_loc - rnd (x_loc * rnd 0.005))) x_loc num;
             x_list_hi = np_linspace x_loc (rnd (x_loc + rnd (x_loc * rnd 0.005))) num
         in filter (\<lambda>x. 0 \<le> x \<and> x \<le> 1) (butlast x_list_lo @ x_list_hi))
      else [x_loc])"

text \<open>
  \<^verbatim>\<open>list.index\<close>: the position of the first element equal to the argument,
  \<^verbatim>\<open>ValueError\<close> when there is none.
\<close>

fun py_index :: "'a list \<Rightarrow> 'a \<Rightarrow> error + nat" where
  "py_index [] x = Inl ValueError"
| "py_index (y # ys) x =
     (if y = x then Inr 0
      else (case py_index ys x of Inl e \<Rightarrow> Inl e | Inr i \<Rightarrow> Inr (Suc i)))"

text \<open>
  The lookup \<^verbatim>\<open>self.x_grid.index(self.x_loc)\<close> that lines 207, 212-214, 218 and 237
  of the constructor (and \<^verbatim>\<open>cost_bpol\<close>, \<^verbatim>\<open>printer\<close>) perform.
\<close>

definition x_loc_index :: "real \<Rightarrow> int \<Rightarrow> error + nat" where
  "x_loc_index x_loc n_x = py_index (x_grid x_loc n_x) x_loc"


section \<open>numpy floats\<close>

text \<open>
  A numpy float is modelled as a finite real or the single non-finite value \<open>NaN\<close>.
  Rounding and overflow are not modelled, and \<open>NaN\<close> also stands for the infinities
  that a division by zero or \<^verbatim>\<open>log(0)\<close> produces: every operation that the modelled
  code applies to a non-finite operand yields a non-finite result again, so the two are
  not told apart. The arithmetic operators are the elementwise numpy ones.
\<close>

datatype npfloat = Fin real | NaN

instantiation npfloat :: "{plus, minus, uminus, times, inverse, abs}"
begin

definition plus_npfloat :: "npfloat \<Rightarrow> npfloat \<Rightarrow> npfloat" where
  "a + b = (case (a, b) of (Fin x, Fin y) \<Rightarrow> Fin (x + y) | _ \<Rightarrow> NaN)"

definition minus_npfloat :: "npfloat \<Rightarrow> npfloat \<Rightarrow> npfloat" where
  "a - b = (case (a, b) of (Fin x, Fin y) \<Rightarrow> Fin (x - y) | _ \<Rightarrow> NaN)"

definition uminus_npfloat :: "npfloat \<Rightarrow> npfloat" where
  "- a = (case a of Fin x \<Rightarrow> Fin (- x) | NaN \<Rightarrow> NaN)"

definition times_npfloat :: "npfloat \<Rightarrow> npfloat \<Rightarrow> npfloat" where
  "a * b = (case (a, b) of (Fin x, Fin y) \<Rightarrow> Fin (x * y) | _ \<Rightarrow> NaN)"

definition divide_npfloat :: "npfloat \<Rightarrow> npfloat \<Rightarrow> npfloat" where
  "divide a b = (case (a, b) of
              (Fin x, Fin y) \<Rightarrow> if y = 0 then NaN else Fin (x / y)
            | _ \<Rightarrow> NaN)"

definition inverse_npfloat :: "npfloat \<Rightarrow> npfloat" where
  "inverse a = (case a of Fin x \<Rightarrow> if x = 0 then NaN else Fin (inverse x) | NaN \<Rightarrow> NaN)"

definition abs_npfloat :: "npfloat \<Rightarrow> npfloat" where
  "\<bar>a\<bar> = (case a of Fin x \<Rightarrow> Fin \<bar>x\<bar> | NaN \<Rightarrow> NaN)"

instance ..

end

definition np_sin :: "npfloat \<Rightarrow> npfloat" where
  "np_sin a = (case a of Fin x \<Rightarrow> Fin (sin x) | NaN \<Rightarrow> NaN)"

definition np_cos :: "npfloat \<Rightarrow> npfloat" where
  "np_cos a = (case a of Fin x \<Rightarrow> Fin (cos x) | NaN \<Rightarrow> NaN)"

text \<open>\<^verbatim>\<open>np.arcsin\<close> returns nan outside \<open>[-1, 1]\<close> (and signals an invalid-value warning).\<close>

definition np_arcsin :: "npfloat \<Rightarrow> npfloat" where
  "np_arcsin a = (case a of
                    Fin x \<Rightarrow> if - 1 \<le> x \<and> x \<le> 1 then Fin (arcsin x) else NaN
                  | NaN \<Rightarrow> NaN)"

text \<open>\<^verbatim>\<open>np.sqrt\<close> returns nan for a negative argument.\<close>

definition np_sqrt :: "npfloat \<Rightarrow> npfloat" where
  "np_sqrt a = (case a of Fin x \<Rightarrow> if 0 \<le> x then Fin (sqrt x) else NaN | NaN \<Rightarrow> NaN)"

text \<open>\<^verbatim>\<open>np.log\<close> returns nan for a negative argument and \<open>-inf\<close> for zero.\<close>

definition np_log :: "npfloat \<Rightarrow> npfloat" where
  "np_log a = (case a of Fin x \<Rightarrow> if 0 < x then Fin (ln x) else NaN | NaN \<Rightarrow> NaN)"

text \<open>The power \<^verbatim>\<open>a**n\<close> for a literal exponent \<open>n\<close>.\<close>

definition np_pow :: "npfloat \<Rightarrow> nat \<Rightarrow> npfloat" where
  "np_pow a n = (case a of Fin x \<Rightarrow> Fin (x ^ n) | NaN \<Rightarrow> NaN)"

text \<open>
  Modelled from the spec: \<^verbatim>\<open>arctan2pi\<close> is imported from \<^verbatim>\<open>utils\<close>, which is not
  among the sources. The specification describes it as "a four-quadrant arctangent
  normalized to [0, 2\<pi>)"; \<open>arctan2\<close> is the four-quadrant arctangent with values in
  \<open>(-\<pi>, \<pi>]\<close>, and a nan argument gives nan.
\<close>

definition arctan2 :: "real \<Rightarrow> real \<Rightarrow> real" where
  "arctan2 y x =
     (if 0 < x then arctan (y / x)
      else if x < 0 then (if 0 \<le> y then arctan (y / x) + pi else arctan (y / x) - pi)
      else if 0 < y then pi / 2
      else if y < 0 then - (pi / 2)
      else 0)"

definition arctan2pi :: "npfloat \<Rightarrow> npfloat \<Rightarrow> npfloat" where
  "arctan2pi y x =
     (case (y, x) of
        (Fin a, Fin b) \<Rightarrow> Fin (let t = arctan2 a b in if t < 0 then t + 2 * pi else t)
      | _ \<Rightarrow> NaN)"

section \<open>Geometry models\<close>

text \<open>
  The parameter vector and the poloidal-angle grid are arrays of floats. Unpacking the
  parameter list (\<^verbatim>\<open>[R0,Z0,r,kappa,delta] = params\<close>) raises \<^verbatim>\<open>ValueError\<close> when the
  number of entries differs. With \<^verbatim>\<open>norm\<close> set (the argument \<open>nrm\<close> below) the curves are returned
  center-subtracted;
  the reference angle is computed before that.

  \<^verbatim>\<open>miller\<close>, lines 289-304. Line 292 reads
  \<^verbatim>\<open>with np.errstate(invalid=='ignore'):\<close>
  where the sibling models write \<^verbatim>\<open>invalid='ignore'\<close>. The argument is the comparison
  of the name \<^verbatim>\<open>invalid\<close> with a string; the name is neither a parameter nor a local
  nor bound by the module, so evaluating the argument raises \<^verbatim>\<open>NameError\<close> before
  line 293 is reached. (Were the name bound, \<^verbatim>\<open>np.errstate\<close>, which takes keyword
  arguments only, would reject the positional argument with \<^verbatim>\<open>TypeError\<close>.)
  \<open>miller_body\<close> is what lines 293-304 compute; \<open>miller\<close> is the function as
  it is written.
\<close>

type_synonym curves = "npfloat list \<times> npfloat list \<times> npfloat list"

definition miller_body ::
  "npfloat \<Rightarrow> npfloat \<Rightarrow> npfloat \<Rightarrow> npfloat \<Rightarrow> npfloat \<Rightarrow> npfloat list \<Rightarrow> bool \<Rightarrow> curves" where
  "miller_body R0 Z0 r kappa delta theta nrm =
     (let x = np_arcsin delta;
          theta_R = map (\<lambda>t. t + x * np_sin t) theta;
          R_param = map (\<lambda>tR. R0 + r * np_cos tR) theta_R;
          Z_param = map (\<lambda>t. Z0 + kappa * r * np_sin t) theta;
          theta_ref = map2 (\<lambda>Zp Rp. arctan2pi (Zp - Z0) (Rp - R0)) Z_param R_param
      in if nrm then (map (\<lambda>Rp. Rp - R0) R_param, map (\<lambda>Zp. Zp - Z0) Z_param, theta_ref)
         else (R_param, Z_param, theta_ref))"

definition miller :: "npfloat list \<Rightarrow> npfloat list \<Rightarrow> bool \<Rightarrow> error + curves" where
  "miller params theta nrm =
     (case params of
        [R0, Z0, r, kappa, delta] \<Rightarrow> Inl NameError
      | _ \<Rightarrow> Inl ValueError)"

text \<open>\<^verbatim>\<open>turnbull\<close>, lines 339-355.\<close>

definition turnbull :: "npfloat list \<Rightarrow> npfloat list \<Rightarrow> bool \<Rightarrow> error + curves" where
  "turnbull params theta nrm =
     (case params of
        [R0, Z0, r, kappa, delta, zeta] \<Rightarrow>
          (let x = np_arcsin delta;
               theta_R = map (\<lambda>t. t + x * np_sin t) theta;
               theta_Z = map (\<lambda>t. t + zeta * np_sin (Fin 2 * t)) theta;
               R_param = map (\<lambda>tR. R0 + r * np_cos tR) theta_R;
               Z_param = map (\<lambda>tZ. Z0 + kappa * r * np_sin tZ) theta_Z;
               theta_ref = map2 (\<lambda>Zp Rp. arctan2pi (Zp - Z0) (Rp - R0)) Z_param R_param
           in Inr (if nrm
                   then (map (\<lambda>Rp. Rp - R0) R_param, map (\<lambda>Zp. Zp - Z0) Z_param, theta_ref)
                   else (R_param, Z_param, theta_ref)))
      | _ \<Rightarrow> Inl ValueError)"

text \<open>\<^verbatim>\<open>turnbull_tilt\<close>, lines 393-410.\<close>

definition turnbull_tilt :: "npfloat list \<Rightarrow> npfloat list \<Rightarrow> bool \<Rightarrow> error + curves" where
  "turnbull_tilt params theta nrm =
     (case params of
        [R0, Z0, r, kappa, delta, zeta, tilt] \<Rightarrow>
          (let x = np_arcsin delta;
               theta_R = map (\<lambda>t. t + x * np_sin t + tilt) theta;
               theta_Z = map (\<lambda>t. t + zeta * np_sin (Fin 2 * t)) theta;
               R_param = map (\<lambda>tR. R0 + r * np_cos tR) theta_R;
               Z_param = map (\<lambda>tZ. Z0 + kappa * r * np_sin tZ) theta_Z;
               theta_ref = map2 (\<lambda>Zp Rp. arctan2pi (Zp - Z0) (Rp - R0)) Z_param R_param
           in Inr (if nrm
                   then (map (\<lambda>Rp. Rp - R0) R_param, map (\<lambda>Zp. Zp - Z0) Z_param, theta_ref)
                   else (R_param, Z_param, theta_ref)))
      | _ \<Rightarrow> Inl ValueError)"


text \<open>
  \<^verbatim>\<open>miller_general\<close>, lines 449-472, and \<^verbatim>\<open>mxh\<close>, lines 474-493. The number of
  harmonics is read off the length of the parameter vector, \<^verbatim>\<open>int((len(params)-2)/4)\<close>
  and \<^verbatim>\<open>int((len(params)-5)/2)\<close>; the harmonic sums are accumulated in the order of
  the loop. (Without harmonics \<^verbatim>\<open>miller_general\<close> returns numpy scalars; the model
  returns them once per angle.)
\<close>

definition miller_general :: "npfloat list \<Rightarrow> npfloat list \<Rightarrow> bool \<Rightarrow> error + curves" where
  "miller_general params theta nrm =
     (case params of
        aR_0 # aZ_0 # coeffs \<Rightarrow>
          (let R0 = Fin 0.5 * aR_0;
               Z0 = Fin 0.5 * aZ_0;
               N = length coeffs div 4;
               R_fourier = map (\<lambda>t. foldl (\<lambda>acc n. acc
                                   + (coeffs ! ((n - 1) * 4) * np_cos (Fin (real n) * t)
                                      + coeffs ! (1 + (n - 1) * 4) * np_sin (Fin (real n) * t)))
                                 (Fin 0) [1..<N + 1]) theta;
               Z_fourier = map (\<lambda>t. foldl (\<lambda>acc n. acc
                                   + (coeffs ! (2 + (n - 1) * 4) * np_cos (Fin (real n) * t)
                                      + coeffs ! (3 + (n - 1) * 4) * np_sin (Fin (real n) * t)))
                                 (Fin 0) [1..<N + 1]) theta;
               R_param = map (\<lambda>Rf. R0 + Rf) R_fourier;
               Z_param = map (\<lambda>Zf. Z0 + Zf) Z_fourier;
               theta_ref = map2 (\<lambda>Zp Rp. arctan2pi (Zp - Z0) (Rp - R0)) Z_param R_param
           in Inr (if nrm
                   then (map (\<lambda>Rp. Rp - R0) R_param, map (\<lambda>Zp. Zp - Z0) Z_param, theta_ref)
                   else (R_param, Z_param, theta_ref)))
      | _ \<Rightarrow> Inl ValueError)"

definition mxh :: "npfloat list \<Rightarrow> npfloat list \<Rightarrow> bool \<Rightarrow> error + curves" where
  "mxh params theta nrm =
     (case params of
        R0 # Z0 # r # kappa # c_0 # coeffs \<Rightarrow>
          (let N = length coeffs div 2;
               theta_R = map (\<lambda>t. foldl (\<lambda>acc n. acc
                                 + (coeffs ! ((n - 1) * 2) * np_cos (Fin (real n) * t)
                                    + coeffs ! (1 + (n - 1) * 2) * np_sin (Fin (real n) * t)))
                               (t + c_0) [1..<N + 1]) theta;
               R_param = map (\<lambda>tR. R0 + r * np_cos tR) theta_R;
               Z_param = map (\<lambda>t. Z0 + kappa * r * np_sin t) theta;
               theta_ref = map2 (\<lambda>Zp Rp. arctan2pi (Zp - Z0) (Rp - R0)) Z_param R_param
           in Inr (if nrm
                   then (map (\<lambda>Rp. Rp - R0) R_param, map (\<lambda>Zp. Zp - Z0) Z_param, theta_ref)
                   else (R_param, Z_param, theta_ref)))
      | _ \<Rightarrow> Inl ValueError)"

text \<open>The entry \<^verbatim>\<open>'param'\<close> of the table of models, for a method of the table.\<close>

definition geometry_of :: "string \<Rightarrow> npfloat list \<Rightarrow> npfloat list \<Rightarrow> bool \<Rightarrow> error + curves" where
  "geometry_of method =
     (if method = ''miller'' then miller
      else if method = ''turnbull'' then turnbull
      else if method = ''turnbull_tilt'' then turnbull_tilt
      else if method = ''miller_general'' then miller_general
      else mxh)"


section \<open>Poloidal-field models\<close>

text \<open>
  An elementwise operation on two one-dimensional arrays. numpy broadcasts an array of
  length one against the other and raises \<^verbatim>\<open>ValueError\<close> for any other pair of
  different lengths.
\<close>

definition np_map2 ::
  "(npfloat \<Rightarrow> npfloat \<Rightarrow> npfloat) \<Rightarrow> npfloat list \<Rightarrow> npfloat list \<Rightarrow> error + npfloat list" where
  "np_map2 f xs ys =
     (if length xs = length ys then Inr (map2 f xs ys)
      else if length xs = 1 then Inr (map (f (hd xs)) ys)
      else if length ys = 1 then Inr (map (\<lambda>x. f x (hd ys)) xs)
      else Inl ValueError)"

text \<open>
  \<^verbatim>\<open>miller_bp\<close>, lines 306-337. The analytical branch, at one poloidal angle \<open>t\<close>
  and major radius \<open>R\<close>:
  \<^verbatim>\<open>
  Bp_nom = np.sqrt(np.sin(theta_R)**2 + (1 + x * np.cos(theta))**2 + kappa**2 * np.cos(theta)**2)
  Bp_denom = np.cos(x * np.sin(theta)) + dR0dr * np.cos(theta)
             + (s_kappa - s_delta * np.cos(theta) + (1+ s_kappa) * x * np.cos(theta))
               * np.sin(theta) * np.sin(theta_R)
  Bp_param = (dPsi_dr / (R * kappa)) * Bp_nom / Bp_denom
  \<close>
\<close>

definition miller_bp_analytical ::
  "npfloat \<Rightarrow> npfloat \<Rightarrow> npfloat \<Rightarrow> npfloat \<Rightarrow> npfloat \<Rightarrow> npfloat \<Rightarrow> npfloat \<Rightarrow> npfloat \<Rightarrow> npfloat" where
  "miller_bp_analytical kappa delta dR0dr s_kappa s_delta dPsi_dr t R =
     (let x = np_arcsin delta;
          theta_R = t + x * np_sin t;
          Bp_nom = np_sqrt (np_pow (np_sin theta_R) 2 + np_pow (Fin 1 + x * np_cos t) 2
                            + np_pow kappa 2 * np_pow (np_cos t) 2);
          Bp_denom = np_cos (x * np_sin t) + dR0dr * np_cos t
                     + (s_kappa - s_delta * np_cos t + (Fin 1 + s_kappa) * x * np_cos t)
                       * np_sin t * np_sin theta_R
      in (dPsi_dr / (R * kappa)) * Bp_nom / Bp_denom)"

text \<open>
  The numerical branch of \<^verbatim>\<open>miller_bp\<close> starts with line 322,
  \<^verbatim>\<open>dRdtheta = - r * np.sin(theta_R)(1 + x * np.cos(theta))\<close>
  which calls the array \<^verbatim>\<open>np.sin(theta_R)\<close> as a function (the sibling
  \<^verbatim>\<open>turnbull_bp\<close> has \<^verbatim>\<open>np.sin(theta_R) * dtheta_Rdtheta\<close> here): Python raises
  \<^verbatim>\<open>TypeError\<close>, an array is not callable. With any other method string no branch
  assigns \<^verbatim>\<open>Bp_param\<close> and the \<^verbatim>\<open>return\<close> raises \<^verbatim>\<open>UnboundLocalError\<close>.
\<close>

definition miller_bp ::
  "npfloat list \<Rightarrow> npfloat list \<Rightarrow> npfloat list \<Rightarrow> npfloat list \<Rightarrow> npfloat \<Rightarrow> string
   \<Rightarrow> error + npfloat list" where
  "miller_bp params shape theta R dPsi_dr method =
     (case shape of
        [R0, Z0, r, kappa, delta] \<Rightarrow>
          (case params of
             [dR0dr, dZ0dr, s_kappa, s_delta] \<Rightarrow>
               if method = ''analytical'' then
                 np_map2 (miller_bp_analytical kappa delta dR0dr s_kappa s_delta dPsi_dr) theta R
               else if method = ''numerical'' then Inl TypeError
               else Inl UnboundLocalError
           | _ \<Rightarrow> Inl ValueError)
      | _ \<Rightarrow> Inl ValueError)"

text \<open>
  \<^verbatim>\<open>turnbull_bp\<close>, lines 357-391: the quantities shared by its two branches, then
  the analytical and the numerical branch at one poloidal angle \<open>t\<close> and major radius
  \<open>R\<close>.
\<close>

definition turnbull_theta_R :: "npfloat \<Rightarrow> npfloat \<Rightarrow> npfloat" where
  "turnbull_theta_R delta t = t + np_arcsin delta * np_sin t"

definition turnbull_dtheta_Rdtheta :: "npfloat \<Rightarrow> npfloat \<Rightarrow> npfloat" where
  "turnbull_dtheta_Rdtheta delta t = Fin 1 + np_arcsin delta * np_cos t"

definition turnbull_theta_Z :: "npfloat \<Rightarrow> npfloat \<Rightarrow> npfloat" where
  "turnbull_theta_Z zeta t = t + zeta * np_sin (Fin 2 * t)"

definition turnbull_dtheta_Zdtheta :: "npfloat \<Rightarrow> npfloat \<Rightarrow> npfloat" where
  "turnbull_dtheta_Zdtheta zeta t = Fin 1 + Fin 2 * zeta * np_cos (Fin 2 * t)"

definition turnbull_bp_analytical ::
  "npfloat \<Rightarrow> npfloat \<Rightarrow> npfloat \<Rightarrow> npfloat \<Rightarrow> npfloat \<Rightarrow> npfloat \<Rightarrow> npfloat \<Rightarrow> npfloat \<Rightarrow> npfloat
   \<Rightarrow> npfloat \<Rightarrow> npfloat \<Rightarrow> npfloat" where
  "turnbull_bp_analytical kappa delta zeta dR0dr dZ0dr s_kappa s_delta s_zeta dPsi_dr t R =
     (let theta_R = turnbull_theta_R delta t;
          dtheta_Rdtheta = turnbull_dtheta_Rdtheta delta t;
          theta_Z = turnbull_theta_Z zeta t;
          dtheta_Zdtheta = turnbull_dtheta_Zdtheta zeta t;
          Bp_nom = np_sqrt (np_pow (np_sin theta_R) 2 * np_pow dtheta_Rdtheta 2
                     + np_pow kappa 2 * np_pow (np_cos theta_Z) 2 * np_pow dtheta_Zdtheta 2);
          Bp_denom = kappa * np_cos theta_Z * dtheta_Zdtheta
                       * (dR0dr + np_cos theta_R - s_delta * np_sin t * np_sin theta_R)
                     + np_sin theta_R * dtheta_Rdtheta
                       * (dZ0dr + kappa * ((s_kappa + Fin 1) * np_sin theta_Z
                                           + s_zeta * np_sin (Fin 2 * t) * np_cos theta_Z))
      in (dPsi_dr / R) * Bp_nom / Bp_denom)"

definition turnbull_bp_numerical ::
  "npfloat \<Rightarrow> npfloat \<Rightarrow> npfloat \<Rightarrow> npfloat \<Rightarrow> npfloat \<Rightarrow> npfloat \<Rightarrow> npfloat \<Rightarrow> npfloat \<Rightarrow> npfloat
   \<Rightarrow> npfloat \<Rightarrow> npfloat \<Rightarrow> npfloat \<Rightarrow> npfloat" where
  "turnbull_bp_numerical r kappa delta zeta dR0dr dZ0dr s_kappa s_delta s_zeta dPsi_dr t R =
     (let theta_R = turnbull_theta_R delta t;
          dtheta_Rdtheta = turnbull_dtheta_Rdtheta delta t;
          theta_Z = turnbull_theta_Z zeta t;
          dRdtheta = - r * np_sin theta_R * dtheta_Rdtheta;
          dZdtheta = kappa * r * np_cos theta_Z * (Fin 1 + Fin 2 * zeta * np_cos (Fin 2 * t));
          dRdr = dR0dr + np_cos theta_R - s_delta * np_sin t * np_sin theta_R;
          dZdr = dZ0dr + kappa * ((s_kappa + Fin 1) * np_sin theta_Z
                                  + s_zeta * np_sin (Fin 2 * t) * np_cos theta_Z);
          J_r = R * (dRdr * dZdtheta - dRdtheta * dZdr);
          dl_dtheta = np_sqrt (np_pow dRdtheta 2 + np_pow dZdtheta 2);
          grad_r_norm = (R / J_r) * dl_dtheta
      in (dPsi_dr / R) * grad_r_norm)"

definition turnbull_bp ::
  "npfloat list \<Rightarrow> npfloat list \<Rightarrow> npfloat list \<Rightarrow> npfloat list \<Rightarrow> npfloat \<Rightarrow> string
   \<Rightarrow> error + npfloat list" where
  "turnbull_bp params shape theta R dPsi_dr method =
     (case shape of
        [R0, Z0, r, kappa, delta, zeta] \<Rightarrow>
          (case params of
             [dR0dr, dZ0dr, s_kappa, s_delta, s_zeta] \<Rightarrow>
               if method = ''analytical'' then
                 np_map2 (turnbull_bp_analytical kappa delta zeta dR0dr dZ0dr s_kappa s_delta
                            s_zeta dPsi_dr) theta R
               else if method = ''numerical'' then
                 np_map2 (turnbull_bp_numerical r kappa delta zeta dR0dr dZ0dr s_kappa s_delta
                            s_zeta dPsi_dr) theta R
               else Inl UnboundLocalError
           | _ \<Rightarrow> Inl ValueError)
      | _ \<Rightarrow> Inl ValueError)"


section \<open>Analytic geometry extractor\<close>

text \<open>
  \<^verbatim>\<open>extract_analytic_geo\<close>, lines 562-607. The scalars of the flux-surface record that
  it reads, and the poloidal angles of the contour.
\<close>

record fluxsurface =
  fs_R0 :: npfloat
  fs_Z0 :: npfloat
  fs_r :: npfloat
  fs_R_Zmax :: npfloat
  fs_Z_max :: npfloat
  fs_R_Zmin :: npfloat
  fs_Z_min :: npfloat
  fs_theta_RZ :: "npfloat list"

text \<open>The returned dictionary \<^verbatim>\<open>miller_geo\<close>, one field per key.\<close>

record miller_geo =
  geo_delta_u :: npfloat
  geo_delta_l :: npfloat
  geo_delta :: npfloat
  geo_kappa :: npfloat
  geo_zeta_uo :: npfloat
  geo_zeta_ui :: npfloat
  geo_zeta_li :: npfloat
  geo_zeta_lo :: npfloat
  geo_zeta :: npfloat
  geo_R_miller :: "npfloat list"
  geo_Z_miller :: "npfloat list"

text \<open>
  \<^verbatim>\<open>theta_zeta = np.array([0.25*np.pi,0.75*np.pi,1.25*np.pi,1.75*np.pi])\<close>
\<close>

definition theta_zeta :: "real list" where
  "theta_zeta = [0.25 * pi, 0.75 * pi, 1.25 * pi, 1.75 * pi]"

text \<open>
  Lines 582-588 resample the contour with \<^verbatim>\<open>scipy.interpolate.interp1d\<close> and
  \<^verbatim>\<open>utils.find\<close> and evaluate the interpolant at each quadrant angle; that
  interpolation is the argument \<open>Z_at\<close>, which gives \<^verbatim>\<open>Z_zeta[i]\<close> for the
  quadrant angle \<^verbatim>\<open>theta_zeta[i]\<close>. The rest is the arithmetic of the function:
  \<^verbatim>\<open>
  zeta_4q = np.arcsin((Z_zeta-fluxsurface['Z0'])/(miller_geo['kappa']*fluxsurface['r']))/np.sin(2*theta_zeta)
  zeta_4q = np.array([1,-1,-1,1])*zeta_4q+np.array([0,-np.pi,-np.pi,0])
  miller_geo['zeta_uo'] = zeta_4q[0] - (theta_zeta[0]/np.sin(2*theta_zeta[0]))
  miller_geo['zeta_ui'] = zeta_4q[1] - (theta_zeta[1]/np.sin(2*theta_zeta[1]))
  miller_geo['zeta_li'] = zeta_4q[2] - (theta_zeta[1]/np.sin(2*theta_zeta[1]))
  miller_geo['zeta_lo'] = zeta_4q[3] - (theta_zeta[0]/np.sin(2*theta_zeta[0]))
  miller_geo['zeta'] = 0.25*(miller_geo['zeta_uo']+miller_geo['zeta_ui']+miller_geo['zeta_li']+miller_geo['zeta_lo'])
  \<close>
\<close>

definition zeta_4q_raw :: "fluxsurface \<Rightarrow> npfloat \<Rightarrow> (real \<Rightarrow> npfloat) \<Rightarrow> npfloat list" where
  "zeta_4q_raw fs kap Z_at =
     map (\<lambda>q. np_arcsin ((Z_at q - fs_Z0 fs) / (kap * fs_r fs)) / np_sin (Fin (2 * q)))
       theta_zeta"

definition zeta_4q :: "fluxsurface \<Rightarrow> npfloat \<Rightarrow> (real \<Rightarrow> npfloat) \<Rightarrow> npfloat list" where
  "zeta_4q fs kap Z_at =
     map2 (+) (map2 (*) [Fin 1, Fin (- 1), Fin (- 1), Fin 1] (zeta_4q_raw fs kap Z_at))
       [Fin 0, Fin (- pi), Fin (- pi), Fin 0]"

definition extract_analytic_geo :: "(real \<Rightarrow> npfloat) \<Rightarrow> fluxsurface \<Rightarrow> miller_geo" where
  "extract_analytic_geo Z_at fs =
     (let d_u = (fs_R0 fs - fs_R_Zmax fs) / fs_r fs;
          d_l = (fs_R0 fs - fs_R_Zmin fs) / fs_r fs;
          d = (d_u + d_l) / Fin 2;
          x = np_arcsin d;
          kap = (fs_Z_max fs - fs_Z_min fs) / (Fin 2 * fs_r fs);
          R_mil = map (\<lambda>t. fs_R0 fs + fs_r fs * np_cos (t + x * np_sin t)) (fs_theta_RZ fs);
          z4 = zeta_4q fs kap Z_at;
          z_uo = z4 ! 0 - Fin (theta_zeta ! 0) / np_sin (Fin (2 * theta_zeta ! 0));
          z_ui = z4 ! 1 - Fin (theta_zeta ! 1) / np_sin (Fin (2 * theta_zeta ! 1));
          z_li = z4 ! 2 - Fin (theta_zeta ! 1) / np_sin (Fin (2 * theta_zeta ! 1));
          z_lo = z4 ! 3 - Fin (theta_zeta ! 0) / np_sin (Fin (2 * theta_zeta ! 0));
          z = Fin 0.25 * (z_uo + z_ui + z_li + z_lo)
      in \<lparr> geo_delta_u = d_u, geo_delta_l = d_l, geo_delta = d, geo_kappa = kap,
           geo_zeta_uo = z_uo, geo_zeta_ui = z_ui, geo_zeta_li = z_li, geo_zeta_lo = z_lo, geo_zeta = z,
           geo_R_miller = R_mil,
           geo_Z_miller = map (\<lambda>t. fs_Z0 fs + kap * fs_r fs * np_sin (t + z * np_sin (Fin 2 * t)))
                        (fs_theta_RZ fs) \<rparr>)"

text \<open>
  The squareness as the specification words it: at each of the four quadrant angles the
  quantity \<open>arcsin((Z_\<zeta> - Z0) / (\<kappa> r)) / sin(2 \<theta>)\<close>, a sign flip and a shift by
  \<open>\<pi>\<close> on the two middle quadrants, the subtraction of \<open>\<theta> / sin(2 \<theta>)\<close> for that same
  quadrant's angle, and the average of the four corrected values.
\<close>

definition spec_corrected :: "fluxsurface \<Rightarrow> npfloat \<Rightarrow> (real \<Rightarrow> npfloat) \<Rightarrow> nat \<Rightarrow> npfloat" where
  "spec_corrected fs kap Z_at i =
     (let q = theta_zeta ! i;
          raw = np_arcsin ((Z_at q - fs_Z0 fs) / (kap * fs_r fs)) / np_sin (Fin (2 * q));
          flipped = (if i = 1 \<or> i = 2 then - raw - Fin pi else raw)
      in flipped - Fin q / np_sin (Fin (2 * q)))"

definition spec_zeta :: "fluxsurface \<Rightarrow> npfloat \<Rightarrow> (real \<Rightarrow> npfloat) \<Rightarrow> npfloat" where
  "spec_zeta fs kap Z_at =
     Fin 0.25 * (spec_corrected fs kap Z_at 0 + spec_corrected fs kap Z_at 1
                 + spec_corrected fs kap Z_at 2 + spec_corrected fs kap Z_at 3)"

text \<open>
  An example contour: the ellipse \<open>R = 1.7 + 0.5 cos \<theta>\<close>, \<open>Z = sin \<theta>\<close> (elongation 2,
  no triangularity, no squareness), with the value of \<open>Z\<close> on the contour at each
  quadrant angle.
\<close>

definition ellipse_contour :: fluxsurface where
  "ellipse_contour =
     \<lparr> fs_R0 = Fin (17/10), fs_Z0 = Fin 0, fs_r = Fin (1/2),
       fs_R_Zmax = Fin (17/10), fs_Z_max = Fin 1,
       fs_R_Zmin = Fin (17/10), fs_Z_min = Fin (- 1),
       fs_theta_RZ = [] \<rparr>"

definition ellipse_Z_at :: "real \<Rightarrow> npfloat" where
  "ellipse_Z_at q = Fin (sin q)"


section \<open>The cost function of the shape fit\<close>

text \<open>
  \<^verbatim>\<open>cost_param\<close>, lines 495-519. The attributes of the object that it reads: the
  poloidal grid \<^verbatim>\<open>self.theta\<close>, its resolution \<^verbatim>\<open>self.n_theta\<close>, the cost mode
  \<^verbatim>\<open>self.cost_param_f\<close>, the contour \<^verbatim>\<open>self.fs['theta_RZ']\<close>, \<^verbatim>\<open>self.fs['R']\<close>,
  \<^verbatim>\<open>self.fs['Z']\<close> with its flux \<^verbatim>\<open>self.fs['psi']\<close>, and the profiles
  \<^verbatim>\<open>self.eq.derived['psi']\<close> and \<^verbatim>\<open>self.eq.derived['fpol']\<close>.
\<close>

record cost_ctx =
  cc_theta :: "npfloat list"
  cc_n_theta :: int
  cc_cost_param_f :: string
  cc_theta_RZ :: "npfloat list"
  cc_R :: "npfloat list"
  cc_Z :: "npfloat list"
  cc_psi :: npfloat
  cc_derived_psi :: "npfloat list"
  cc_derived_fpol :: "npfloat list"

text \<open>
  The geometry model \<^verbatim>\<open>self.param\<close> is the argument \<open>param\<close>. The interpolation
  \<^verbatim>\<open>scipy.interpolate.interp1d(x, y, bounds_error=False, ...)\<close> is the argument
  \<open>interp1d\<close>: \<open>interp1d ex xs ys t\<close> is the interpolant of the samples \<open>(xs, ys)\<close>
  evaluated at \<open>t\<close>, with \<^verbatim>\<open>fill_value='extrapolate'\<close> when \<open>ex\<close> holds; applied to
  an array it works elementwise.

  \<^verbatim>\<open>self.theta[0]\<close> and \<^verbatim>\<open>params[0]\<close>, \<^verbatim>\<open>params[1]\<close> raise \<^verbatim>\<open>IndexError\<close> on
  arrays that are too short, and numpy rejects the ragged
  \<^verbatim>\<open>np.array([self.R_param,self.Z_param])\<close> with \<^verbatim>\<open>ValueError\<close> (the geometry models
  return three arrays of one length). A cost mode other than the three known ones leaves
  \<^verbatim>\<open>cost\<close> unassigned, and the \<^verbatim>\<open>return\<close> raises \<^verbatim>\<open>UnboundLocalError\<close>.
  \<^verbatim>\<open>
  L1_norm = np.abs(np.array([self.R_param,self.Z_param])-np.array([self.R_ref,self.Z_ref])).flatten()
  L2_norm = np.sqrt((self.R_param-self.R_ref)**2+(self.Z_param-self.Z_ref)**2)
  if self.cost_param_f == 'l1l2':
      cost = self.n_theta*np.hstack((L2_norm,L1_norm))
  \<close>
\<close>

definition L1_norm ::
  "npfloat list \<Rightarrow> npfloat list \<Rightarrow> npfloat list \<Rightarrow> npfloat list \<Rightarrow> npfloat list" where
  "L1_norm R_param Z_param R_ref Z_ref =
     map2 (\<lambda>a b. \<bar>a - b\<bar>) R_param R_ref @ map2 (\<lambda>a b. \<bar>a - b\<bar>) Z_param Z_ref"

definition L2_norm ::
  "npfloat list \<Rightarrow> npfloat list \<Rightarrow> npfloat list \<Rightarrow> npfloat list \<Rightarrow> npfloat list" where
  "L2_norm R_param Z_param R_ref Z_ref =
     map2 (\<lambda>dR dZ. np_sqrt (np_pow dR 2 + np_pow dZ 2))
       (map2 (-) R_param R_ref) (map2 (-) Z_param Z_ref)"

definition cost_param ::
  "(npfloat list \<Rightarrow> npfloat list \<Rightarrow> bool \<Rightarrow> error + curves)
   \<Rightarrow> (bool \<Rightarrow> npfloat list \<Rightarrow> npfloat list \<Rightarrow> npfloat \<Rightarrow> npfloat)
   \<Rightarrow> cost_ctx \<Rightarrow> npfloat list \<Rightarrow> error + npfloat list" where
  "cost_param param interp1d c params =
     (case cc_theta c of
        [] \<Rightarrow> Inl IndexError
      | t0 # _ \<Rightarrow>
          (case param params (cc_theta c @ [t0]) True of
             Inl e \<Rightarrow> Inl e
           | Inr (R_param, Z_param, theta_ref) \<Rightarrow>
               (case params of
                  p0 # p1 # _ \<Rightarrow>
                    if length R_param \<noteq> length theta_ref \<or> length Z_param \<noteq> length theta_ref
                    then Inl ValueError
                    else
                      (let R_ref = map (\<lambda>t. interp1d True (cc_theta_RZ c) (cc_R c) t - p0) theta_ref;
                           Z_ref = map (\<lambda>t. interp1d True (cc_theta_RZ c) (cc_Z c) t - p1) theta_ref;
                           L1 = L1_norm R_param Z_param R_ref Z_ref;
                           L2 = L2_norm R_param Z_param R_ref Z_ref;
                           n = Fin (of_int (cc_n_theta c))
                       in if cc_cost_param_f c = ''l1l2'' then Inr (map (\<lambda>v. n * v) (L2 @ L1))
                          else
                            (let B = interp1d False (cc_derived_psi c) (cc_derived_fpol c) (cc_psi c);
                                 Bt_param = map (\<lambda>Rp. B / (Rp + p0)) R_param;
                                 Bt_ref = map (\<lambda>Rr. B / (Rr + p0)) R_ref
                             in if cc_cost_param_f c = ''Bt4'' then
                                  (let filt = map (\<lambda>b. np_pow b 4) Bt_ref
                                   in Inr (map2 (*) filt L2 @ map2 (*) L1 (filt @ filt)))
                                else if cc_cost_param_f c = ''l1Bt'' then
                                  (let L1_btor = map2 (\<lambda>br bp. np_pow br 2 * \<bar>bp - br\<bar>) Bt_ref Bt_param
                                   in Inr (map (\<lambda>v. n * v) (L1 @ L1_btor)))
                                else Inl UnboundLocalError))
                | _ \<Rightarrow> Inl IndexError)))"

text \<open>
  An example for the cost function: a contour that is the circle of radius \<open>1/2\<close> about
  \<open>(1, 0)\<close> sampled at the angles \<open>0\<close> and \<open>\<pi>\<close>, with an interpolation that returns
  the nearer of the two samples.
\<close>

definition example_ctx :: cost_ctx where
  "example_ctx =
     \<lparr> cc_theta = [Fin 0], cc_n_theta = 1, cc_cost_param_f = ''l1l2'',
       cc_theta_RZ = [Fin 0, Fin pi], cc_R = [Fin (3/2), Fin (1/2)], cc_Z = [Fin 0, Fin 0],
       cc_psi = Fin 0, cc_derived_psi = [], cc_derived_fpol = [] \<rparr>"

definition nearest_interp1d :: "bool \<Rightarrow> npfloat list \<Rightarrow> npfloat list \<Rightarrow> npfloat \<Rightarrow> npfloat" where
  "nearest_interp1d ex xs ys t =
     (case (xs, ys, t) of
        ([Fin x0, Fin x1], [y0, y1], Fin s) \<Rightarrow> if \<bar>s - x0\<bar> \<le> \<bar>s - x1\<bar> then y0 else y1
      | _ \<Rightarrow> NaN)"


section \<open>The table of models and the shear parameters\<close>

text \<open>
  \<^verbatim>\<open>'{}'.format(n)\<close> for a harmonic number: the decimal digits of \<open>n\<close>.
\<close>

definition digit_char :: "nat \<Rightarrow> char" where
  "digit_char d = ''0123456789'' ! d"

function str_nat :: "nat \<Rightarrow> string" where
  "str_nat n = (if n < 10 then [digit_char n] else str_nat (n div 10) @ [digit_char (n mod 10)])"
  by pat_completeness auto
termination
  by (relation "measure id") auto

declare str_nat.simps [simp del]

text \<open>
  The dictionary \<^verbatim>\<open>self._methods\<close>, lines 25-75: for each model its initial guess
  and labels for the shape parameters and for the poloidal-field (shear) parameters. The
  entries that hold the bound methods and the bounds are not needed here.
\<close>

record method_entry =
  param_initial :: "npfloat list"
  param_labels :: "string list"
  bpol_initial :: "npfloat list"
  bpol_labels :: "string list"

definition miller_general_labels :: "nat \<Rightarrow> string list" where
  "miller_general_labels n_harmonics =
     [''aR_0'', ''aZ_0'']
     @ concat (map (\<lambda>n. [''aR_'' @ str_nat n, ''bR_'' @ str_nat n,
                         ''aZ_'' @ str_nat n, ''bZ_'' @ str_nat n])
               [1..<n_harmonics + 1])"

definition methods_table :: "nat \<Rightarrow> (string \<times> method_entry) list" where
  "methods_table n_harmonics =
     [(''miller'',
        \<lparr> param_initial = [Fin 0, Fin 0, Fin 0, Fin 1, Fin 0],
          param_labels = [''R0'', ''Z0'', ''r'', ''kappa'', ''delta''],
          bpol_initial = [Fin 0, Fin 0, Fin 0, Fin 0],
          bpol_labels = [''dR0dr'', ''dZ0dr'', ''s_kappa'', ''s_delta''] \<rparr>),
      (''turnbull'',
        \<lparr> param_initial = [Fin 0, Fin 0, Fin 0, Fin 1, Fin 0, Fin 0],
          param_labels = [''R0'', ''Z0'', ''r'', ''kappa'', ''delta'', ''zeta''],
          bpol_initial = [Fin 0, Fin 0, Fin 0, Fin 0, Fin 0],
          bpol_labels = [''dR0dr'', ''dZ0dr'', ''s_kappa'', ''s_delta'', ''s_zeta''] \<rparr>),
      (''turnbull_tilt'',
        \<lparr> param_initial = [Fin 0, Fin 0, Fin 0, Fin 1, Fin 0, Fin 0, Fin 0],
          param_labels = [''R0'', ''Z0'', ''r'', ''kappa'', ''delta'', ''zeta'', ''tilt''],
          bpol_initial = [Fin 0, Fin 0, Fin 0, Fin 0, Fin 0, Fin 0],
          bpol_labels = [''dR0dr'', ''dZ0dr'', ''s_kappa'', ''s_delta'', ''s_zeta'', ''s_tilt''] \<rparr>),
      (''miller_general'',
        \<lparr> param_initial = replicate (2 + 4 * n_harmonics) (Fin 0),
          param_labels = miller_general_labels n_harmonics,
          bpol_initial = replicate (2 + 4 * n_harmonics) (Fin 1),
          bpol_labels = map (\<lambda>label. ''d'' @ label @ ''dr'') (miller_general_labels n_harmonics) \<rparr>),
      (''mxh'',
        \<lparr> param_initial = replicate (5 + 2 * n_harmonics) (Fin 0),
          param_labels = [''R0'', ''Z0'', ''r'', ''kappa'', ''c_0'']
            @ concat (map (\<lambda>n. [''c_'' @ str_nat n, ''s_'' @ str_nat n]) [1..<n_harmonics + 1]),
          bpol_initial = replicate (4 + 2 * n_harmonics) (Fin 1),
          bpol_labels = [''dR0dr'', ''dZ0dr'', ''s_kappa'', ''dc_0dr'']
            @ concat (map (\<lambda>n. [''dc_'' @ str_nat n @ ''dr'', ''ds_'' @ str_nat n @ ''dr''])
                        [1..<n_harmonics + 1]) \<rparr>)]"

text \<open>
  \<^verbatim>\<open>self._methods[self.method]\<close>: a \<^verbatim>\<open>KeyError\<close> for a method that is not in the
  table.
\<close>

definition method_lookup :: "nat \<Rightarrow> string \<Rightarrow> error + method_entry" where
  "method_lookup n_harmonics method =
     (case map_of (methods_table n_harmonics) method of
        None \<Rightarrow> Inl KeyError
      | Some e \<Rightarrow> Inr e)"

text \<open>A dictionary access \<^verbatim>\<open>d[key]\<close>, and sequencing of steps that may raise.\<close>

definition dict_get :: "('k \<rightharpoonup> 'v) \<Rightarrow> 'k \<Rightarrow> error + 'v" where
  "dict_get d key = (case d key of None \<Rightarrow> Inl KeyError | Some v \<Rightarrow> Inr v)"

definition err_bind :: "error + 'a \<Rightarrow> ('a \<Rightarrow> error + 'b) \<Rightarrow> error + 'b" where
  "err_bind m f = (case m of Inl e \<Rightarrow> Inl e | Inr v \<Rightarrow> f v)"

text \<open>
  The radial profiles \<^verbatim>\<open>self.eq.fluxsurfaces['fit_geo'][key]\<close> are arrays with one
  entry per grid point. \<^verbatim>\<open>np.gradient(f, x, edge_order=2)\<close> is the argument
  \<open>gradient\<close>; it raises \<^verbatim>\<open>ValueError\<close> on arrays that are too short and otherwise
  returns an array of the length of \<open>f\<close>. Lines 221-229 build the dictionary
  \<^verbatim>\<open>s_deriv\<close> of the four shears that carry the factor \<open>r\<close>:
  \<^verbatim>\<open>
  s_kappa = r*dxdr*np.gradient(np.log(kappa),x,edge_order=2)
  s_delta = (r/np.sqrt(1-delta**2))*dxdr*np.gradient(delta,x,edge_order=2)
  s_zeta  = r*dxdr*np.gradient(zeta,x,edge_order=2)
  s_tilt  = r*dxdr*np.gradient(tilt,x,edge_order=2)
  \<close>
\<close>

type_synonym profile = "npfloat list"
type_synonym profiles = "string \<rightharpoonup> profile"

definition s_plain ::
  "(profile \<Rightarrow> profile \<Rightarrow> error + profile) \<Rightarrow> profile \<Rightarrow> profile \<Rightarrow> profiles \<Rightarrow> string
   \<Rightarrow> error + profile" where
  "s_plain gradient dxdr x fit_geo key =
     err_bind (dict_get fit_geo ''r'') (\<lambda>r.
     err_bind (dict_get fit_geo key) (\<lambda>prof.
     err_bind (gradient prof x) (\<lambda>g.
     Inr (map2 (*) (map2 (*) r dxdr) g))))"

definition s_deriv ::
  "(profile \<Rightarrow> profile \<Rightarrow> error + profile) \<Rightarrow> profile \<Rightarrow> profile \<Rightarrow> string list \<Rightarrow> profiles
   \<Rightarrow> error + profiles" where
  "s_deriv gradient dxdr x labels fit_geo =
     err_bind
       (if ''kappa'' \<in> set labels then
          err_bind (dict_get fit_geo ''r'') (\<lambda>r.
          err_bind (dict_get fit_geo ''kappa'') (\<lambda>kap.
          err_bind (gradient (map np_log kap) x) (\<lambda>g.
          Inr [''s_kappa'' \<mapsto> map2 (*) (map2 (*) r dxdr) g])))
        else Inr Map.empty) (\<lambda>s1.
     err_bind
       (if ''delta'' \<in> set labels then
          err_bind (dict_get fit_geo ''r'') (\<lambda>r.
          err_bind (dict_get fit_geo ''delta'') (\<lambda>del.
          err_bind (gradient del x) (\<lambda>g.
          Inr (s1(''s_delta'' \<mapsto>
                 map2 (*) (map2 (*) (map2 (/) r (map (\<lambda>d. np_sqrt (Fin 1 - np_pow d 2)) del))
                                      dxdr) g)))))
        else Inr s1) (\<lambda>s2.
     err_bind
       (if ''zeta'' \<in> set labels then
          err_bind (s_plain gradient dxdr x fit_geo ''zeta'') (\<lambda>v. Inr (s2(''s_zeta'' \<mapsto> v)))
        else Inr s2) (\<lambda>s3.
     if ''tilt'' \<in> set labels then
       err_bind (s_plain gradient dxdr x fit_geo ''tilt'') (\<lambda>v. Inr (s3(''s_tilt'' \<mapsto> v)))
     else Inr s3)))"

text \<open>
  Lines 231-237, the loop over the labels of the poloidal-field parameters:
  \<^verbatim>\<open>
  for i_key,key in enumerate(self.bpol_labels):
      if key in s_deriv.keys():
          self.eq.fluxsurfaces['fit_geo'][key] = s_deriv[key]
      else:
          self.eq.fluxsurfaces['fit_geo'][key] = self.dxdr*np.gradient(
              np.array(self.eq.fluxsurfaces['fit_geo'][self.param_labels[i_key]]),
              np.array(self.eq.fluxsurfaces[x_label]),edge_order=2)
      self.shape_bpol.append(self.eq.fluxsurfaces['fit_geo'][key][self.x_grid.index(self.x_loc)])
  \<close>
  \<open>bpol_value\<close> is the profile stored under \<open>key\<close> at position \<open>i_key\<close>;
  \<open>bpol_loop\<close> runs the loop from position \<open>i_key\<close> on, with \<open>i_x_loc\<close> the
  result of the lookup of the target location. It returns the error that ended it, if
  any, with the dictionary and the list \<^verbatim>\<open>self.shape_bpol\<close> as they are then: the
  entry of a key is stored before its value at the target location is read.
\<close>

definition bpol_value ::
  "(profile \<Rightarrow> profile \<Rightarrow> error + profile) \<Rightarrow> profile \<Rightarrow> profile \<Rightarrow> profiles \<Rightarrow> string list
   \<Rightarrow> profiles \<Rightarrow> nat \<Rightarrow> string \<Rightarrow> error + profile" where
  "bpol_value gradient dxdr x sd labels fit_geo i_key key =
     (case sd key of
        Some v \<Rightarrow> Inr v
      | None \<Rightarrow>
          if i_key < length labels then
            err_bind (dict_get fit_geo (labels ! i_key)) (\<lambda>prof.
            err_bind (gradient prof x) (\<lambda>g.
            Inr (map2 (*) dxdr g)))
          else Inl IndexError)"

fun bpol_loop ::
  "(profile \<Rightarrow> profile \<Rightarrow> error + profile) \<Rightarrow> profile \<Rightarrow> profile \<Rightarrow> profiles \<Rightarrow> string list
   \<Rightarrow> error + nat \<Rightarrow> nat \<Rightarrow> string list \<Rightarrow> profiles \<times> npfloat list
   \<Rightarrow> error option \<times> profiles \<times> npfloat list" where
  "bpol_loop gradient dxdr x sd labels i_x_loc i_key [] st = (None, st)"
| "bpol_loop gradient dxdr x sd labels i_x_loc i_key (key # keys) (fit_geo, shape_bpol) =
     (case bpol_value gradient dxdr x sd labels fit_geo i_key key of
        Inl e \<Rightarrow> (Some e, fit_geo, shape_bpol)
      | Inr v \<Rightarrow>
          (case i_x_loc of
             Inl e \<Rightarrow> (Some e, fit_geo(key \<mapsto> v), shape_bpol)
           | Inr j \<Rightarrow>
               if j < length v then
                 bpol_loop gradient dxdr x sd labels i_x_loc (Suc i_key) keys
                   (fit_geo(key \<mapsto> v), shape_bpol @ [v ! j])
               else (Some IndexError, fit_geo(key \<mapsto> v), shape_bpol)))"

text \<open>
  Lines 220-237 for a model of the table: the shears of \<^verbatim>\<open>s_deriv\<close>, then the loop.
\<close>

definition shape_bpol_of ::
  "(profile \<Rightarrow> profile \<Rightarrow> error + profile) \<Rightarrow> profile \<Rightarrow> profile \<Rightarrow> error + nat
   \<Rightarrow> method_entry \<Rightarrow> profiles \<Rightarrow> error option \<times> profiles \<times> npfloat list" where
  "shape_bpol_of gradient dxdr x i_x_loc m fit_geo =
     (case s_deriv gradient dxdr x (param_labels m) fit_geo of
        Inl e \<Rightarrow> (Some e, fit_geo, [])
      | Inr sd \<Rightarrow>
          bpol_loop gradient dxdr x sd (param_labels m) i_x_loc 0 (bpol_labels m) (fit_geo, []))"

text \<open>
  The shape parameter that a label of a poloidal-field parameter names: \<open>dR0dr\<close> names
  \<open>R0\<close>, \<open>dc_0dr\<close> names \<open>c_0\<close>. A model is aligned when each of its
  poloidal-field labels, other than the four shears of \<^verbatim>\<open>s_deriv\<close>, names the shape
  parameter at its own position, which is the one whose profile the loop differentiates.
\<close>

definition derivative_label :: "string \<Rightarrow> string" where
  "derivative_label label = ''d'' @ label @ ''dr''"

definition aligned :: "method_entry \<Rightarrow> bool" where
  "aligned m =
     list_all (\<lambda>(i, key). key \<in> {''s_kappa'', ''s_delta'', ''s_zeta'', ''s_tilt''}
                          \<or> (i < length (param_labels m)
                              \<and> key = derivative_label (param_labels m ! i)))
       (enumerate 0 (bpol_labels m))"

text \<open>
  An example for the shear loop: a three-point radial grid with \<open>r = x\<close>, profiles of
  an \<^verbatim>\<open>mxh\<close> fit with one harmonic in which the elongation grows linearly and the
  other shape parameters are constant, and a three-point difference scheme in the place of
  \<^verbatim>\<open>np.gradient\<close>.
\<close>

definition example_gradient :: "profile \<Rightarrow> profile \<Rightarrow> error + profile" where
  "example_gradient f x =
     (case (f, x) of
        ([f0, f1, f2], [x0, x1, x2]) \<Rightarrow>
          Inr [(f1 - f0) / (x1 - x0), (f2 - f0) / (x2 - x0), (f2 - f1) / (x2 - x1)]
      | _ \<Rightarrow> Inl ValueError)"

definition example_fit_geo :: profiles where
  "example_fit_geo =
     [''R0'' \<mapsto> [Fin (17/10), Fin (17/10), Fin (17/10)],
      ''Z0'' \<mapsto> [Fin 0, Fin 0, Fin 0],
      ''r'' \<mapsto> [Fin 1, Fin 2, Fin 3],
      ''kappa'' \<mapsto> [Fin 1, Fin 2, Fin 3],
      ''c_0'' \<mapsto> [Fin 0, Fin 0, Fin 0],
      ''c_1'' \<mapsto> [Fin 0, Fin 0, Fin 0],
      ''s_1'' \<mapsto> [Fin 0, Fin 0, Fin 0]]"


section \<open>The fit loop of the constructor\<close>

text \<open>
  The contents of the dictionary \<^verbatim>\<open>self.eq.fluxsurfaces\<close>, by the kind of its entries:
  scalar quantities (\<open>R0\<close>, \<open>Z0\<close>, \<open>r\<close>, \<open>psi\<close>, the radial coordinate, ...) and
  contours (\<open>R\<close>, \<open>Z\<close>, \<open>theta_RZ\<close>, \<open>Bpol\<close>), each a list with one entry per
  grid point, and the two nested dictionaries \<^verbatim>\<open>'miller_geo'\<close> (the output of the
  analytic extractor, one list per key) and \<^verbatim>\<open>'fit_geo'\<close> (the accumulated fit
  results), which may be absent. The entries \<^verbatim>\<open>key+'_opt'\<close> of \<^verbatim>\<open>'fit_geo'\<close>,
  which hold one number each, are kept apart in \<open>eq_fit_opt\<close>. The curves that the fit
  stores in \<^verbatim>\<open>'fit_geo'\<close> next to the fitted scalars are not modelled.
\<close>

record eqdata =
  eq_scalars :: "string \<rightharpoonup> npfloat list"
  eq_contours :: "string \<rightharpoonup> npfloat list list"
  eq_miller_geo :: "(string \<times> npfloat list) list option"
  eq_fit_geo :: "profiles option"
  eq_fit_opt :: "string \<rightharpoonup> npfloat"

text \<open>
  The dictionary \<^verbatim>\<open>self.fs\<close> of one grid point, lines 131-147: the entries of
  \<^verbatim>\<open>self.eq.fluxsurfaces\<close> under the keys \<open>R\<close>, \<open>Z\<close>, \<open>R0\<close>, \<open>Z0\<close>,
  \<open>theta_RZ\<close>, \<open>r\<close>, \<open>psi\<close> and the shape labels that are present, each read at the
  index of the grid point (an \<^verbatim>\<open>IndexError\<close> when the list is too short), and the
  entries of \<^verbatim>\<open>'miller_geo'\<close> at that index when that dictionary is present.
\<close>

record point =
  pt_scalars :: "string \<rightharpoonup> npfloat"
  pt_contours :: "string \<rightharpoonup> npfloat list"
  pt_miller_geo :: "(string \<rightharpoonup> npfloat) option"

fun pick_at :: "('k \<rightharpoonup> 'a list) \<Rightarrow> nat \<Rightarrow> 'k list \<Rightarrow> error + ('k \<rightharpoonup> 'a)" where
  "pick_at d i [] = Inr Map.empty"
| "pick_at d i (key # keys) =
     err_bind (pick_at d i keys) (\<lambda>m.
     case d key of
       None \<Rightarrow> Inr m
     | Some l \<Rightarrow> if i < length l then Inr (m(key \<mapsto> l ! i)) else Inl IndexError)"

definition point_at :: "eqdata \<Rightarrow> string list \<Rightarrow> nat \<Rightarrow> error + point" where
  "point_at e labels i =
     err_bind (pick_at (eq_scalars e) i ([''R0'', ''Z0'', ''r'', ''psi''] @ labels)) (\<lambda>sc.
     err_bind (pick_at (eq_contours e) i [''R'', ''Z'', ''theta_RZ'']) (\<lambda>co.
     err_bind
       (case eq_miller_geo e of
          None \<Rightarrow> Inr None
        | Some mg \<Rightarrow> err_bind (pick_at (map_of mg) i (map fst mg)) (\<lambda>m. Inr (Some m))) (\<lambda>mg.
     Inr \<lparr> pt_scalars = sc, pt_contours = co, pt_miller_geo = mg \<rparr>)))"

text \<open>
  Lines 152-157, the initial condition of the fit:
  \<^verbatim>\<open>
  for i_key,key in enumerate(self.param_labels):
      if key in self.fs['miller_geo']:
          self.param_initial[i_key] = copy.deepcopy(self.fs['miller_geo'][key])
      elif key in self.fs:
          self.param_initial[i_key] = copy.deepcopy(self.fs[key])
  \<close>
  \<^verbatim>\<open>self.fs['miller_geo']\<close> raises \<^verbatim>\<open>KeyError\<close> when the equilibrium has no
  \<^verbatim>\<open>'miller_geo'\<close>. No shape label is the key of a contour, so \<^verbatim>\<open>key in self.fs\<close>
  looks among the scalars. \<^verbatim>\<open>self.param_initial\<close> is assigned nowhere else: neither
  \<^verbatim>\<open>least_squares\<close>, which copies its starting vector, nor the statements after it
  write to the list.
\<close>

fun seed_loop :: "point \<Rightarrow> nat \<Rightarrow> string list \<Rightarrow> npfloat list \<Rightarrow> error + npfloat list" where
  "seed_loop pt i_key [] p_initial = Inr p_initial"
| "seed_loop pt i_key (key # keys) p_initial =
     (case pt_miller_geo pt of
        None \<Rightarrow> Inl KeyError
      | Some mg \<Rightarrow>
          (case mg key of
             Some v \<Rightarrow>
               if i_key < length p_initial
               then seed_loop pt (Suc i_key) keys (p_initial[i_key := v])
               else Inl IndexError
           | None \<Rightarrow>
               (case pt_scalars pt key of
                  Some v \<Rightarrow>
                    if i_key < length p_initial
                    then seed_loop pt (Suc i_key) keys (p_initial[i_key := v])
                    else Inl IndexError
                | None \<Rightarrow> seed_loop pt (Suc i_key) keys p_initial)))"

text \<open>
  What the fit of one grid point needs besides the flux surface: the geometry model
  \<^verbatim>\<open>self.param\<close> with its labels, the interpolation, the solver
  \<^verbatim>\<open>scipy.optimize.least_squares\<close> (the argument \<open>fe_least_squares\<close>: from a residual
  function and a starting vector to the vector \<^verbatim>\<open>['x']\<close> of the result), the poloidal
  grid and the settings of the cost function.
\<close>

record fit_env =
  fe_param :: "npfloat list \<Rightarrow> npfloat list \<Rightarrow> bool \<Rightarrow> error + curves"
  fe_interp1d :: "bool \<Rightarrow> npfloat list \<Rightarrow> npfloat list \<Rightarrow> npfloat \<Rightarrow> npfloat"
  fe_least_squares ::
    "(npfloat list \<Rightarrow> error + npfloat list) \<Rightarrow> npfloat list \<Rightarrow> error + npfloat list"
  fe_labels :: "string list"
  fe_theta :: "npfloat list"
  fe_n_theta :: int
  fe_cost_f :: string
  fe_derived_psi :: "npfloat list"
  fe_derived_fpol :: "npfloat list"

text \<open>
  Lines 152-197 for one grid point: the initial condition, the curves of the initial
  condition (line 159; \<^verbatim>\<open>self.theta[0]\<close> raises on an empty grid), the contour
  (\<^verbatim>\<open>KeyError\<close> when it is missing; \<^verbatim>\<open>self.fs['psi']\<close> is read by the cost modes
  other than \<^verbatim>\<open>'l1l2'\<close>), the solver, \<^verbatim>\<open>self.params[0]\<close> and
  \<^verbatim>\<open>self.params[1]\<close> of line 181, and the fitted values stored under the labels
  (lines 191-192). The result is the initial condition, the fitted vector and the scalars
  of \<^verbatim>\<open>self.fs\<close> that go into \<^verbatim>\<open>'fit_geo'\<close> (\<open>fit_scalars\<close>): the entries
  \<open>R0\<close>, \<open>Z0\<close>, \<open>r\<close>, \<open>psi\<close> of the flux surface that are no label, and the
  fitted value under each label.
\<close>

definition fit_scalars :: "string list \<Rightarrow> point \<Rightarrow> npfloat list \<Rightarrow> (string \<times> npfloat) list" where
  "fit_scalars labels pt params =
     filter (\<lambda>(key, v). key \<notin> set labels)
       (map (\<lambda>key. (key, the (pt_scalars pt key)))
          (filter (\<lambda>key. pt_scalars pt key \<noteq> None) [''R0'', ''Z0'', ''r'', ''psi'']))
     @ zip labels params"

definition fit_point ::
  "fit_env \<Rightarrow> point \<Rightarrow> npfloat list
   \<Rightarrow> error + npfloat list \<times> npfloat list \<times> (string \<times> npfloat) list" where
  "fit_point env pt p_initial =
     err_bind (seed_loop pt 0 (fe_labels env) p_initial) (\<lambda>seed.
     case fe_theta env of
       [] \<Rightarrow> Inl IndexError
     | t0 # _ \<Rightarrow>
         err_bind (fe_param env seed (fe_theta env @ [t0]) False) (\<lambda>geo.
         err_bind (dict_get (pt_contours pt) ''theta_RZ'') (\<lambda>theta_RZ.
         err_bind (dict_get (pt_contours pt) ''R'') (\<lambda>R.
         err_bind (dict_get (pt_contours pt) ''Z'') (\<lambda>Z.
         err_bind (if fe_cost_f env = ''l1l2'' then Inr NaN
                   else dict_get (pt_scalars pt) ''psi'') (\<lambda>psi.
         err_bind (fe_least_squares env
                     (cost_param (fe_param env) (fe_interp1d env)
                        \<lparr> cc_theta = fe_theta env, cc_n_theta = fe_n_theta env,
                          cc_cost_param_f = fe_cost_f env, cc_theta_RZ = theta_RZ,
                          cc_R = R, cc_Z = Z, cc_psi = psi,
                          cc_derived_psi = fe_derived_psi env,
                          cc_derived_fpol = fe_derived_fpol env \<rparr>)
                     seed) (\<lambda>params.
         if length params < 2 \<or> length params < length (fe_labels env) then Inl IndexError
         else Inr (seed, params, fit_scalars (fe_labels env) pt params))))))))"

text \<open>
  Modelled from the spec: \<^verbatim>\<open>merge_trees\<close> is imported from \<^verbatim>\<open>utils\<close>, which is not
  among the sources. The fit "writes into a single accumulating record keyed by radial
  location" and each profile "is indexed identically" to the radial grid: merging the
  dictionary of one grid point appends each of its values to the list under the same key.
\<close>

fun merge_trees :: "(string \<times> npfloat) list \<Rightarrow> profiles \<Rightarrow> profiles" where
  "merge_trees [] fit_geo = fit_geo"
| "merge_trees ((key, v) # kvs) fit_geo =
     merge_trees kvs (fit_geo(key \<mapsto> (case fit_geo key of None \<Rightarrow> [] | Some l \<Rightarrow> l) @ [v]))"

text \<open>
  The state of the loop of lines 125-199: the list \<^verbatim>\<open>self.param_initial\<close>, the
  dictionary \<^verbatim>\<open>self.eq.fluxsurfaces['fit_geo']\<close>, the vector \<^verbatim>\<open>self.shape\<close> once the
  target location has been fitted, and, for the statements below, the initial condition
  and the fitted vector of every grid point so far. A grid point whose fit raises ends
  the loop; what the earlier grid points have stored stays.
\<close>

record fit_state =
  st_param_initial :: "npfloat list"
  st_fit_geo :: profiles
  st_shape :: "npfloat list option"
  st_trace :: "(npfloat list \<times> npfloat list) list"

fun fit_loop ::
  "fit_env \<Rightarrow> eqdata \<Rightarrow> real \<Rightarrow> (nat \<times> real) list \<Rightarrow> fit_state \<Rightarrow> error option \<times> fit_state" where
  "fit_loop env e x_loc [] st = (None, st)"
| "fit_loop env e x_loc ((i_x_loc, xfs) # grid) st =
     (case err_bind (point_at e (fe_labels env) i_x_loc)
             (\<lambda>pt. fit_point env pt (st_param_initial st)) of
        Inl err \<Rightarrow> (Some err, st)
      | Inr (seed, params, fs) \<Rightarrow>
          fit_loop env e x_loc grid
            \<lparr> st_param_initial = seed,
              st_fit_geo = merge_trees fs (st_fit_geo st),
              st_shape = (if xfs = x_loc then Some params else st_shape st),
              st_trace = st_trace st @ [(seed, params)] \<rparr>)"

text \<open>
  An example for the fit loop: two grid points of an equilibrium whose flux surfaces are
  the circle of radius \<open>1/2\<close> about \<open>(1.7, 0)\<close>, sampled at the angles \<open>0\<close> and
  \<open>\<pi>\<close>; the analytic extractor has supplied \<open>kappa\<close>, \<open>delta\<close> and \<open>zeta\<close>.
  The model is \<^verbatim>\<open>turnbull_tilt\<close>, and in the place of the solver stands a function that
  evaluates the residual at the starting vector and returns that vector with the tilt
  moved to \<open>0.1\<close>.
\<close>

definition example_eq :: eqdata where
  "example_eq =
     \<lparr> eq_scalars = [''R0'' \<mapsto> [Fin (17/10), Fin (17/10)], ''Z0'' \<mapsto> [Fin 0, Fin 0],
                     ''r'' \<mapsto> [Fin (1/2), Fin (1/2)]],
       eq_contours = [''R'' \<mapsto> [ [Fin (11/5), Fin (6/5)], [Fin (11/5), Fin (6/5)]],
                      ''Z'' \<mapsto> [ [Fin 0, Fin 0], [Fin 0, Fin 0]],
                      ''theta_RZ'' \<mapsto> [ [Fin 0, Fin pi], [Fin 0, Fin pi]]],
       eq_miller_geo = Some [(''kappa'', [Fin 1, Fin 1]), (''delta'', [Fin 0, Fin 0]),
                             (''zeta'', [Fin 0, Fin 0])],
       eq_fit_geo = None, eq_fit_opt = Map.empty \<rparr>"

definition example_least_squares ::
  "(npfloat list \<Rightarrow> error + npfloat list) \<Rightarrow> npfloat list \<Rightarrow> error + npfloat list" where
  "example_least_squares cost x0 = err_bind (cost x0) (\<lambda>residual. Inr (x0[6 := Fin (1/10)]))"

definition example_env :: fit_env where
  "example_env =
     \<lparr> fe_param = turnbull_tilt, fe_interp1d = nearest_interp1d,
       fe_least_squares = example_least_squares,
       fe_labels = [''R0'', ''Z0'', ''r'', ''kappa'', ''delta'', ''zeta'', ''tilt''],
       fe_theta = [Fin 0], fe_n_theta = 1, fe_cost_f = ''l1l2'',
       fe_derived_psi = [], fe_derived_fpol = [] \<rparr>"

definition example_state :: fit_state where
  "example_state =
     \<lparr> st_param_initial = [Fin 0, Fin 0, Fin 0, Fin 1, Fin 0, Fin 0, Fin 0],
       st_fit_geo = Map.empty, st_shape = None, st_trace = [] \<rparr>"


section \<open>The constructor and the caller's equilibrium\<close>

text \<open>
  The poloidal grid of line 121 belongs to the geometry, whose floats are taken as
  reals: there \<^verbatim>\<open>np.linspace(start, stop, num)\<close> is the exact one, no sample for
  \<open>num = 0\<close>, the single sample \<open>start\<close> for \<open>num = 1\<close>, and otherwise
  \<open>start + i * step\<close> with \<open>step = (stop - start) / (num - 1)\<close>, the last sample being
  \<open>stop\<close>.
\<close>

definition linspace :: "real \<Rightarrow> real \<Rightarrow> nat \<Rightarrow> real list" where
  "linspace start stop num =
     (if num = 0 then []
      else if num = 1 then [start]
      else map (\<lambda>i. start + real i * ((stop - start) / real (num - 1))) [0..<num - 1] @ [stop])"

text \<open>
  Lines 114-121, the poloidal grid: the largest of the minima and the smallest of the
  maxima of the contours' angles, within \<open>[0, 2\<pi>]\<close>. \<^verbatim>\<open>np.min\<close> and \<^verbatim>\<open>np.max\<close>
  raise \<^verbatim>\<open>ValueError\<close> on an empty array and return nan when an entry is nan; a
  comparison with nan is false, so the two bounds stay numbers.
\<close>

definition np_min :: "npfloat list \<Rightarrow> error + npfloat" where
  "np_min xs =
     (case xs of
        [] \<Rightarrow> Inl ValueError
      | x # rest \<Rightarrow>
          Inr (foldl (\<lambda>a b. case (a, b) of (Fin u, Fin v) \<Rightarrow> Fin (min u v) | _ \<Rightarrow> NaN) x rest))"

definition np_max :: "npfloat list \<Rightarrow> error + npfloat" where
  "np_max xs =
     (case xs of
        [] \<Rightarrow> Inl ValueError
      | x # rest \<Rightarrow>
          Inr (foldl (\<lambda>a b. case (a, b) of (Fin u, Fin v) \<Rightarrow> Fin (max u v) | _ \<Rightarrow> NaN) x rest))"

fun theta_bounds :: "npfloat list list \<Rightarrow> real \<times> real \<Rightarrow> error + real \<times> real" where
  "theta_bounds [] b = Inr b"
| "theta_bounds (theta # thetas) (theta_min, theta_max) =
     err_bind (np_min theta) (\<lambda>lo.
     err_bind (np_max theta) (\<lambda>hi.
     theta_bounds thetas
       (case lo of Fin u \<Rightarrow> if u > theta_min then u else theta_min | NaN \<Rightarrow> theta_min,
        case hi of Fin v \<Rightarrow> if v < theta_max then v else theta_max | NaN \<Rightarrow> theta_max)))"

definition theta_grid :: "eqdata \<Rightarrow> int \<Rightarrow> error + npfloat list" where
  "theta_grid e n_theta =
     err_bind (dict_get (eq_contours e) ''theta_RZ'') (\<lambda>thetas.
     err_bind (theta_bounds thetas (0, 2 * pi)) (\<lambda>(theta_min, theta_max).
     if n_theta < 0 then Inl ValueError
     else Inr (map Fin (linspace theta_min theta_max (nat n_theta)))))"

text \<open>
  The objects of the program: an equilibrium, which refers to its dictionaries
  \<^verbatim>\<open>fluxsurfaces\<close> and \<^verbatim>\<open>derived\<close>, and those dictionaries. The store is the list
  of all objects, an address is a position in it, and a new object is put at the end.
  A step of the program takes the store and returns a result or an error with the new
  store.
\<close>

datatype obj =
    Equilibrium nat nat
  | FluxDict eqdata
  | DerivedDict "string \<rightharpoonup> npfloat list"

type_synonym store = "obj list"
type_synonym 'a prog = "store \<Rightarrow> (error + 'a) \<times> store"

definition h_return :: "'a \<Rightarrow> 'a prog" where
  "h_return v = (\<lambda>h. (Inr v, h))"

definition h_lift :: "error + 'a \<Rightarrow> 'a prog" where
  "h_lift r = (\<lambda>h. (r, h))"

definition h_bind :: "'a prog \<Rightarrow> ('a \<Rightarrow> 'b prog) \<Rightarrow> 'b prog" where
  "h_bind m f = (\<lambda>h. case m h of (Inl e, h') \<Rightarrow> (Inl e, h') | (Inr v, h') \<Rightarrow> f v h')"

text \<open>
  \<^verbatim>\<open>copy.deepcopy(equilibrium)\<close>, line 84: new dictionaries with the contents of the
  argument's, and a new equilibrium that refers to them. (An argument that is no
  equilibrium fails at the first access to an attribute; the model fails at once.)
\<close>

definition deepcopy :: "nat \<Rightarrow> nat prog" where
  "deepcopy a = (\<lambda>h.
     if a < length h then
       (case h ! a of
          Equilibrium f d \<Rightarrow>
            if f < length h \<and> d < length h then
              (case (h ! f, h ! d) of
                 (FluxDict F, DerivedDict D) \<Rightarrow>
                   (Inr (length h + 2),
                    h @ [FluxDict F, DerivedDict D, Equilibrium (length h) (length h + 1)])
               | _ \<Rightarrow> (Inl AttributeError, h))
            else (Inl AttributeError, h)
        | _ \<Rightarrow> (Inl AttributeError, h))
     else (Inl AttributeError, h))"

text \<open>
  \<^verbatim>\<open>copy.copy\<close>, for comparison: a new equilibrium that refers to the dictionaries of
  the argument.
\<close>

definition shallow_copy :: "nat \<Rightarrow> nat prog" where
  "shallow_copy a = (\<lambda>h.
     if a < length h then
       (case h ! a of
          Equilibrium f d \<Rightarrow> (Inr (length h), h @ [Equilibrium f d])
        | _ \<Rightarrow> (Inl AttributeError, h))
     else (Inl AttributeError, h))"

text \<open>
  Reading \<^verbatim>\<open>self.eq.fluxsurfaces\<close> and \<^verbatim>\<open>self.eq.derived\<close>, changing the dictionary
  \<^verbatim>\<open>self.eq.fluxsurfaces\<close> in place, and the assignment
  \<^verbatim>\<open>self.eq.fluxsurfaces = {}\<close> of line 107, which makes a new dictionary and lets the
  equilibrium refer to it.
\<close>

definition read_eq :: "nat \<Rightarrow> (eqdata \<times> (string \<rightharpoonup> npfloat list)) prog" where
  "read_eq b = (\<lambda>h.
     if b < length h then
       (case h ! b of
          Equilibrium f d \<Rightarrow>
            if f < length h \<and> d < length h then
              (case (h ! f, h ! d) of
                 (FluxDict F, DerivedDict D) \<Rightarrow> (Inr (F, D), h)
               | _ \<Rightarrow> (Inl AttributeError, h))
            else (Inl AttributeError, h)
        | _ \<Rightarrow> (Inl AttributeError, h))
     else (Inl AttributeError, h))"

definition modify_flux :: "nat \<Rightarrow> (eqdata \<Rightarrow> eqdata) \<Rightarrow> unit prog" where
  "modify_flux b g = (\<lambda>h.
     if b < length h then
       (case h ! b of
          Equilibrium f d \<Rightarrow>
            if f < length h then
              (case h ! f of
                 FluxDict F \<Rightarrow> (Inr (), h[f := FluxDict (g F)])
               | _ \<Rightarrow> (Inl AttributeError, h))
            else (Inl AttributeError, h)
        | _ \<Rightarrow> (Inl AttributeError, h))
     else (Inl AttributeError, h))"

definition empty_eqdata :: eqdata where
  "empty_eqdata =
     \<lparr> eq_scalars = Map.empty, eq_contours = Map.empty, eq_miller_geo = None,
       eq_fit_geo = None, eq_fit_opt = Map.empty \<rparr>"

definition reset_flux :: "nat \<Rightarrow> unit prog" where
  "reset_flux b = (\<lambda>h.
     if b < length h then
       (case h ! b of
          Equilibrium f d \<Rightarrow>
            (Inr (), (h @ [FluxDict empty_eqdata])[b := Equilibrium (length h) d])
        | _ \<Rightarrow> (Inl AttributeError, h))
     else (Inl AttributeError, h))"

text \<open>
  The arguments of the constructor that decide what it stores, and the collaborators that
  are not among the sources: the method \<^verbatim>\<open>add_fluxsurfaces\<close> of the equilibrium (it
  works on its receiver: from the grid, the radial label, the flags \<^verbatim>\<open>incl_B\<close>, and the
  contents of the two dictionaries to the new contents of \<^verbatim>\<open>fluxsurfaces\<close>), scipy's
  interpolation and solver, \<^verbatim>\<open>np.gradient\<close>, the statements that only read the copy and
  assign attributes of the new object (lines 207-214 and 218, and lines 239-270), which
  may raise, and the second fit of line 276.
\<close>

record le_args =
  arg_method :: string
  arg_x_loc :: real
  arg_x_label :: string
  arg_cost_f :: string
  arg_n_x :: int
  arg_n_theta :: int
  arg_n_harmonics :: nat
  arg_opt_bpol :: bool

record le_ext =
  ext_add_fluxsurfaces ::
    "real list \<Rightarrow> string \<Rightarrow> bool list \<Rightarrow> (string \<rightharpoonup> npfloat list) \<Rightarrow> eqdata \<Rightarrow> error + eqdata"
  ext_interp1d :: "bool \<Rightarrow> npfloat list \<Rightarrow> npfloat list \<Rightarrow> npfloat \<Rightarrow> npfloat"
  ext_least_squares ::
    "(npfloat list \<Rightarrow> error + npfloat list) \<Rightarrow> npfloat list \<Rightarrow> error + npfloat list"
  ext_gradient :: "profile \<Rightarrow> profile \<Rightarrow> error + profile"
  ext_target_attributes :: "eqdata \<Rightarrow> (string \<rightharpoonup> npfloat list) \<Rightarrow> nat \<Rightarrow> error + unit"
  ext_field_attributes :: "eqdata \<Rightarrow> (string \<rightharpoonup> npfloat list) \<Rightarrow> nat \<Rightarrow> error + unit"
  ext_opt_bpol :: "npfloat list \<Rightarrow> error + npfloat list"

text \<open>
  Lines 285-286: \<^verbatim>\<open>fit_geo[key+'_opt'] = self.shape_bpol[i_key]\<close> for every label; the
  result is the dictionary when the loop ends, by an \<^verbatim>\<open>IndexError\<close> or at the last
  label.
\<close>

fun opt_loop ::
  "nat \<Rightarrow> string list \<Rightarrow> npfloat list \<Rightarrow> (string \<rightharpoonup> npfloat) \<Rightarrow> error option \<times> (string \<rightharpoonup> npfloat)" where
  "opt_loop i_key [] shape_bpol opt = (None, opt)"
| "opt_loop i_key (key # keys) shape_bpol opt =
     (if i_key < length shape_bpol
      then opt_loop (Suc i_key) keys shape_bpol (opt(key @ ''_opt'' \<mapsto> shape_bpol ! i_key))
      else (Some IndexError, opt))"

text \<open>
  The constructor \<^verbatim>\<open>__init__\<close>, lines 83-286, on the store, in parts; \<open>a\<close>
  is the address of the equilibrium that the caller passes and \<open>b\<close> the address of
  \<^verbatim>\<open>self.eq\<close>. Each loop runs on the contents of the copy's dictionary and its
  result is stored in it, also when it ends by an error.

  Lines 86-113, after the copy: the entry of the table of models, the radial grid, for
  \<open>n_x > 1\<close> the new dictionary of flux surfaces that \<^verbatim>\<open>add_fluxsurfaces\<close> fills, and
  the empty \<^verbatim>\<open>'fit_geo'\<close>.
\<close>

definition store_fit_geo :: "nat \<Rightarrow> profiles \<Rightarrow> unit prog" where
  "store_fit_geo b fit_geo = modify_flux b (\<lambda>F. F\<lparr>eq_fit_geo := Some fit_geo\<rparr>)"

definition init_setup :: "le_ext \<Rightarrow> le_args \<Rightarrow> nat \<Rightarrow> (method_entry \<times> real list) prog" where
  "init_setup ext args b =
     h_bind (h_lift (method_lookup (arg_n_harmonics args) (arg_method args))) (\<lambda>m.
     let grid = x_grid (arg_x_loc args) (arg_n_x args) in
     h_bind (if arg_n_x args > 1 then
               h_bind (reset_flux b) (\<lambda>_.
               h_bind (read_eq b) (\<lambda>(F, D).
               h_bind (h_lift (ext_add_fluxsurfaces ext grid (arg_x_label args)
                                 (map (\<lambda>x. x = arg_x_loc args) grid) D F)) (\<lambda>F'.
               modify_flux b (\<lambda>_. F'))))
             else h_return ()) (\<lambda>_.
     h_bind (store_fit_geo b Map.empty) (\<lambda>_.
     h_return (m, grid))))"

text \<open>
  Lines 114-203: the poloidal grid, the fit loop over the radial grid, whose results are
  merged into \<^verbatim>\<open>'fit_geo'\<close>, and the division by the number of grid points of line
  203. The cost modes other than \<^verbatim>\<open>'l1l2'\<close> read \<^verbatim>\<open>self.eq.derived['psi']\<close> and
  \<^verbatim>\<open>['fpol']\<close>.
\<close>

definition init_fit ::
  "le_ext \<Rightarrow> le_args \<Rightarrow> nat \<Rightarrow> method_entry \<Rightarrow> real list \<Rightarrow> fit_state prog" where
  "init_fit ext args b m grid =
     h_bind (read_eq b) (\<lambda>(F, D).
     h_bind (h_lift (theta_grid F (arg_n_theta args))) (\<lambda>theta.
     h_bind (h_lift (if arg_cost_f args = ''l1l2'' then Inr ([], [])
                     else err_bind (dict_get D ''psi'') (\<lambda>psi.
                          err_bind (dict_get D ''fpol'') (\<lambda>fpol. Inr (psi, fpol)))))
            (\<lambda>(dpsi, dfpol).
     (case fit_loop
             \<lparr> fe_param = geometry_of (arg_method args), fe_interp1d = ext_interp1d ext,
               fe_least_squares = ext_least_squares ext, fe_labels = param_labels m,
               fe_theta = theta, fe_n_theta = arg_n_theta args, fe_cost_f = arg_cost_f args,
               fe_derived_psi = dpsi, fe_derived_fpol = dfpol \<rparr>
             F (arg_x_loc args) (enumerate 0 grid)
             \<lparr> st_param_initial = param_initial m, st_fit_geo = Map.empty,
               st_shape = None, st_trace = [] \<rparr> of
        (err, st) \<Rightarrow>
          h_bind (store_fit_geo b (st_fit_geo st)) (\<lambda>_.
          h_bind (h_lift (case err of Some e \<Rightarrow> Inl e | None \<Rightarrow> Inr ())) (\<lambda>_.
          h_bind (h_lift (if grid = [] then Inl ZeroDivisionError else Inr ())) (\<lambda>_.
          h_return st)))))))"

text \<open>
  Lines 207-237: the lookup of the target location, the attributes at the target
  location, \<^verbatim>\<open>self.dxdr\<close> of line 217, and the shear parameters, which are stored in
  \<^verbatim>\<open>'fit_geo'\<close>.
\<close>

definition init_shear ::
  "le_ext \<Rightarrow> le_args \<Rightarrow> nat \<Rightarrow> method_entry \<Rightarrow> real list \<Rightarrow> fit_state
   \<Rightarrow> (nat \<times> npfloat list \<times> npfloat list) prog" where
  "init_shear ext args b m grid st =
     h_bind (h_lift (py_index grid (arg_x_loc args))) (\<lambda>i_x_loc.
     h_bind (h_lift (case st_shape st of None \<Rightarrow> Inl AttributeError | Some shape \<Rightarrow> Inr shape))
            (\<lambda>shape.
     h_bind (read_eq b) (\<lambda>(F, D).
     h_bind (h_lift (ext_target_attributes ext F D i_x_loc)) (\<lambda>_.
     h_bind (h_lift (err_bind (dict_get (eq_scalars F) (arg_x_label args)) (\<lambda>x.
                     err_bind (dict_get (st_fit_geo st) ''r'') (\<lambda>r.
                     err_bind (ext_gradient ext x r) (\<lambda>dxdr. Inr (x, dxdr)))))) (\<lambda>(x, dxdr).
     (case shape_bpol_of (ext_gradient ext) dxdr x (Inr i_x_loc) m (st_fit_geo st) of
        (err, fit_geo, shape_bpol) \<Rightarrow>
          h_bind (store_fit_geo b fit_geo) (\<lambda>_.
          h_bind (h_lift (case err of Some e \<Rightarrow> Inl e | None \<Rightarrow> Inr ())) (\<lambda>_.
          h_return (i_x_loc, shape, shape_bpol)))))))))"

text \<open>
  Lines 239-286: the field attributes and, with \<^verbatim>\<open>opt_bpol\<close>, the second fit, whose
  result is stored under the labels with the suffix \<^verbatim>\<open>'_opt'\<close>.
\<close>

definition init_opt ::
  "le_ext \<Rightarrow> le_args \<Rightarrow> nat \<Rightarrow> method_entry \<Rightarrow> nat \<Rightarrow> npfloat list \<Rightarrow> npfloat list prog" where
  "init_opt ext args b m i_x_loc shape_bpol =
     h_bind (read_eq b) (\<lambda>(F, D).
     h_bind (h_lift (ext_field_attributes ext F D i_x_loc)) (\<lambda>_.
     if arg_opt_bpol args then
       h_bind (h_lift (ext_opt_bpol ext shape_bpol)) (\<lambda>shape_bpol_opt.
       (case opt_loop 0 (bpol_labels m) shape_bpol_opt Map.empty of
          (err, opt) \<Rightarrow>
            h_bind (modify_flux b (\<lambda>F. F\<lparr>eq_fit_opt := eq_fit_opt F ++ opt\<rparr>)) (\<lambda>_.
            h_bind (h_lift (case err of Some e \<Rightarrow> Inl e | None \<Rightarrow> Inr ())) (\<lambda>_.
            h_return shape_bpol_opt))))
     else h_return shape_bpol))"

text \<open>
  The constructor; it returns the vectors \<^verbatim>\<open>self.shape\<close> and \<^verbatim>\<open>self.shape_bpol\<close>.
\<close>

definition LocalEquilibrium_init ::
  "le_ext \<Rightarrow> le_args \<Rightarrow> nat \<Rightarrow> (npfloat list \<times> npfloat list) prog" where
  "LocalEquilibrium_init ext args a =
     h_bind (deepcopy a) (\<lambda>b.
     h_bind (init_setup ext args b) (\<lambda>(m, grid).
     h_bind (init_fit ext args b m grid) (\<lambda>st.
     h_bind (init_shear ext args b m grid st) (\<lambda>(i_x_loc, shape, shape_bpol).
     h_bind (init_opt ext args b m i_x_loc shape_bpol) (\<lambda>shape_bpol'.
     h_return (shape, shape_bpol'))))))"

text \<open>
  The objects of the copy are new: with \<open>n\<close> the size of the caller's store,
  \<open>fresh_copy n b h\<close> says that the equilibrium at \<open>b\<close> and the dictionaries that it
  refers to lie beyond \<open>n\<close>. A step \<open>keeps n b\<close> when, started with such a copy, it
  leaves such a copy and changes no object below \<open>n\<close>.
\<close>

definition fresh_copy :: "nat \<Rightarrow> nat \<Rightarrow> store \<Rightarrow> bool" where
  "fresh_copy n b h \<longleftrightarrow>
     n \<le> b \<and> b < length h
     \<and> (case h ! b of Equilibrium f d \<Rightarrow> n \<le> f \<and> n \<le> d | _ \<Rightarrow> False)"

definition keeps :: "nat \<Rightarrow> nat \<Rightarrow> 'a prog \<Rightarrow> bool" where
  "keeps n b m \<longleftrightarrow>
     (\<forall>h. fresh_copy n b h \<longrightarrow>
          (case m h of (r, h') \<Rightarrow> fresh_copy n b h' \<and> (\<forall>a < n. h' ! a = h ! a)))"

text \<open>
  An example store: the equilibrium of the example with its two dictionaries; and
  collaborators for it, with the example solver and difference scheme, an
  \<^verbatim>\<open>add_fluxsurfaces\<close> that leaves the dictionary as it is, and attribute statements
  that do not raise.
\<close>

definition example_flux :: eqdata where
  "example_flux = example_eq\<lparr>eq_scalars := (eq_scalars example_eq)
                                (''rho_tor'' \<mapsto> [Fin (199/400), Fin (1/2)])\<rparr>"

definition example_store :: store where
  "example_store = [FluxDict example_flux, DerivedDict Map.empty, Equilibrium 0 1]"

definition example_ext :: le_ext where
  "example_ext =
     \<lparr> ext_add_fluxsurfaces = (\<lambda>grid x_label incl_B D F. Inr F),
       ext_interp1d = nearest_interp1d,
       ext_least_squares = example_least_squares,
       ext_gradient = example_gradient,
       ext_target_attributes = (\<lambda>F D i. Inr ()),
       ext_field_attributes = (\<lambda>F D i. Inr ()),
       ext_opt_bpol = (\<lambda>shape_bpol. Inr shape_bpol) \<rparr>"

definition example_args :: le_args where
  "example_args =
     \<lparr> arg_method = ''turnbull_tilt'', arg_x_loc = 199/400, arg_x_label = ''rho_tor'',
       arg_cost_f = ''l1l2'', arg_n_x = 1, arg_n_theta = 1, arg_n_harmonics = 1,
       arg_opt_bpol = False \<rparr>"


section \<open>Properties of the rounding of doubles\<close>

lemma powi_nat: "0 \<le> e \<Longrightarrow> (2::real) powi e = 2 ^ nat e"
  by (simp add: power_int_def)

lemma powi_neg: "0 \<le> e \<Longrightarrow> (2::real) powi (- e) = 1 / 2 ^ nat e"
  by (simp add: power_int_def field_simps)

text \<open>
  \<open>expo x\<close> is the binary exponent of a nonzero \<open>x\<close>: \<open>2 powi expo x \<le> \<bar>x\<bar> < 2 powi (expo x + 1)\<close>.
\<close>

lemma expo_bounds:
  assumes "x \<noteq> 0"
  shows "2 powi expo x \<le> \<bar>x\<bar> \<and> \<bar>x\<bar> < 2 powi (expo x + 1)"
proof (cases "1 \<le> \<bar>x\<bar>")
  case True
  define n where "n = \<lfloor>\<bar>x\<bar>\<rfloor>"
  have n: "0 < n" using True by (simp add: n_def)
  from bitlen_bounds [OF n]
  have b: "2 ^ nat (bitlen n - 1) \<le> n" "n < 2 ^ nat (bitlen n)" by simp_all
  have pos: "1 \<le> bitlen n" using n
    by (metis bitlen_eq_zero_iff bitlen_nonneg int_one_le_iff_zero_less less_le not_less)
  have e: "expo x = bitlen n - 1" using True by (simp add: expo_def n_def)
  have "2 powi expo x = (2::real) ^ nat (bitlen n - 1)"
    using pos by (simp add: e powi_nat)
  also have "\<dots> = real_of_int (2 ^ nat (bitlen n - 1))" by simp
  also have "\<dots> \<le> real_of_int n" using b(1) by (simp only: of_int_le_iff)
  also have "\<dots> \<le> \<bar>x\<bar>" by (simp add: n_def)
  finally have lo: "2 powi expo x \<le> \<bar>x\<bar>" .
  have "n + 1 \<le> 2 ^ nat (bitlen n)" using b(2) by simp
  then have "real_of_int (n + 1) \<le> real_of_int (2 ^ nat (bitlen n))" by (simp only: of_int_le_iff)
  moreover have "\<bar>x\<bar> < real_of_int (n + 1)" by (simp add: n_def)
  ultimately have "\<bar>x\<bar> < 2 ^ nat (bitlen n)" by simp
  also have "\<dots> = 2 powi (expo x + 1)" using pos by (simp add: e powi_nat)
  finally show ?thesis using lo by simp
next
  case False
  define y where "y = 1 / \<bar>x\<bar>"
  define n where "n = \<lceil>y\<rceil> - 1"
  have y: "1 < y" using False assms by (simp add: y_def)
  have n: "0 < n" using y by (simp add: n_def)
  from bitlen_bounds [OF n]
  have b: "2 ^ nat (bitlen n - 1) \<le> n" "n < 2 ^ nat (bitlen n)" by simp_all
  have pos: "1 \<le> bitlen n" using n
    by (metis bitlen_eq_zero_iff bitlen_nonneg int_one_le_iff_zero_less less_le not_less)
  have e: "expo x = - bitlen n" using False by (simp add: expo_def n_def y_def)
  have ny: "real_of_int n < y" "y \<le> real_of_int n + 1"
    by (simp_all add: n_def) (linarith+)
  have "real_of_int (2 ^ nat (bitlen n - 1)) \<le> real_of_int n"
    using b(1) by (simp only: of_int_le_iff)
  then have "(2::real) ^ nat (bitlen n - 1) \<le> real_of_int n"
    by (simp only: of_int_power of_int_numeral)
  then have lo: "2 ^ nat (bitlen n - 1) < y" using ny(1) by linarith
  have "n + 1 \<le> 2 ^ nat (bitlen n)" using b(2) by simp
  then have "real_of_int (n + 1) \<le> real_of_int (2 ^ nat (bitlen n))" by (simp only: of_int_le_iff)
  then have "real_of_int n + 1 \<le> (2::real) ^ nat (bitlen n)"
    by (simp only: of_int_power of_int_numeral of_int_add of_int_1)
  then have hi: "y \<le> 2 ^ nat (bitlen n)" using ny(2) by linarith
  have x: "\<bar>x\<bar> = 1 / y" "0 < y" using assms by (simp_all add: y_def)
  have "(2::real) powi expo x = 1 / 2 ^ nat (bitlen n)"
    using pos by (simp add: e powi_neg)
  also have "\<dots> \<le> 1 / y" using hi x(2) by (simp add: frac_le)
  finally have A: "2 powi expo x \<le> \<bar>x\<bar>" by (simp add: x)
  have "expo x + 1 = - (bitlen n - 1)" by (simp add: e)
  then have "(2::real) powi (expo x + 1) = 1 / 2 ^ nat (bitlen n - 1)"
    using pos powi_neg [of "bitlen n - 1"] by simp
  moreover have "1 / y < 1 / 2 ^ nat (bitlen n - 1)"
    using lo by (simp add: frac_less2)
  ultimately show ?thesis using A by (simp add: x)
qed


lemma expo_ge:
  assumes "2 powi e \<le> \<bar>x\<bar>"
  shows "e \<le> expo x"
proof (rule ccontr)
  assume "\<not> e \<le> expo x"
  then have "expo x + 1 \<le> e" by simp
  then have "(2::real) powi (expo x + 1) \<le> 2 powi e"
    by (intro power_int_increasing) simp_all
  moreover have "(0::real) < 2 powi e" by simp
  with assms have "0 < \<bar>x\<bar>" by linarith
  then have "x \<noteq> 0" by simp
  ultimately show False using expo_bounds [of x] assms by linarith
qed

lemma expo_less:
  assumes "x \<noteq> 0" "\<bar>x\<bar> < 2 powi e"
  shows "expo x < e"
proof (rule ccontr)
  assume "\<not> expo x < e"
  then have "(2::real) powi e \<le> 2 powi expo x"
    by (intro power_int_increasing) simp_all
  then show False using expo_bounds [OF assms(1)] assms(2) by linarith
qed

lemma expo_eqI:
  assumes "2 powi e \<le> \<bar>x\<bar>" "\<bar>x\<bar> < 2 powi (e + 1)"
  shows "expo x = e"
proof -
  have "(0::real) < 2 powi e" by simp
  with assms(1) have "0 < \<bar>x\<bar>" by linarith
  then have "x \<noteq> 0" by simp
  then have "expo x < e + 1" using assms(2) by (rule expo_less)
  moreover have "e \<le> expo x" using assms(1) by (rule expo_ge)
  ultimately show ?thesis by simp
qed

text \<open>
  Rounding to the nearest integer, ties to the even one.
\<close>

lemma round_even_err: "\<bar>of_int (round_even r) - r\<bar> \<le> 1/2"
proof -
  have "of_int \<lfloor>r\<rfloor> \<le> r" "r < of_int \<lfloor>r\<rfloor> + 1" by linarith+
  then show ?thesis by (auto simp: round_even_def Let_def)
qed

lemma round_even_of_int: "round_even (of_int k) = k"
  by (simp add: round_even_def)

lemma round_even_small:
  assumes "\<bar>r\<bar> < 1/2"
  shows "round_even r = 0"
proof (cases "0 \<le> r")
  case True
  then have "\<lfloor>r\<rfloor> = 0" using assms by (simp add: floor_eq_iff)
  then show ?thesis using assms True by (simp add: round_even_def)
next
  case False
  then have "\<lfloor>r\<rfloor> = -1" using assms by (simp add: floor_eq_iff)
  then show ?thesis using assms False by (simp add: round_even_def)
qed

lemma ulp_pos: "0 < ulp x"
  by (simp add: ulp_def)

lemma ulp_normal:
  assumes "2 powi (-1022) \<le> \<bar>x\<bar>"
  shows "ulp x = 2 powi (expo x - 52)"
proof -
  have "-1022 \<le> expo x" using assms by (rule expo_ge)
  then show ?thesis by (simp add: ulp_def max_def)
qed

lemma ulp_subnormal:
  assumes "x \<noteq> 0" "\<bar>x\<bar> < 2 powi (-1022)"
  shows "ulp x = 2 powi (-1074)"
proof -
  have "expo x < -1022" using assms by (rule expo_less)
  then show ?thesis by (simp add: ulp_def max_def)
qed

lemma rnd_0: "rnd 0 = 0"
  by (simp add: rnd_def round_even_def)

text \<open>
  The error of a rounding is at most half a unit in the last place, which in the normal
  range, from \<open>2 powi (-1022)\<close> on, is at most \<open>\<bar>x\<bar> / 2 ^ 53\<close>. Below
  \<open>2 powi (-1075)\<close> a number rounds to 0.
\<close>

lemma rnd_err_ulp: "\<bar>rnd x - x\<bar> \<le> ulp x / 2"
proof -
  have "rnd x - x = ulp x * (of_int (round_even (x / ulp x)) - x / ulp x)"
    using ulp_pos [of x] by (simp add: rnd_def field_simps)
  then have "\<bar>rnd x - x\<bar> = ulp x * \<bar>of_int (round_even (x / ulp x)) - x / ulp x\<bar>"
    using ulp_pos [of x] by (simp add: abs_mult)
  also have "\<dots> \<le> ulp x * (1/2)"
    using ulp_pos [of x] round_even_err [of "x / ulp x"] by (intro mult_left_mono) simp_all
  finally show ?thesis by simp
qed

lemma rnd_err:
  assumes "x = 0 \<or> 2 powi (-1022) \<le> \<bar>x\<bar>"
  shows "\<bar>rnd x - x\<bar> \<le> \<bar>x\<bar> / 2 ^ 53"
proof (cases "x = 0")
  case True
  then show ?thesis by (simp add: rnd_0)
next
  case False
  then have n: "2 powi (-1022) \<le> \<bar>x\<bar>" using assms by simp
  have "ulp x = 2 powi (expo x - 52)" using n by (rule ulp_normal)
  also have "\<dots> = 2 powi expo x / 2 ^ 52" by (simp add: power_int_diff)
  also have "\<dots> \<le> \<bar>x\<bar> / 2 ^ 52"
    using expo_bounds [OF False] by (simp add: divide_right_mono)
  finally have "ulp x / 2 \<le> \<bar>x\<bar> / 2 ^ 53" by simp
  then show ?thesis using rnd_err_ulp [of x] by linarith
qed

lemma rnd_exact:
  assumes "x = ulp x * of_int k"
  shows "rnd x = x"
proof -
  have "x / ulp x = of_int k" using assms ulp_pos [of x] by (simp add: field_simps)
  then have "round_even (x / ulp x) = k" by (simp add: round_even_of_int)
  then show ?thesis using assms by (simp add: rnd_def)
qed

lemma rnd_tiny:
  assumes "\<bar>x\<bar> < 2 powi (-1075)"
  shows "rnd x = 0"
proof (cases "x = 0")
  case True
  then show ?thesis by (simp add: rnd_0)
next
  case False
  have "(2::real) powi (-1075) \<le> 2 powi (-1022)" by (intro power_int_increasing) simp_all
  then have "\<bar>x\<bar> < 2 powi (-1022)" using assms by linarith
  with False have u: "ulp x = 2 powi (-1074)" by (rule ulp_subnormal)
  have "(2::real) powi (-1075) = 2 powi (-1074) / 2" 
    using power_int_diff [of "2::real" "-1074" 1] by simp
  then have "\<bar>x\<bar> < ulp x / 2" using assms u by simp
  then have "\<bar>x / ulp x\<bar> < 1/2" using ulp_pos [of x] by (simp add: field_simps)
  then have "round_even (x / ulp x) = 0" by (rule round_even_small)
  then show ?thesis by (simp add: rnd_def)
qed

text \<open>
  The value of a rounding in the normal range: the multiple \<open>m * 2 powi (e - 52)\<close> that
  is nearer than half a unit, or at half a unit with \<open>m\<close> even. A number
  \<open>m * 2 powi e\<close> with \<open>\<bar>m\<bar> < 2 ^ 53\<close> and \<open>e \<ge> -1074\<close> is a double.
\<close>

lemma round_even_near:
  assumes "\<bar>real_of_int m - r\<bar> < 1/2 \<or> (\<bar>real_of_int m - r\<bar> = 1/2 \<and> even m)"
  shows "round_even r = m"
proof (cases "real_of_int m \<le> r")
  case True
  then have "\<lfloor>r\<rfloor> = m" using assms by (auto simp: floor_eq_iff)
  then show ?thesis using assms True by (auto simp: round_even_def)
next
  case False
  then have "\<lfloor>r\<rfloor> = m - 1" using assms by (auto simp: floor_eq_iff)
  then show ?thesis using assms False by (auto simp: round_even_def)
qed

lemma rnd_eqI:
  assumes "2 powi e \<le> \<bar>x\<bar>" "\<bar>x\<bar> < 2 powi (e + 1)" "-1022 \<le> e"
    and "\<bar>real_of_int m * 2 powi (e - 52) - x\<bar> < 2 powi (e - 53)
         \<or> (\<bar>real_of_int m * 2 powi (e - 52) - x\<bar> = 2 powi (e - 53) \<and> even m)"
  shows "rnd x = real_of_int m * 2 powi (e - 52)"
proof -
  have "expo x = e" using assms(1,2) by (rule expo_eqI)
  then have u: "ulp x = 2 powi (e - 52)" using assms(3) by (simp add: ulp_def max_def)
  have h: "(2::real) powi (e - 53) = ulp x / 2"
    using power_int_diff [of "2::real" "e - 52" 1] by (simp add: u)
  have d: "real_of_int m - x / ulp x = (real_of_int m * ulp x - x) / ulp x"
    using ulp_pos [of x] by (simp add: field_simps)
  have "\<bar>real_of_int m - x / ulp x\<bar> = \<bar>real_of_int m * ulp x - x\<bar> / ulp x"
    using ulp_pos [of x] by (simp add: d)
  moreover have "\<bar>real_of_int m * ulp x - x\<bar> < ulp x / 2
      \<or> (\<bar>real_of_int m * ulp x - x\<bar> = ulp x / 2 \<and> even m)"
    using assms(4) unfolding h u [symmetric] .
  ultimately have "\<bar>real_of_int m - x / ulp x\<bar> < 1/2
      \<or> (\<bar>real_of_int m - x / ulp x\<bar> = 1/2 \<and> even m)"
    using ulp_pos [of x] by (auto simp: field_simps)
  then have "round_even (x / ulp x) = m" by (rule round_even_near)
  then show ?thesis by (simp add: rnd_def u)
qed

lemma rnd_dyadic:
  assumes x: "x = of_int m * 2 powi e" and m: "\<bar>m\<bar> < 2 ^ 53" and e: "-1074 \<le> e"
  shows "rnd x = x"
proof (cases "m = 0")
  case True
  then show ?thesis using x by (simp add: rnd_0)
next
  case False
  then have x0: "x \<noteq> 0" using x by simp
  have "real_of_int \<bar>m\<bar> < real_of_int (2 ^ 53)" using m by (simp only: of_int_less_iff)
  then have "\<bar>real_of_int m\<bar> < 2 ^ 53" by simp
  then have "\<bar>real_of_int m\<bar> * 2 powi e < 2 ^ 53 * 2 powi e"
    by (intro mult_strict_right_mono) simp_all
  also have "\<dots> = 2 powi (e + 53)" by (simp add: power_int_add)
  finally have "\<bar>x\<bar> < 2 powi (e + 53)" by (simp add: x abs_mult)
  with x0 have "expo x < e + 53" by (rule expo_less)
  define k where "k = max (expo x) (-1022) - 52"
  have k: "k \<le> e" using \<open>expo x < e + 53\<close> e by (simp add: k_def)
  have u: "ulp x = 2 powi k" by (simp add: ulp_def k_def)
  have "(2::real) powi e = 2 powi k * 2 powi (e - k)"
    by (simp add: power_int_add [symmetric])
  also have "(2::real) powi (e - k) = 2 ^ nat (e - k)"
    using k by (simp add: power_int_def)
  finally have "x = real_of_int m * (2 powi k * 2 ^ nat (e - k))"
    by (simp only: x)
  also have "\<dots> = 2 powi k * of_int (m * 2 ^ nat (e - k))" by simp
  finally have xk: "x = 2 powi k * of_int (m * 2 ^ nat (e - k))" .
  have "x = ulp x * of_int (m * 2 ^ nat (e - k))"
    unfolding u by (rule xk)
  then show ?thesis by (rule rnd_exact)
qed

lemma rnd_half_int:
  assumes "0 \<le> n" "n \<le> 2 ^ 32"
  shows "rnd (real_of_int n / 2) = real_of_int n / 2"
proof -
  have "n < 2 ^ 53" using assms(2) by simp
  then have "\<bar>n\<bar> < 2 ^ 53" using assms(1) by simp
  moreover have "real_of_int n / 2 = real_of_int n * 2 powi (-1)" by simp
  ultimately show ?thesis by (intro rnd_dyadic [where m = n and e = "-1"]) simp_all
qed

text \<open>
  The literal \<^verbatim>\<open>0.005\<close>, and the smallest positive double, whose product with it
  rounds to 0.
\<close>

lemma tiny_le_dx: "2 powi (-1022) \<le> (5/1000::real)"
proof -
  have "(2::real) powi (-1022) \<le> 2 powi (-8)" by (intro power_int_increasing) simp_all
  also have "\<dots> \<le> 5/1000" by simp
  finally show ?thesis .
qed

lemma rnd_min_subnormal: "rnd (2 powi (-1074)) = 2 powi (-1074)"
  by (rule rnd_dyadic [where m = 1 and e = "-1074"]) simp_all

lemma rnd_two: "rnd 2 = 2"
  by (rule rnd_dyadic [where m = 1 and e = 1]) simp_all

lemma rnd_dx_bounds: "499/100000 \<le> rnd 0.005" "rnd 0.005 \<le> 501/100000"
proof -
  define c :: real where "c = rnd 0.005"
  have "2 powi (-1022) \<le> \<bar>5/1000::real\<bar>" using tiny_le_dx by simp
  then have "\<bar>rnd (5/1000) - 5/1000\<bar> \<le> \<bar>5/1000::real\<bar> / 2 ^ 53" by (intro rnd_err) simp
  then have "\<bar>c - 5/1000\<bar> \<le> 1/200000000" by (simp add: c_def)
  then have "499/100000 \<le> c" "c \<le> 501/100000" by linarith+
  then show "499/100000 \<le> rnd 0.005" "rnd 0.005 \<le> 501/100000" by (simp_all add: c_def)
qed

lemma rnd_min_subnormal_dx: "rnd (2 powi (-1074) * rnd 0.005) = 0"
proof (rule rnd_tiny)
  have "(2::real) powi (-1075) = 2 powi (-1074) * (1/2)"
    using power_int_diff [of "2::real" "-1074" 1] by simp
  moreover have "\<bar>2 powi (-1074) * rnd 0.005\<bar> = 2 powi (-1074) * rnd 0.005"
    using rnd_dx_bounds(1) by (simp add: abs_mult)
  moreover have "2 powi (-1074) * rnd 0.005 < 2 powi (-1074) * (1/2)"
    using rnd_dx_bounds(2) by (intro mult_strict_left_mono) simp_all
  ultimately show "\<bar>2 powi (-1074) * rnd 0.005\<bar> < 2 powi (-1075)" by simp
qed

text \<open>
  The roundings that occur in the grid for the target \<open>1/2\<close> with \<open>n_x = 4\<close> and in
  the grid for the target \<open>1.002\<close> with \<open>n_x = 10\<close>.
\<close>

lemma rnd_at_0: "rnd (11281517066563 / 9007199254740992) = 11281517066563 / 9007199254740992"
  using rnd_eqI [of "-10" "11281517066563 / 9007199254740992" "5776136738080256"] by simp

lemma rnd_at_1: "rnd (5629499534213 / 2251799813685248) = 5629499534213 / 2251799813685248"
  using rnd_eqI [of "-9" "5629499534213 / 2251799813685248" "5764607523034112"] by simp

lemma rnd_at_2: "rnd (5764607523034235 / 2305843009213693952) = 5764607523034235 / 2305843009213693952"
  using rnd_eqI [of "-9" "5764607523034235 / 2305843009213693952" "5764607523034235"] by simp

lemma rnd_at_3: "rnd (45035996273705 / 18014398509481984) = 45035996273705 / 18014398509481984"
  using rnd_eqI [of "-9" "45035996273705 / 18014398509481984" "5764607523034240"] by simp

lemma rnd_at_4: "rnd (11281517066563 / 4503599627370496) = 11281517066563 / 4503599627370496"
  using rnd_eqI [of "-9" "11281517066563 / 4503599627370496" "5776136738080256"] by simp

lemma rnd_at_5: "rnd (33844551199689 / 9007199254740992) = 33844551199689 / 9007199254740992"
  using rnd_eqI [of "-9" "33844551199689 / 9007199254740992" "8664205107120384"] by simp

lemma rnd_at_6: "rnd (1 / 200) = 5764607523034235 / 1152921504606846976"
  using rnd_eqI [of "-8" "1 / 200" "5764607523034235"] by simp

lemma rnd_at_7: "rnd (11281517066563 / 2251799813685248) = 11281517066563 / 2251799813685248"
  using rnd_eqI [of "-8" "11281517066563 / 2251799813685248" "5776136738080256"] by simp

lemma rnd_at_8: "rnd (26013407261259487006567465988695 / 5192296858534827628530496329220096) = 5776136738080303 / 1152921504606846976"
  using rnd_eqI [of "-8" "26013407261259487006567465988695 / 5192296858534827628530496329220096" "5776136738080303"] by simp

lemma rnd_at_9: "rnd (8962163258467287 / 18014398509481984) = 8962163258467287 / 18014398509481984"
  using rnd_eqI [of "-2" "8962163258467287 / 18014398509481984" "8962163258467287"] by simp

lemma rnd_at_10: "rnd (1147156897083812741 / 2305843009213693952) = 8962163258467287 / 18014398509481984"
  using rnd_eqI [of "-2" "1147156897083812741 / 2305843009213693952" "8962163258467287"] by simp

lemma rnd_at_11: "rnd (1 / 2) = 1 / 2"
  using rnd_eqI [of "-1" "1 / 2" "4503599627370496"] by simp

lemma rnd_at_12: "rnd (1158686112129881211 / 2305843009213693952) = 1131529406376837 / 2251799813685248"
  using rnd_eqI [of "-1" "1158686112129881211 / 2305843009213693952" "4526117625507348"] by simp

lemma rnd_at_13: "rnd (1149451210877980369 / 1152921504606846976) = 4490043792492111 / 4503599627370496"
  using rnd_eqI [of "-1" "1149451210877980369 / 1152921504606846976" "8980087584984222"] by simp

lemma rnd_at_14: "rnd (4490043792492111 / 4503599627370496) = 4490043792492111 / 4503599627370496"
  using rnd_eqI [of "-1" "4490043792492111 / 4503599627370496" "8980087584984222"] by simp

lemma rnd_at_15: "rnd (8991369102050785 / 9007199254740992) = 8991369102050785 / 9007199254740992"
  using rnd_eqI [of "-1" "8991369102050785 / 9007199254740992" "8991369102050785"] by simp

lemma rnd_at_16: "rnd (2250662654779337 / 2251799813685248) = 2250662654779337 / 2251799813685248"
  using rnd_eqI [of "-1" "2250662654779337 / 2251799813685248" "9002650619117348"] by simp

lemma rnd_at_17: "rnd (9013932136183911 / 9007199254740992) = 1126741517022989 / 1125899906842624"
  using rnd_eqI [of "0" "9013932136183911 / 9007199254740992" "4506966068091956"] by simp

lemma rnd_at_18: "rnd (501 / 500) = 4512606826625237 / 4503599627370496"
  using rnd_eqI [of "0" "501 / 500" "4512606826625237"] by simp

lemma rnd_at_19: "rnd (4512606826625237 / 4503599627370496) = 4512606826625237 / 4503599627370496"
  using rnd_eqI [of "0" "4512606826625237 / 4503599627370496" "4512606826625237"] by simp

lemma rnd_at_20: "rnd (9036495170317037 / 9007199254740992) = 2259123792579259 / 2251799813685248"
  using rnd_eqI [of "0" "9036495170317037 / 9007199254740992" "4518247585158518"] by simp

lemma rnd_at_21: "rnd (565486042961475 / 562949953421312) = 565486042961475 / 562949953421312"
  using rnd_eqI [of "0" "565486042961475 / 562949953421312" "4523888343691800"] by simp

lemma rnd_at_22: "rnd (9059058204450163 / 9007199254740992) = 2264764551112541 / 2251799813685248"
  using rnd_eqI [of "0" "9059058204450163 / 9007199254740992" "4529529102225082"] by simp

lemma rnd_at_23: "rnd (1161003484354140975 / 1152921504606846976) = 4535169860758363 / 4503599627370496"
  using rnd_eqI [of "0" "1161003484354140975 / 1152921504606846976" "4535169860758363"] by simp

lemma rnd_at_24: "rnd 5 = 5"
  using rnd_eqI [of "2" "5" "5629499534213120"] by simp

section \<open>Properties of the radial grid\<close>

text \<open>
  The error of a point of \<^verbatim>\<open>np.linspace\<close>. With \<open>q\<close> the exact step, \<open>p\<close> the
  quotient of the rounded difference, \<open>st\<close> the rounded step, \<open>w\<close> the rounded product
  \<open>i * st\<close> and \<open>y\<close> the rounded sum \<open>w + s\<close>, each with a relative error of at most
  \<open>u\<close>, the point \<open>y\<close> is within \<open>16 * u * X\<close> of the exact point \<open>s + i * q\<close>, where
  \<open>2 * X\<close> bounds the starting point and the length of the interval.
\<close>

lemma err_chain:
  fixes u q p st w s y i g X :: real
  assumes u: "0 \<le> u" "u \<le> 1/8"
    and q: "0 \<le> q" and i: "0 \<le> i"
    and g: "i * q \<le> g" "g \<le> 2 * X" and s: "0 \<le> s" "s \<le> 2 * X"
    and p: "\<bar>p - q\<bar> \<le> u * q"
    and st: "\<bar>st - p\<bar> \<le> u * p"
    and w: "\<bar>w - i * st\<bar> \<le> u * (i * st)"
    and y: "\<bar>y - (w + s)\<bar> \<le> u * (w + s)"
  shows "\<bar>y - (s + i * q)\<bar> \<le> 16 * (u * X)"
proof -
  define a where "a = u * q"
  define c where "c = i * q"
  define b where "b = u * c"
  have a0: "0 \<le> a" using u q by (simp add: a_def)
  have c0: "0 \<le> c" using i q by (simp add: c_def)
  have b0: "0 \<le> b" using u c0 by (simp add: b_def)
  have ua: "u * a \<le> a / 8" using mult_right_mono [OF u(2) a0] by simp
  have ub: "u * b \<le> b / 8" using mult_right_mono [OF u(2) b0] by simp
  have bc: "b \<le> c / 8" using mult_right_mono [OF u(2) c0] by (simp add: b_def)
  have ia: "i * a = b" by (simp add: a_def b_def c_def)
  have pa: "\<bar>p - q\<bar> \<le> a" using p by (simp add: a_def)
  then have p1: "p \<le> q + a" by linarith
  have "u * p \<le> u * (q + a)" using p1 u(1) by (rule mult_left_mono)
  also have "\<dots> = a + u * a" by (simp add: a_def algebra_simps)
  finally have up: "u * p \<le> a + a / 8" using ua by linarith
  have stq: "\<bar>st - q\<bar> \<le> 3 * a" using st pa up a0 by linarith
  have "\<bar>i * st - i * q\<bar> = i * \<bar>st - q\<bar>"
    using i by (simp add: abs_mult flip: right_diff_distrib)
  also have "\<dots> \<le> i * (3 * a)" using stq i by (rule mult_left_mono)
  also have "\<dots> = 3 * b" using ia by simp
  finally have ist: "\<bar>i * st - c\<bar> \<le> 3 * b" by (simp add: c_def)
  then have "i * st \<le> c + 3 * b" by linarith
  then have "u * (i * st) \<le> u * (c + 3 * b)" using u(1) by (rule mult_left_mono)
  also have "\<dots> = b + 3 * (u * b)" by (simp add: b_def algebra_simps)
  finally have uist: "u * (i * st) \<le> b + 3 * (b / 8)" using ub by linarith
  have wc: "\<bar>w - c\<bar> \<le> 5 * b" using w ist uist b0 by linarith
  then have "w + s \<le> c + 5 * b + s" by linarith
  then have "u * (w + s) \<le> u * (c + 5 * b + s)" using u(1) by (rule mult_left_mono)
  also have "\<dots> = b + 5 * (u * b) + u * s" by (simp add: b_def algebra_simps)
  finally have uws: "u * (w + s) \<le> b + 5 * (b / 8) + u * s" using ub by linarith
  have "u * c \<le> u * g" using g(1) u(1) unfolding c_def by (rule mult_left_mono)
  also have "\<dots> \<le> u * (2 * X)" using g(2) u(1) by (rule mult_left_mono)
  also have "\<dots> = 2 * (u * X)" by simp
  finally have bX: "b \<le> 2 * (u * X)" by (simp add: b_def)
  have "u * s \<le> u * (2 * X)" using s(2) u(1) by (rule mult_left_mono)
  then have sX: "u * s \<le> 2 * (u * X)" by simp
  have "\<bar>y - (s + c)\<bar> \<le> 7 * b + u * s" using y wc uws b0 by linarith
  then show ?thesis using bX sX unfolding c_def by linarith
qed


lemma np_linspace_length: "length (np_linspace s t num) = num"
  by (simp add: np_linspace_def Let_def)

lemma np_linspace_nth:
  assumes "1 < num" "rnd (rnd (t - s) / real (num - 1)) \<noteq> 0" "i < num - 1"
  shows "np_linspace s t num ! i =
           rnd (rnd (real i * rnd (rnd (t - s) / real (num - 1))) + s)"
  using assms by (simp add: np_linspace_def Let_def)

lemma np_linspace_nth_last: "1 < num \<Longrightarrow> np_linspace s t num ! (num - 1) = t"
  by (simp add: np_linspace_def Let_def)

text \<open>
  For an interval in the normal range, of a length of at least \<open>X / 512\<close> and with at
  most \<open>2 ^ 31\<close> steps, the step is not 0 and the computed points are within
  \<open>16 * X / 2 ^ 53\<close> of the exact ones, which are at least \<open>X / 2 ^ 40\<close> apart: the
  computed points are strictly increasing.
\<close>

lemma np_linspace_point:
  assumes num: "1 < num" "real (num - 1) \<le> 2 ^ 31"
    and X: "2 powi (-1022) * 2 ^ 42 \<le> X"
    and s: "X / 2 \<le> s" "s \<le> 2 * X" and t: "t \<le> 2 * X" and g: "X / 512 \<le> t - s"
    and i: "i < num - 1"
  shows "rnd (rnd (t - s) / real (num - 1)) \<noteq> 0"
    and "\<bar>np_linspace s t num ! i - (s + real i * ((t - s) / real (num - 1)))\<bar>
           \<le> 16 * (X / 2 ^ 53)"
proof -
  define T :: real where "T = 2 powi (-1022)"
  define u :: real where "u = 1 / 2 ^ 53"
  define d where "d = real (num - 1)"
  define q where "q = (t - s) / d"
  define p where "p = rnd (t - s) / d"
  define st where "st = rnd p"
  define w where "w = rnd (real i * st)"
  define y where "y = rnd (w + s)"
  have T0: "0 < T" by (simp add: T_def)
  have TX: "T * 2 ^ 42 \<le> X" using X by (simp add: T_def)
  have "0 < T * 2 ^ 42" using T0 by simp
  then have X0: "0 < X" using TX by linarith
  have u: "0 \<le> u" "u \<le> 1/8" "u \<le> 1/2" by (simp_all add: u_def)
  have d: "1 \<le> d" "d \<le> 2 ^ 31" "0 < d" using num by (simp_all add: d_def)
  have err: "\<bar>rnd v - v\<bar> \<le> u * v" if "v = 0 \<or> T \<le> v" for v
  proof -
    have "v = 0 \<or> 2 powi (-1022) \<le> \<bar>v\<bar>" using that T0 by (auto simp: T_def)
    from rnd_err [OF this] have "\<bar>rnd v - v\<bar> \<le> \<bar>v\<bar> / 2 ^ 53" .
    moreover have "0 \<le> v" using that T0 by auto
    ultimately show ?thesis by (simp add: u_def)
  qed
  have half: "v / 2 \<le> rnd v" if "T \<le> v" for v
  proof -
    have "0 \<le> v" using that T0 by simp
    then have "u * v \<le> (1/2) * v" using u(3) by (intro mult_right_mono)
    then show ?thesis using err [of v] that by simp
  qed
  have g0: "T * 2 ^ 33 \<le> t - s" using g TX by simp
  have "T * 1 \<le> T * 2 ^ 33" using T0 by (intro mult_left_mono) simp_all
  then have gT: "T \<le> t - s" using g0 by simp
  have q0: "T * 4 \<le> q"
  proof -
    have "T * 4 * d \<le> T * 4 * 2 ^ 31" using d(2) T0 by (intro mult_left_mono) simp_all
    also have "\<dots> = T * 2 ^ 33" by simp
    finally have "T * 4 * d \<le> t - s" using g0 by simp
    then show ?thesis using d(3) by (simp add: q_def pos_le_divide_eq)
  qed
  have qpos: "0 \<le> q" using q0 T0 by simp
  have "\<bar>rnd (t - s) - (t - s)\<bar> \<le> u * (t - s)" using gT by (intro err) simp
  then have "\<bar>rnd (t - s) - (t - s)\<bar> / d \<le> u * (t - s) / d"
    using d(3) by (simp add: divide_right_mono)
  then have pq: "\<bar>p - q\<bar> \<le> u * q"
    using d(3) by (simp add: p_def q_def diff_divide_distrib [symmetric])
  have "u * q \<le> (1/2) * q" using u(3) qpos by (intro mult_right_mono)
  then have p0: "T * 2 \<le> p" using pq q0 by simp
  have stp: "\<bar>st - p\<bar> \<le> u * p" unfolding st_def using p0 T0 by (intro err) simp
  have st0: "T \<le> st" unfolding st_def using half [of p] p0 T0 by simp
  show "rnd (rnd (t - s) / real (num - 1)) \<noteq> 0"
    using st0 T0 by (simp add: st_def p_def d_def)
  have ist: "real i * st = 0 \<or> T \<le> real i * st"
  proof (cases "i = 0")
    case False
    then have "1 * st \<le> real i * st" using st0 T0 by (intro mult_right_mono) simp_all
    then show ?thesis using st0 by simp
  qed simp
  have wi: "\<bar>w - real i * st\<bar> \<le> u * (real i * st)" unfolding w_def using ist by (rule err)
  have "0 \<le> real i * st" using st0 T0 by simp
  then have "0 \<le> u * (real i * st)" using u(1) by simp
  then have w0: "0 \<le> w"
  proof -
    have "u * (real i * st) \<le> 1 * (real i * st)"
      using u(3) \<open>0 \<le> real i * st\<close> by (intro mult_right_mono) simp_all
    then show ?thesis using wi by simp
  qed
  have sT: "T \<le> s"
  proof -
    have "T * 2 ^ 42 / 2 \<le> s" using TX s(1) by simp
    moreover have "T \<le> T * 2 ^ 42 / 2" using T0 by simp
    ultimately show ?thesis by simp
  qed
  have yw: "\<bar>y - (w + s)\<bar> \<le> u * (w + s)" unfolding y_def using sT w0 by (intro err) simp
  have iq: "real i * q \<le> t - s"
  proof -
    have "real i \<le> d" using i by (simp add: d_def)
    then have "real i * q \<le> d * q" using qpos by (rule mult_right_mono)
    then show ?thesis using d(3) by (simp add: q_def)
  qed
  have gX: "t - s \<le> 2 * X" using t s X0 by simp
  have s0: "0 \<le> s" using s X0 by simp
  have "\<bar>y - (s + real i * q)\<bar> \<le> 16 * (u * X)"
    using u(1,2) qpos _ iq gX s0 s(2) pq stp wi yw by (rule err_chain) simp
  moreover have "np_linspace s t num ! i = y"
    using num(1) \<open>rnd (rnd (t - s) / real (num - 1)) \<noteq> 0\<close> i
    by (simp add: np_linspace_nth y_def w_def st_def p_def d_def)
  ultimately show "\<bar>np_linspace s t num ! i - (s + real i * ((t - s) / real (num - 1)))\<bar>
           \<le> 16 * (X / 2 ^ 53)"
    by (simp add: q_def d_def u_def)
qed

lemma np_linspace_strict:
  assumes num: "1 < num" "real (num - 1) \<le> 2 ^ 31"
    and X: "2 powi (-1022) * 2 ^ 42 \<le> X"
    and s: "X / 2 \<le> s" "s \<le> 2 * X" and t: "t \<le> 2 * X" and g: "X / 512 \<le> t - s"
  shows "sorted_wrt (<) (np_linspace s t num)"
  unfolding sorted_wrt_iff_nth_less np_linspace_length
proof (intro allI impI)
  fix i j assume ij: "i < j" "j < num"
  define d where "d = real (num - 1)"
  define q where "q = (t - s) / d"
  define E where "E = 16 * (X / 2 ^ 53)"
  have d: "0 < d" "d \<le> 2 ^ 31" using num by (simp_all add: d_def)
  have "(0::real) < 2 powi (-1022) * 2 ^ 42" by simp
  then have X0: "0 < X" using X by linarith
  have "X / 2 ^ 40 * d \<le> X / 2 ^ 40 * 2 ^ 31" using d(2) X0 by (intro mult_left_mono) simp_all
  also have "\<dots> = X / 512" by simp
  finally have "X / 2 ^ 40 * d \<le> t - s" using g by simp
  then have q: "X / 2 ^ 40 \<le> q" using d(1) by (simp add: q_def pos_le_divide_eq)
  have "0 \<le> X / 2 ^ 40" using X0 by simp
  then have q0: "0 \<le> q" using q by linarith
  have E: "2 * E < X / 2 ^ 40" using X0 by (simp add: E_def)
  have i: "i < num - 1" using ij by simp
  have yi: "\<bar>np_linspace s t num ! i - (s + real i * q)\<bar> \<le> E"
    unfolding q_def d_def E_def using num X s t g i by (rule np_linspace_point(2))
  show "np_linspace s t num ! i < np_linspace s t num ! j"
  proof (cases "j < num - 1")
    case True
    have yj: "\<bar>np_linspace s t num ! j - (s + real j * q)\<bar> \<le> E"
      unfolding q_def d_def E_def using num X s t g True by (rule np_linspace_point(2))
    have "real i + 1 \<le> real j" using ij(1) by simp
    moreover have "0 \<le> q" using q0 .
    ultimately have "(real i + 1) * q \<le> real j * q" by (rule mult_right_mono)
    then have "real i * q + q \<le> real j * q" by (simp add: algebra_simps)
    then show ?thesis using yi yj q E by linarith
  next
    case False
    then have j: "j = num - 1" using ij(2) by simp
    have "real i + 1 \<le> d" using i by (simp add: d_def)
    moreover have "0 \<le> q" using q0 .
    ultimately have "(real i + 1) * q \<le> d * q" by (rule mult_right_mono)
    moreover have "d * q = t - s" using d(1) by (simp add: q_def)
    ultimately have "real i * q + q \<le> t - s" by (simp add: algebra_simps)
    moreover have "np_linspace s t num ! j = t"
      unfolding j using num(1) by (rule np_linspace_nth_last)
    ultimately show ?thesis using yi q E by linarith
  qed
qed

lemma np_linspace_nth_0:
  assumes "0 < num" "rnd s = s"
  shows "np_linspace s t num ! 0 = s"
proof (cases "num = 1")
  case True
  then show ?thesis using assms(2) by (simp add: np_linspace_def rnd_0)
next
  case False
  then have "1 < num" using assms(1) by simp
  then show ?thesis using assms(2) by (simp add: np_linspace_def Let_def rnd_0)
qed

lemma np_linspace_first:
  assumes "0 < num" "rnd s = s"
  shows "np_linspace s t num = s # tl (np_linspace s t num)"
proof -
  have "np_linspace s t num \<noteq> []"
    using assms(1) np_linspace_length [of s t num] by auto
  then have "np_linspace s t num = hd (np_linspace s t num) # tl (np_linspace s t num)"
    by simp
  moreover have "hd (np_linspace s t num) = np_linspace s t num ! 0"
    using \<open>np_linspace s t num \<noteq> []\<close> by (simp add: hd_conv_nth)
  ultimately show ?thesis using np_linspace_nth_0 [OF assms] by simp
qed

lemma np_linspace_last:
  assumes "1 < num"
  shows "np_linspace s t num = butlast (np_linspace s t num) @ [t]"
proof -
  have ne: "np_linspace s t num \<noteq> []"
    using assms np_linspace_length [of s t num] by auto
  then have "last (np_linspace s t num) = np_linspace s t num ! (length (np_linspace s t num) - 1)"
    by (rule last_conv_nth)
  then have "last (np_linspace s t num) = t"
    by (simp only: np_linspace_length np_linspace_nth_last [OF assms])
  then show ?thesis using ne by (metis append_butlast_last_id)
qed

lemma np_linspace_single: "butlast (np_linspace s t (Suc 0)) = []"
  by (simp add: np_linspace_def)

text \<open>
  The end points \<open>x_loc - x_loc * 0.005\<close> and \<open>x_loc + x_loc * 0.005\<close> as computed: they
  are within \<open>[0.99 * x_loc, 0.996 * x_loc]\<close> and \<open>[1.004 * x_loc, 1.01 * x_loc]\<close>.
\<close>

lemma x_grid_ends:
  assumes X: "2 powi (-1022) * 2 ^ 42 \<le> x"
  shows "x / 2 \<le> rnd (x - rnd (x * rnd 0.005))"
    and "rnd (x - rnd (x * rnd 0.005)) \<le> 2 * x"
    and "x / 512 \<le> x - rnd (x - rnd (x * rnd 0.005))"
    and "x / 512 \<le> rnd (x + rnd (x * rnd 0.005)) - x"
    and "rnd (x + rnd (x * rnd 0.005)) \<le> 2 * x"
proof -
  define T :: real where "T = 2 powi (-1022)"
  define c :: real where "c = rnd 0.005"
  define r where "r = rnd (x * c)"
  have T0: "0 < T" by (simp add: T_def)
  have TX: "T * 2 ^ 42 \<le> x" using X by (simp add: T_def)
  have "T * 1 \<le> T * 2 ^ 42" using T0 by (intro mult_left_mono) simp_all
  then have Tx: "T \<le> x" and x0: "0 < x" using TX T0 by simp_all
  have err: "\<bar>rnd v - v\<bar> \<le> v / 10 ^ 6" if "T \<le> v" for v
  proof -
    have v: "0 \<le> v" using that T0 by simp
    then have "2 powi (-1022) \<le> \<bar>v\<bar>" using that by (simp add: T_def)
    then have "\<bar>rnd v - v\<bar> \<le> \<bar>v\<bar> / 2 ^ 53" by (intro rnd_err) simp
    moreover have "v / 2 ^ 53 \<le> v / 10 ^ 6" using v by (intro divide_left_mono) simp_all
    ultimately show ?thesis using v by simp
  qed
  have "T \<le> 5/1000" using tiny_le_dx by (simp add: T_def)
  from err [OF this] have "\<bar>c - 5/1000\<bar> \<le> 1/200000000" by (simp add: c_def)
  then have c: "499/100000 \<le> c" "c \<le> 501/100000" by linarith+
  have xc: "x * (499/100000) \<le> x * c" "x * c \<le> x * (501/100000)"
    using c x0 by (simp_all add: mult_left_mono)
  have "T * 1 \<le> T * (2 ^ 42 * (499/100000))" using T0 by (intro mult_left_mono) simp_all
  also have "\<dots> = T * 2 ^ 42 * (499/100000)" by simp
  also have "\<dots> \<le> x * (499/100000)" using TX by (intro mult_right_mono) simp_all
  finally have "T \<le> x * c" using xc(1) by simp
  from err [OF this] have "\<bar>r - x * c\<bar> \<le> x * c / 1000000" by (simp add: r_def)
  then have r: "x * (49/10000) \<le> r" "r \<le> x * (51/10000)"
    using xc x0 by linarith+
  define v where "v = x - r"
  define v' where "v' = x + r"
  have v: "x * (9949/10000) \<le> v" "v \<le> x * (9951/10000)"
    and v': "x * (10049/10000) \<le> v'" "v' \<le> x * (10051/10000)"
    using r by (simp_all add: v_def v'_def)
  have "T * 1 \<le> T * (2 ^ 42 * (9949/10000))" using T0 by (intro mult_left_mono) simp_all
  also have "\<dots> = T * 2 ^ 42 * (9949/10000)" by simp
  also have "\<dots> \<le> x * (9949/10000)" using TX by (intro mult_right_mono) simp_all
  finally have "T \<le> v" using v(1) by simp
  from err [OF this] have "\<bar>rnd v - v\<bar> \<le> v / 1000000" by simp
  then have a: "x * (99/100) \<le> rnd v" "rnd v \<le> x * (996/1000)"
    using v x0 by linarith+
  have "T \<le> v'" using Tx v'(1) x0 by linarith
  from err [OF this] have "\<bar>rnd v' - v'\<bar> \<le> v' / 1000000" by simp
  then have b: "x * (1004/1000) \<le> rnd v'" "rnd v' \<le> x * (101/100)"
    using v' x0 by linarith+
  show "x / 2 \<le> rnd (x - rnd (x * rnd 0.005))"
    and "rnd (x - rnd (x * rnd 0.005)) \<le> 2 * x"
    and "x / 512 \<le> x - rnd (x - rnd (x * rnd 0.005))"
    and "x / 512 \<le> rnd (x + rnd (x * rnd 0.005)) - x"
    and "rnd (x + rnd (x * rnd 0.005)) \<le> 2 * x"
    using a b x0 unfolding v_def v'_def r_def c_def by linarith+
qed

lemma sorted_wrt_butlast_less:
  assumes "sorted_wrt (<) (xs @ [b :: real])" "x \<in> set xs"
  shows "x < b"
  using assms by (simp add: sorted_wrt_append)

lemma count_list_distinct:
  "distinct xs \<Longrightarrow> x \<in> set xs \<Longrightarrow> count_list xs x = 1"
  by (induction xs) auto

text \<open>
  The two halves joined: the lower one without its last point, which is \<open>x_loc\<close>, and
  the upper one, whose first point is \<open>x_loc\<close>.
\<close>

lemma x_grid_pieces:
  assumes x: "rnd x = x" "2 powi (-1022) * 2 ^ 42 \<le> x"
    and m: "0 < m" "real (m - 1) \<le> 2 ^ 31"
  shows "sorted_wrt (<) (butlast (np_linspace (rnd (x - rnd (x * rnd 0.005))) x m)
           @ np_linspace x (rnd (x + rnd (x * rnd 0.005))) m)"
proof -
  let ?a = "rnd (x - rnd (x * rnd 0.005))"
  let ?b = "rnd (x + rnd (x * rnd 0.005))"
  let ?lo = "np_linspace ?a x m"
  let ?hi = "np_linspace x ?b m"
  note ends = x_grid_ends [OF x(2)]
  have "(0::real) < 2 powi (-1022) * 2 ^ 42" by simp
  then have x0: "0 < x" using x(2) by linarith
  have hi: "sorted_wrt (<) ?hi"
  proof (cases "1 < m")
    case True
    then show ?thesis using m(2) x(2)
    proof (rule np_linspace_strict)
      show "x / 2 \<le> x" "x \<le> 2 * x" using x0 by simp_all
      show "?b \<le> 2 * x" by (rule ends(5))
      show "x / 512 \<le> ?b - x" by (rule ends(4))
    qed
  next
    case False
    then have "m = 1" using m(1) by simp
    then have "length ?hi = 1" by (simp add: np_linspace_length)
    then show ?thesis by (cases ?hi) simp_all
  qed
  have blo: "sorted_wrt (<) (butlast ?lo)" and below: "\<forall>v\<in>set (butlast ?lo). v < x"
  proof -
    show "sorted_wrt (<) (butlast ?lo)"
    proof (cases "1 < m")
      case True
      then have "sorted_wrt (<) ?lo" using m(2) x(2)
      proof (rule np_linspace_strict)
        show "x / 2 \<le> ?a" by (rule ends(1))
        show "?a \<le> 2 * x" by (rule ends(2))
        show "x \<le> 2 * x" using x0 by simp
        show "x / 512 \<le> x - ?a" by (rule ends(3))
      qed
      then show ?thesis
        by (metis append_butlast_last_id butlast.simps(1) sorted_wrt_append)
    next
      case False
      then have "m = 1" using m(1) by simp
      then show ?thesis by (simp add: np_linspace_single)
    qed
    show "\<forall>v\<in>set (butlast ?lo). v < x"
    proof (cases "1 < m")
      case True
      then have "sorted_wrt (<) ?lo" using m(2) x(2)
      proof (rule np_linspace_strict)
        show "x / 2 \<le> ?a" by (rule ends(1))
        show "?a \<le> 2 * x" by (rule ends(2))
        show "x \<le> 2 * x" using x0 by simp
        show "x / 512 \<le> x - ?a" by (rule ends(3))
      qed
      moreover have "?lo = butlast ?lo @ [x]" using True by (rule np_linspace_last)
      ultimately have "sorted_wrt (<) (butlast ?lo @ [x])" by simp
      then show ?thesis by (simp add: sorted_wrt_append)
    next
      case False
      then have "m = 1" using m(1) by simp
      then show ?thesis by (simp add: np_linspace_single)
    qed
  qed
  have hd_hi: "?hi = x # tl ?hi"
    using m(1) x(1) by (rule np_linspace_first)
  have above: "x \<le> y" if "y \<in> set ?hi" for y
  proof -
    from hi hd_hi have "sorted_wrt (<) (x # tl ?hi)" by simp
    moreover from that hd_hi have "y = x \<or> y \<in> set (tl ?hi)"
      by (metis set_ConsD)
    ultimately show ?thesis by auto
  qed
  show ?thesis
    unfolding sorted_wrt_append
    using blo hi below above by force
qed

lemma tiny_le_bound: "2 powi (-1022) * 2 ^ 42 \<le> (1::real) / 2 ^ 960"
proof -
  have "(2::real) powi (-1022) * 2 ^ 42 = 2 powi (-1022) * 2 powi 42" by simp
  also have "\<dots> = 2 powi (-980)" by (simp add: power_int_add [symmetric])
  also have "\<dots> \<le> 2 powi (-960)" by (intro power_int_increasing) simp_all
  also have "\<dots> = 1 / 2 ^ 960" by (simp add: power_int_minus_divide)
  finally show ?thesis .
qed

lemma grid_num:
  assumes "2 \<le> n_x" "n_x \<le> 2 ^ 32"
  shows "nat \<lfloor>rnd (real_of_int n_x / 2)\<rfloor> = nat (n_x div 2)"
    and "0 < nat (n_x div 2)" and "real (nat (n_x div 2) - 1) \<le> 2 ^ 31"
proof -
  have "rnd (real_of_int n_x / 2) = real_of_int n_x / 2"
    using assms by (intro rnd_half_int) simp_all
  moreover have "\<lfloor>real_of_int n_x / 2\<rfloor> = n_x div 2"
    using floor_divide_of_int_eq [of n_x 2] by simp
  ultimately show "nat \<lfloor>rnd (real_of_int n_x / 2)\<rfloor> = nat (n_x div 2)"
    by (simp only:)
  show "0 < nat (n_x div 2)" using assms(1) by simp
  have "n_x div 2 \<le> 2 ^ 31" using assms(2) by simp
  then have "nat (n_x div 2) \<le> 2 ^ 31" by simp
  then have "real (nat (n_x div 2)) \<le> 2 ^ 31"
    by (metis of_nat_le_iff of_nat_numeral of_nat_power)
  then show "real (nat (n_x div 2) - 1) \<le> 2 ^ 31" by simp
qed

lemma x_grid_half:
  "x_grid (1/2) 4 = [8962163258467287 / 18014398509481984, 1 / 2, 1131529406376837 / 2251799813685248]"
proof -
  have two: "[0..<2] = [0, Suc 0]" by (simp add: upt_rec)
  show ?thesis
    by (simp add: x_grid_def np_linspace_def Let_def rnd_0 rnd_two two rnd_at_6 rnd_at_2 rnd_at_10 rnd_at_12 rnd_at_3 rnd_at_9 rnd_at_11 rnd_at_1)
qed

text \<open>
  C10, as stated: for every target \<open>x_loc\<close> with \<open>0 < x_loc \<le> 1\<close> and every
  \<open>n_x \<ge> 2\<close>, the radial grid that the constructor builds (the two half-linspaces over
  \<open>[x_loc * (1 - 0.005), x_loc * (1 + 0.005)]\<close> joined at \<open>x_loc\<close> and filtered to
  \<open>[0, 1]\<close>) is strictly increasing and contains \<open>x_loc\<close> exactly once. For the
  smallest positive double, \<open>2 powi (-1074)\<close>, and \<open>n_x = 4\<close> the product
  \<^verbatim>\<open>self.x_loc*0.005\<close> rounds to 0, both half-linspaces are constant and the grid is
  \<open>[x_loc, x_loc, x_loc]\<close>.
\<close>

theorem x_grid_subnormal_repeats_x_loc:
  "(0::real) < 2 powi (-1074) \<and> (2 powi (-1074)::real) \<le> 1 \<and> (2::int) \<le> 4
   \<and> rnd (2 powi (-1074)) = 2 powi (-1074)
   \<and> x_grid (2 powi (-1074)) 4 = [2 powi (-1074), 2 powi (-1074), 2 powi (-1074)]
   \<and> \<not> sorted_wrt (<) (x_grid (2 powi (-1074)) 4)
   \<and> count_list (x_grid (2 powi (-1074)) 4) (2 powi (-1074)) = 3"
proof -
  define x :: real where "x = 2 powi (-1074)"
  have "(2::real) powi (-1074) \<le> 2 powi 0" by (intro power_int_increasing) simp_all
  then have "x \<le> 1" by (simp only: x_def power_int_0_right)
  moreover have "0 < x" unfolding x_def by (rule zero_less_power_int) simp
  moreover have "rnd x = x" unfolding x_def by (rule rnd_min_subnormal)
  ultimately have x: "0 < x" "x \<le> 1" "rnd x = x" by blast+
  have h: "(0.005::real) = 1/200" by simp
  have r: "rnd (x * rnd (1/200)) = 0"
    using rnd_min_subnormal_dx unfolding x_def h .
  have two: "[0..<2] = [0, Suc 0]" by (simp add: upt_rec)
  have l: "np_linspace x x 2 = [x, x]"
    by (simp add: np_linspace_def Let_def rnd_0 x two)
  have "x_grid x 4 = [x, x, x]"
    using x(1,2) by (simp add: x_grid_def Let_def rnd_two r x(3) l)
  then have "0 < x \<and> x \<le> 1 \<and> (2::int) \<le> 4 \<and> rnd x = x \<and> x_grid x 4 = [x, x, x]
      \<and> \<not> sorted_wrt (<) (x_grid x 4) \<and> count_list (x_grid x 4) x = 3"
    using x by simp
  then show ?thesis unfolding x_def .
qed

text \<open>
  C10, amended: for every double \<open>x_loc\<close> with \<open>1 / 2 ^ 960 \<le> x_loc \<le> 1\<close> and every
  \<open>n_x\<close> with \<open>2 \<le> n_x \<le> 2 ^ 32\<close>, the radial grid that the constructor builds (the
  two half-linspaces from \<open>x_loc - x_loc * 0.005\<close> to \<open>x_loc + x_loc * 0.005\<close> joined
  at \<open>x_loc\<close> and filtered to \<open>[0, 1]\<close>), computed in double precision, is strictly
  increasing and contains \<open>x_loc\<close> exactly once.
\<close>

theorem x_grid_strict_contains_once:
  assumes "rnd x_loc = x_loc" "1 / 2 ^ 960 \<le> x_loc" "x_loc \<le> 1" "2 \<le> n_x" "n_x \<le> 2 ^ 32"
  shows "sorted_wrt (<) (x_grid x_loc n_x) \<and> count_list (x_grid x_loc n_x) x_loc = 1"
proof -
  define m where "m = nat (n_x div 2)"
  let ?lo = "np_linspace (rnd (x_loc - rnd (x_loc * rnd 0.005))) x_loc m"
  let ?hi = "np_linspace x_loc (rnd (x_loc + rnd (x_loc * rnd 0.005))) m"
  let ?all = "butlast ?lo @ ?hi"
  note num = grid_num [OF assms(4,5)]
  have m: "0 < m" "real (m - 1) \<le> 2 ^ 31" using num(2,3) by (simp_all add: m_def)
  have X: "2 powi (-1022) * 2 ^ 42 \<le> x_loc" using tiny_le_bound assms(2) by linarith
  have "(0::real) < 1 / 2 ^ 960" by simp
  then have x0: "0 < x_loc" using assms(2) by linarith
  have grid: "x_grid x_loc n_x = filter (\<lambda>x. 0 \<le> x \<and> x \<le> 1) ?all"
    using assms(4) by (simp add: x_grid_def num(1) m_def Let_def)
  have all: "sorted_wrt (<) ?all"
    using assms(1) X m by (rule x_grid_pieces)
  have sorted: "sorted_wrt (<) (x_grid x_loc n_x)"
    unfolding grid using all by (rule sorted_wrt_filter)
  have "?hi = x_loc # tl ?hi"
    using m(1) assms(1) by (rule np_linspace_first)
  then have "x_loc \<in> set ?hi"
    by (metis list.set_intros(1))
  then have mem: "x_loc \<in> set (x_grid x_loc n_x)"
    unfolding grid using assms(3) x0 by simp
  have "distinct (x_grid x_loc n_x)"
    using sorted by (simp add: strict_sorted_iff)
  with mem have "count_list (x_grid x_loc n_x) x_loc = 1"
    by (simp add: count_list_distinct)
  with sorted show ?thesis by simp
qed


theorem x_grid_strict_contains_once_witness:
  "rnd (1/2) = 1/2 \<and> (1::real) / 2 ^ 960 \<le> 1/2 \<and> (1/2::real) \<le> 1 \<and> (2::int) \<le> 4
   \<and> (4::int) \<le> 2 ^ 32
   \<and> x_grid (1/2) 4 = [8962163258467287 / 18014398509481984, 1 / 2, 1131529406376837 / 2251799813685248]
   \<and> sorted_wrt (<) (x_grid (1/2) 4) \<and> count_list (x_grid (1/2) 4) (1/2) = 1"
proof -
  have d: "rnd (1/2) = 1/2"
    by (rule rnd_dyadic [where m = 1 and e = "-1"]) simp_all
  have b: "(1::real) / 2 ^ 960 \<le> 1/2" by simp
  from x_grid_strict_contains_once [of "1/2" 4, OF d b] d b x_grid_half show ?thesis by simp
qed

section \<open>The exact-match lookup of the target location\<close>

lemma py_index_absent: "x \<notin> set xs \<Longrightarrow> py_index xs x = Inl ValueError"
  by (induction xs) auto

lemma py_index_present:
  "x \<in> set xs \<Longrightarrow> \<exists>i. py_index xs x = Inr i \<and> i < length xs \<and> xs ! i = x"
  by (induction xs) auto

text \<open>
  The grid for the target \<open>1.002\<close>, the double \<open>rnd (501/500)\<close>, and \<open>n_x = 10\<close>: of
  the four points below the target the first three are at most 1, and the five points of
  the upper half, the target among them, are larger than 1 and dropped.
\<close>

lemma x_grid_1002:
  "x_grid (rnd (501/500)) 10 = [4490043792492111 / 4503599627370496, 8991369102050785 / 9007199254740992, 2250662654779337 / 2251799813685248]"
proof -
  have five: "[0..<5] = [0, 1, 2, 3, 4]" by (simp add: upt_rec)
  show ?thesis
    by (simp add: x_grid_def np_linspace_def Let_def rnd_0 five rnd_at_18 rnd_at_6 rnd_at_8 rnd_at_13 rnd_at_23 rnd_at_24 rnd_at_7 rnd_at_0 rnd_at_14 rnd_at_15 rnd_at_4 rnd_at_16 rnd_at_5 rnd_at_17 rnd_at_19 rnd_at_20 rnd_at_21 rnd_at_22)
qed

text \<open>
  C8, as stated: if the target location \<open>x_loc\<close> is not found by exact match in the
  computed radial grid, the lookup fails with a \<open>GridAlignmentError\<close>. The lookup is
  \<^verbatim>\<open>list.index\<close>, whose failure is Python's \<^verbatim>\<open>ValueError\<close>: for the target
  \<open>1.002\<close> and \<open>n_x = 10\<close> the grid keeps three points below the target, the doubles
  \<open>0.99699\<close>, \<open>0.9982425\<close> and \<open>0.999495\<close>, and the lookup raises \<^verbatim>\<open>ValueError\<close>.
\<close>

theorem x_loc_index_not_GridAlignmentError:
  "x_grid (rnd (501/500)) 10 = [4490043792492111 / 4503599627370496, 8991369102050785 / 9007199254740992, 2250662654779337 / 2251799813685248]
   \<and> rnd (501/500) \<notin> set (x_grid (rnd (501/500)) 10)
   \<and> x_loc_index (rnd (501/500)) 10 = Inl ValueError
   \<and> x_loc_index (rnd (501/500)) 10 \<noteq> Inl GridAlignmentError"
  unfolding x_loc_index_def x_grid_1002 by (simp add: rnd_at_18)

text \<open>
  C8, amended: if the target location \<open>x_loc\<close> is not found by exact match in the
  computed radial grid, every lookup \<^verbatim>\<open>self.x_grid.index(self.x_loc)\<close> fails with
  Python's \<^verbatim>\<open>ValueError\<close>; it never returns an index.
\<close>

theorem x_loc_index_absent_ValueError:
  "x_loc \<notin> set (x_grid x_loc n_x) \<Longrightarrow> x_loc_index x_loc n_x = Inl ValueError"
  unfolding x_loc_index_def by (rule py_index_absent)

theorem x_loc_index_absent_ValueError_witness:
  "rnd (501/500) \<notin> set (x_grid (rnd (501/500)) 10)
   \<and> x_loc_index (rnd (501/500)) 10 = Inl ValueError"
proof -
  have n: "rnd (501/500) \<notin> set (x_grid (rnd (501/500)) 10)"
    unfolding x_grid_1002 by (simp add: rnd_at_18)
  from n x_loc_index_absent_ValueError [OF n] show ?thesis by simp
qed

section \<open>Arithmetic of the float model\<close>

lemma npfloat_plus [simp]:
  "Fin x + Fin y = Fin (x + y)" "NaN + a = NaN" "a + NaN = NaN"
  by (simp_all add: plus_npfloat_def split: npfloat.split)

lemma npfloat_minus [simp]:
  "Fin x - Fin y = Fin (x - y)" "NaN - a = NaN" "a - NaN = NaN"
  by (simp_all add: minus_npfloat_def split: npfloat.split)

lemma npfloat_times [simp]:
  "Fin x * Fin y = Fin (x * y)" "NaN * a = NaN" "a * NaN = NaN"
  by (simp_all add: times_npfloat_def split: npfloat.split)

lemma npfloat_uminus [simp]: "- Fin x = Fin (- x)" "- NaN = NaN"
  by (simp_all add: uminus_npfloat_def)

lemma npfloat_abs [simp]: "\<bar>Fin x\<bar> = Fin \<bar>x\<bar>" "\<bar>NaN\<bar> = NaN"
  by (simp_all add: abs_npfloat_def)

lemma npfloat_divide [simp]:
  "y \<noteq> 0 \<Longrightarrow> Fin x / Fin y = Fin (x / y)" "a / Fin 0 = NaN"
  "NaN / a = NaN" "a / NaN = NaN"
  by (simp_all add: divide_npfloat_def split: npfloat.split)

lemma np_sin_simps [simp]: "np_sin (Fin x) = Fin (sin x)" "np_sin NaN = NaN"
  by (simp_all add: np_sin_def)

lemma np_cos_simps [simp]: "np_cos (Fin x) = Fin (cos x)" "np_cos NaN = NaN"
  by (simp_all add: np_cos_def)

lemma np_arcsin_simps [simp]:
  "- 1 \<le> x \<Longrightarrow> x \<le> 1 \<Longrightarrow> np_arcsin (Fin x) = Fin (arcsin x)"
  "1 < \<bar>x\<bar> \<Longrightarrow> np_arcsin (Fin x) = NaN"
  "np_arcsin NaN = NaN"
  by (auto simp add: np_arcsin_def)

lemma np_sqrt_simps [simp]:
  "0 \<le> x \<Longrightarrow> np_sqrt (Fin x) = Fin (sqrt x)"
  "x < 0 \<Longrightarrow> np_sqrt (Fin x) = NaN"
  "np_sqrt NaN = NaN"
  by (simp_all add: np_sqrt_def)

lemma np_pow_simps [simp]: "np_pow (Fin x) n = Fin (x ^ n)" "np_pow NaN n = NaN"
  by (simp_all add: np_pow_def)

lemma arctan2pi_simps [simp]: "arctan2pi NaN a = NaN" "arctan2pi a NaN = NaN"
  by (simp_all add: arctan2pi_def split: npfloat.split)

lemma map2_map_same:
  "map2 f (map g xs) (map h xs) = map (\<lambda>x. f (g x) (h x)) xs"
  by (induction xs) simp_all

section \<open>The circle and the domain of the triangularity\<close>

text \<open>
  What lines 293-304 of \<^verbatim>\<open>miller\<close> compute for \<open>\<kappa> = 1\<close> and \<open>\<delta> = 0\<close>: the
  circle of radius \<open>r\<close> about \<open>(R0, Z0)\<close>.
\<close>

lemma miller_body_circle:
  "miller_body (Fin R0) (Fin Z0) (Fin r) (Fin 1) (Fin 0) (map Fin ts) False =
     (map (\<lambda>t. Fin (R0 + r * cos t)) ts,
      map (\<lambda>t. Fin (Z0 + r * sin t)) ts,
      map (\<lambda>t. arctan2pi (Fin (r * sin t)) (Fin (r * cos t))) ts)"
  by (simp add: miller_body_def Let_def o_def map2_map_same)

text \<open>The sibling model \<^verbatim>\<open>turnbull\<close> with \<open>\<zeta> = 0\<close> does return that circle.\<close>

lemma turnbull_circle:
  "turnbull [Fin R0, Fin Z0, Fin r, Fin 1, Fin 0, Fin 0] (map Fin ts) False =
     Inr (map (\<lambda>t. Fin (R0 + r * cos t)) ts,
          map (\<lambda>t. Fin (Z0 + r * sin t)) ts,
          map (\<lambda>t. arctan2pi (Fin (r * sin t)) (Fin (r * cos t))) ts)"
  by (simp add: turnbull_def Let_def o_def map2_map_same)

text \<open>
  C1. The claim: for every \<open>R0\<close>, \<open>Z0\<close>, \<open>r > 0\<close> and every theta grid, evaluating
  the miller geometry model with \<open>\<kappa> = 1\<close> and \<open>\<delta> = 0\<close> returns
  \<open>R = R0 + r cos \<theta>\<close> and \<open>Z = Z0 + r sin \<theta>\<close>. The function as written returns
  nothing: on every such input it raises \<^verbatim>\<open>NameError\<close> at line 292.
\<close>

theorem miller_circle_raises_NameError:
  "miller [Fin R0, Fin Z0, Fin r, Fin 1, Fin 0] (map Fin ts) nrm = Inl NameError"
  by (simp add: miller_def)

text \<open>
  C2, as stated: for \<open>|\<delta>| > 1\<close> a geometry model fails with a
  \<open>GeometryDomainError\<close> instead of returning arrays that contain nan. For
  \<open>\<delta> = 2\<close>, \<^verbatim>\<open>turnbull\<close> returns, and its \<open>R\<close> and reference angle are nan.
\<close>

theorem turnbull_delta_2_returns_nan:
  "turnbull [Fin (17/10), Fin (1/50), Fin (1/2), Fin (7/5), Fin 2, Fin (1/20)] [Fin 0] False
     = Inr ([NaN], [Fin (1/50)], [NaN])
   \<and> turnbull [Fin (17/10), Fin (1/50), Fin (1/2), Fin (7/5), Fin 2, Fin (1/20)] [Fin 0] False
     \<noteq> Inl GeometryDomainError"
  by (simp add: turnbull_def Let_def)

text \<open>
  C2, amended: for every parameter vector with \<open>|\<delta>| > 1\<close>, \<^verbatim>\<open>turnbull\<close> and
  \<^verbatim>\<open>turnbull_tilt\<close> do not fail; they return arrays in which every entry of \<open>R\<close> and
  of the reference angle is nan.
\<close>

theorem turnbull_delta_out_of_domain:
  assumes "1 < \<bar>delta\<bar>"
  shows "(\<exists>Z. turnbull [R0, Z0, r, kappa, Fin delta, zeta] theta nrm
              = Inr (replicate (length theta) NaN, Z, replicate (length theta) NaN))
       \<and> (\<exists>Z. turnbull_tilt [R0, Z0, r, kappa, Fin delta, zeta, tilt] theta nrm
              = Inr (replicate (length theta) NaN, Z, replicate (length theta) NaN))"
proof -
  have x: "np_arcsin (Fin delta) = NaN"
    using assms by simp
  have nan: "map (\<lambda>x. NaN) xs = replicate (length xs) NaN" for xs :: "'b list"
    by (simp add: map_replicate_const)
  have ref: "map2 (\<lambda>Zp Rp. arctan2pi (Zp - Z0) (Rp - R0)) Zs (replicate (length Zs) NaN)
               = replicate (length Zs) NaN" for Zs
    by (induction Zs) simp_all
  have "\<exists>Z. turnbull [R0, Z0, r, kappa, Fin delta, zeta] theta nrm
              = Inr (replicate (length theta) NaN, Z, replicate (length theta) NaN)"
    using ref [of "map (\<lambda>t. Z0 + kappa * r * np_sin (t + zeta * np_sin (Fin 2 * t))) theta"]
    by (simp add: turnbull_def Let_def x o_def nan)
  moreover
  have "\<exists>Z. turnbull_tilt [R0, Z0, r, kappa, Fin delta, zeta, tilt] theta nrm
              = Inr (replicate (length theta) NaN, Z, replicate (length theta) NaN)"
    using ref [of "map (\<lambda>t. Z0 + kappa * r * np_sin (t + zeta * np_sin (Fin 2 * t))) theta"]
    by (simp add: turnbull_tilt_def Let_def x o_def nan)
  ultimately show ?thesis by simp
qed

theorem turnbull_delta_out_of_domain_witness:
  "(1::real) < \<bar>2\<bar>
   \<and> (\<exists>Z. turnbull [Fin (17/10), Fin (1/50), Fin (1/2), Fin (7/5), Fin 2, Fin (1/20)]
              [Fin 0, Fin 1] False = Inr ([NaN, NaN], Z, [NaN, NaN]))
   \<and> (\<exists>Z. turnbull_tilt [Fin (17/10), Fin (1/50), Fin (1/2), Fin (7/5), Fin 2, Fin (1/20), Fin 0]
              [Fin 0, Fin 1] False = Inr ([NaN, NaN], Z, [NaN, NaN]))"
  using turnbull_delta_out_of_domain [of 2 "Fin (17/10)" "Fin (1/50)" "Fin (1/2)" "Fin (7/5)"
      "Fin (1/20)" "[Fin 0, Fin 1]" False "Fin 0"]
  by (simp add: numeral_2_eq_2)

section \<open>The two methods of the poloidal-field models\<close>

text \<open>
  The two branches of \<^verbatim>\<open>turnbull_bp\<close> compute the same field at every angle: for a
  positive minor radius the Jacobian is \<open>R r\<close> times the analytical denominator and the
  arclength element is \<open>r\<close> times the analytical numerator. They are non-finite
  together, when \<open>R\<close> or the denominator vanishes or \<open>\<delta>\<close> is out of the domain of
  the arcsine.
\<close>

lemma turnbull_bp_methods_agree_at:
  assumes r: "0 < r"
  shows "turnbull_bp_analytical (Fin kappa) (Fin delta) (Fin zeta) (Fin dR0dr) (Fin dZ0dr)
           (Fin s_kappa) (Fin s_delta) (Fin s_zeta) (Fin dPsi) (Fin t) (Fin R)
       = turnbull_bp_numerical (Fin r) (Fin kappa) (Fin delta) (Fin zeta) (Fin dR0dr) (Fin dZ0dr)
           (Fin s_kappa) (Fin s_delta) (Fin s_zeta) (Fin dPsi) (Fin t) (Fin R)"
proof (cases "- 1 \<le> delta \<and> delta \<le> 1")
  case False
  then have "np_arcsin (Fin delta) = NaN" by (auto simp: np_arcsin_def)
  then show ?thesis
    by (simp add: turnbull_bp_analytical_def turnbull_bp_numerical_def Let_def
        turnbull_theta_R_def turnbull_dtheta_Rdtheta_def)
next
  case True
  then have x: "np_arcsin (Fin delta) = Fin (arcsin delta)" by simp
  define x where "x = arcsin delta"
  define sR where "sR = sin (t + x * sin t)"
  define dR where "dR = 1 + x * cos t"
  define cZ where "cZ = cos (t + zeta * sin (2 * t))"
  define dZ where "dZ = 1 + 2 * zeta * cos (2 * t)"
  define P where "P = dR0dr + cos (t + x * sin t) - s_delta * sin t * sR"
  define Q where "Q = dZ0dr + kappa * ((s_kappa + 1) * sin (t + zeta * sin (2 * t)) + s_zeta * sin (2 * t) * cZ)"
  define D where "D = kappa * cZ * dZ * P + sR * dR * Q"
  have nn1: "0 \<le> sR\<^sup>2 * dR\<^sup>2 + kappa\<^sup>2 * cZ\<^sup>2 * dZ\<^sup>2" by simp
  have nn2: "0 \<le> (- r * sR * dR)\<^sup>2 + (kappa * r * cZ * dZ)\<^sup>2" by simp
  have A: "turnbull_bp_analytical (Fin kappa) (Fin delta) (Fin zeta) (Fin dR0dr) (Fin dZ0dr)
           (Fin s_kappa) (Fin s_delta) (Fin s_zeta) (Fin dPsi) (Fin t) (Fin R)
       = (Fin dPsi / Fin R) * Fin (sqrt (sR\<^sup>2 * dR\<^sup>2 + kappa\<^sup>2 * cZ\<^sup>2 * dZ\<^sup>2)) / Fin D"
    using nn1
    by (simp add: turnbull_bp_analytical_def Let_def x turnbull_theta_R_def
        turnbull_dtheta_Rdtheta_def turnbull_theta_Z_def turnbull_dtheta_Zdtheta_def
        x_def [symmetric] sR_def [symmetric] dR_def [symmetric] cZ_def [symmetric]
        dZ_def [symmetric] P_def [symmetric] Q_def [symmetric] D_def [symmetric])
  have N: "turnbull_bp_numerical (Fin r) (Fin kappa) (Fin delta) (Fin zeta) (Fin dR0dr) (Fin dZ0dr)
           (Fin s_kappa) (Fin s_delta) (Fin s_zeta) (Fin dPsi) (Fin t) (Fin R)
       = (Fin dPsi / Fin R) * ((Fin R / Fin (R * (P * (kappa * r * cZ * dZ) - (- r * sR * dR) * Q)))
           * Fin (sqrt ((- r * sR * dR)\<^sup>2 + (kappa * r * cZ * dZ)\<^sup>2)))"
    using nn2
    by (simp add: turnbull_bp_numerical_def Let_def x turnbull_theta_R_def
        turnbull_dtheta_Rdtheta_def turnbull_theta_Z_def turnbull_dtheta_Zdtheta_def
        x_def [symmetric] sR_def [symmetric] dR_def [symmetric] cZ_def [symmetric]
        dZ_def [symmetric] P_def [symmetric] Q_def [symmetric] D_def [symmetric])
  have J: "R * (P * (kappa * r * cZ * dZ) - (- r * sR * dR) * Q) = R * r * D"
    by (simp add: D_def algebra_simps)
  have "(- r * sR * dR)\<^sup>2 + (kappa * r * cZ * dZ)\<^sup>2
          = r\<^sup>2 * (sR\<^sup>2 * dR\<^sup>2 + kappa\<^sup>2 * cZ\<^sup>2 * dZ\<^sup>2)"
    by (simp add: algebra_simps)
  then have S: "sqrt ((- r * sR * dR)\<^sup>2 + (kappa * r * cZ * dZ)\<^sup>2)
          = r * sqrt (sR\<^sup>2 * dR\<^sup>2 + kappa\<^sup>2 * cZ\<^sup>2 * dZ\<^sup>2)"
    using r by (simp add: real_sqrt_mult)
  show ?thesis
  proof (cases "R = 0 \<or> D = 0")
    case True
    then show ?thesis unfolding A N J using r by auto
  next
    case False
    then show ?thesis unfolding A N J S using r by (simp add: field_simps)
  qed
qed

lemma map2_Fin_cong:
  assumes "\<And>t R. f (Fin t) (Fin R) = g (Fin t) (Fin R)"
  shows "map2 f (map Fin ts) (map Fin Rs) = map2 g (map Fin ts) (map Fin Rs)"
  using assms by (auto simp: zip_map_map)

lemma np_map2_Fin_cong:
  assumes "\<And>t R. f (Fin t) (Fin R) = g (Fin t) (Fin R)"
  shows "np_map2 f (map Fin ts) (map Fin Rs) = np_map2 g (map Fin ts) (map Fin Rs)"
proof -
  have one: "length xs = 1 \<Longrightarrow> hd (map Fin xs) = Fin (hd xs)" for xs :: "real list"
    by (cases xs) simp_all
  show ?thesis
    unfolding np_map2_def
    using assms map2_Fin_cong [of f g ts Rs, OF assms]
    by (auto simp: one)
qed

lemma turnbull_bp_methods_agree:
  assumes "0 < r"
  shows "turnbull_bp (map Fin [dR0dr, dZ0dr, s_kappa, s_delta, s_zeta])
           (map Fin [R0, Z0, r, kappa, delta, zeta]) (map Fin ts) (map Fin Rs) (Fin dPsi)
           ''analytical''
       = turnbull_bp (map Fin [dR0dr, dZ0dr, s_kappa, s_delta, s_zeta])
           (map Fin [R0, Z0, r, kappa, delta, zeta]) (map Fin ts) (map Fin Rs) (Fin dPsi)
           ''numerical''"
  using np_map2_Fin_cong [of
      "turnbull_bp_analytical (Fin kappa) (Fin delta) (Fin zeta) (Fin dR0dr) (Fin dZ0dr)
         (Fin s_kappa) (Fin s_delta) (Fin s_zeta) (Fin dPsi)"
      "turnbull_bp_numerical (Fin r) (Fin kappa) (Fin delta) (Fin zeta) (Fin dR0dr) (Fin dZ0dr)
         (Fin s_kappa) (Fin s_delta) (Fin s_zeta) (Fin dPsi)" ts Rs]
    turnbull_bp_methods_agree_at [OF assms]
  by (simp add: turnbull_bp_def)

text \<open>
  C3. The claim: on every smooth, non-degenerate shape the analytical and the numerical
  method of \<^verbatim>\<open>miller_bp\<close> and \<^verbatim>\<open>turnbull_bp\<close> agree, and the numerical branch
  is a total function there. The numerical branch of \<^verbatim>\<open>miller_bp\<close> returns for no
  well-formed input: it raises \<^verbatim>\<open>TypeError\<close> at line 322.
\<close>

theorem miller_bp_numerical_raises_TypeError:
  "miller_bp [dR0dr, dZ0dr, s_kappa, s_delta] [R0, Z0, r, kappa, delta] theta R dPsi_dr
     ''numerical'' = Inl TypeError"
  by (simp add: miller_bp_def)

text \<open>
  The analytical branch of \<^verbatim>\<open>miller_bp\<close> adds the two factors
  \<^verbatim>\<open>np.sin(theta_R)**2\<close> and \<^verbatim>\<open>(1 + x * np.cos(theta))**2\<close> that
  \<^verbatim>\<open>turnbull_bp\<close> multiplies. On the outboard midplane of an ellipse of elongation 2
  (\<open>\<theta> = 0\<close>, \<open>\<delta> = 0\<close>, no shear) it returns \<open>\<surd>5 / 2\<close>, where both branches
  of \<^verbatim>\<open>turnbull_bp\<close> with \<open>\<zeta> = 0\<close> return 1.
\<close>

lemma miller_bp_analytical_midplane:
  "miller_bp [Fin 0, Fin 0, Fin 0, Fin 0] [Fin 1, Fin 0, Fin (1/2), Fin 2, Fin 0]
     [Fin 0] [Fin 1] (Fin 1) ''analytical'' = Inr [Fin (sqrt 5 / 2)]"
  by (simp add: miller_bp_def np_map2_def miller_bp_analytical_def Let_def)

lemma turnbull_bp_analytical_midplane:
  "turnbull_bp [Fin 0, Fin 0, Fin 0, Fin 0, Fin 0] [Fin 1, Fin 0, Fin (1/2), Fin 2, Fin 0, Fin 0]
     [Fin 0] [Fin 1] (Fin 1) ''analytical'' = Inr [Fin 1]"
  by (simp add: turnbull_bp_def np_map2_def turnbull_bp_analytical_def Let_def
      turnbull_theta_R_def turnbull_dtheta_Rdtheta_def turnbull_theta_Z_def
      turnbull_dtheta_Zdtheta_def)

section \<open>The squareness of the analytic extractor\<close>

lemma sin_quadrants:
  "sin (3 * pi / 2) = - 1" "sin (5 * pi / 2) = 1" "sin (7 * pi / 2) = - 1"
proof -
  have "3 * pi / 2 = 3 / 2 * pi" by simp
  then show "sin (3 * pi / 2) = - 1" by (simp only: sin_3over2_pi)
  have "5 * pi / 2 = pi / 2 + 2 * pi" by simp
  then show "sin (5 * pi / 2) = 1" by (simp only: sin_periodic sin_pi_half)
  have "7 * pi / 2 = 3 / 2 * pi + 2 * pi" by simp
  then show "sin (7 * pi / 2) = - 1" by (simp only: sin_periodic sin_3over2_pi)
qed

lemma npfloat_unit [simp]:
  "Fin 1 * a = a" "a / Fin 1 = a" "a + Fin 0 = a" "Fin (- 1) * a = - a" "a / Fin (- 1) = - a"
  "- (- a) = a" "a + Fin (- x) = a - Fin x" "a - Fin (- x) = a + Fin x"
  for a :: npfloat
  by (cases a; simp)+

lemma theta_zeta_nth:
  "theta_zeta ! 0 = pi / 4" "theta_zeta ! 1 = 3 * pi / 4"
  "theta_zeta ! 2 = 5 * pi / 4" "theta_zeta ! 3 = 7 * pi / 4"
  "theta_zeta ! Suc 0 = 3 * pi / 4"
  by (simp_all add: theta_zeta_def numeral_2_eq_2 numeral_3_eq_3)

lemma zeta_4q_eq:
  "zeta_4q fs kap Z_at =
     [np_arcsin ((Z_at (pi / 4) - fs_Z0 fs) / (kap * fs_r fs)),
      np_arcsin ((Z_at (3 * pi / 4) - fs_Z0 fs) / (kap * fs_r fs)) - Fin pi,
      - np_arcsin ((Z_at (5 * pi / 4) - fs_Z0 fs) / (kap * fs_r fs)) - Fin pi,
      - np_arcsin ((Z_at (7 * pi / 4) - fs_Z0 fs) / (kap * fs_r fs))]"
  by (simp add: zeta_4q_def zeta_4q_raw_def theta_zeta_def sin_quadrants)

text \<open>
  The four quadrant values and the squareness that the extractor returns, with the sines
  of the quadrant angles evaluated; \<open>a q\<close> is the arcsine taken at the quadrant angle
  \<open>q\<close>.
\<close>

lemma extract_zeta_closed_form:
  fixes Z_at fs
  defines "g \<equiv> extract_analytic_geo Z_at fs"
  defines "a \<equiv> \<lambda>q. np_arcsin ((Z_at q - fs_Z0 fs) / (geo_kappa g * fs_r fs))"
  shows "geo_zeta_uo g = a (pi / 4) - Fin (pi / 4)"
    and "geo_zeta_ui g = a (3 * pi / 4) - Fin pi + Fin (3 * pi / 4)"
    and "geo_zeta_li g = - a (5 * pi / 4) - Fin pi + Fin (3 * pi / 4)"
    and "geo_zeta_lo g = - a (7 * pi / 4) - Fin (pi / 4)"
    and "geo_zeta g = Fin 0.25 * (geo_zeta_uo g + geo_zeta_ui g + geo_zeta_li g + geo_zeta_lo g)"
  unfolding g_def a_def
  by (simp_all add: extract_analytic_geo_def Let_def zeta_4q_eq theta_zeta_nth sin_quadrants
      numeral_2_eq_2 numeral_3_eq_3 split: npfloat.split)

lemma spec_corrected_closed_form:
  fixes Z_at fs kap
  defines "a \<equiv> \<lambda>q. np_arcsin ((Z_at q - fs_Z0 fs) / (kap * fs_r fs))"
  shows "spec_corrected fs kap Z_at 0 = a (pi / 4) - Fin (pi / 4)"
    and "spec_corrected fs kap Z_at 1 = a (3 * pi / 4) - Fin pi + Fin (3 * pi / 4)"
    and "spec_corrected fs kap Z_at 2 = - a (5 * pi / 4) - Fin pi - Fin (5 * pi / 4)"
    and "spec_corrected fs kap Z_at 3 = - a (7 * pi / 4) + Fin (7 * pi / 4)"
  unfolding a_def
  by (simp_all add: spec_corrected_def Let_def theta_zeta_nth sin_quadrants
      split: npfloat.split)


text \<open>
  The returned squareness is also the average of the specification's four values: the
  last two differ from the extractor's by \<open>-2\<pi>\<close> and \<open>+2\<pi>\<close>, which cancel.
\<close>

lemma quadrant_average:
  fixes a0 a1 a2 a3 :: npfloat
  shows "a0 - Fin (pi / 4) + (a1 - Fin pi + Fin (3 * pi / 4))
           + (- a2 - Fin pi + Fin (3 * pi / 4)) + (- a3 - Fin (pi / 4))
       = a0 - Fin (pi / 4) + (a1 - Fin pi + Fin (3 * pi / 4))
           + (- a2 - Fin pi - Fin (5 * pi / 4)) + (- a3 + Fin (7 * pi / 4))"
  by (cases a0; cases a1; cases a2; cases a3) simp_all

lemma extract_zeta_eq_spec_zeta:
  "geo_zeta (extract_analytic_geo Z_at fs)
     = spec_zeta fs (geo_kappa (extract_analytic_geo Z_at fs)) Z_at"
  unfolding spec_zeta_def spec_corrected_closed_form
    extract_zeta_closed_form(5) [of Z_at fs] extract_zeta_closed_form(1-4) [of Z_at fs]
  by (simp only: quadrant_average)

lemma arcsin_sin_quadrants:
  "arcsin (sin (pi / 4)) = pi / 4" "arcsin (sin (3 * pi / 4)) = pi / 4"
  "arcsin (sin (5 * pi / 4)) = - (pi / 4)" "arcsin (sin (7 * pi / 4)) = - (pi / 4)"
proof -
  have "- (pi / 2) \<le> pi / 4" "pi / 4 \<le> pi / 2"
    using pi_gt_zero by linarith+
  then show a: "arcsin (sin (pi / 4)) = pi / 4"
    by (rule arcsin_sin)
  have "sin (3 * pi / 4) = sin (pi - pi / 4)" by simp
  also have "\<dots> = sin (pi / 4)" by (rule sin_pi_minus)
  finally show "arcsin (sin (3 * pi / 4)) = pi / 4" using a by simp
  have "- (pi / 2) \<le> - (pi / 4)" "- (pi / 4) \<le> pi / 2"
    using pi_gt_zero by linarith+
  then have b: "arcsin (sin (- (pi / 4))) = - (pi / 4)"
    by (rule arcsin_sin)
  have "sin (- (pi / 4)) = sin (pi - 5 * pi / 4)" by simp
  also have "\<dots> = sin (5 * pi / 4)" by (rule sin_pi_minus)
  finally show "arcsin (sin (5 * pi / 4)) = - (pi / 4)" using b by simp
  have "sin (7 * pi / 4) = sin (- (pi / 4) + 2 * pi)" by simp
  also have "\<dots> = sin (- (pi / 4))" by (rule sin_periodic)
  finally show "arcsin (sin (7 * pi / 4)) = - (pi / 4)" using b by simp
qed

lemma ellipse_kappa: "geo_kappa (extract_analytic_geo ellipse_Z_at ellipse_contour) = Fin 2"
  by (simp add: extract_analytic_geo_def Let_def ellipse_contour_def)

lemma ellipse_arcsin:
  "np_arcsin ((ellipse_Z_at q - fs_Z0 ellipse_contour) / (Fin 2 * fs_r ellipse_contour))
     = Fin (arcsin (sin q))"
  by (simp add: ellipse_Z_at_def ellipse_contour_def np_arcsin_def)

text \<open>
  C5, as stated: the extractor subtracts \<open>\<theta> / sin(2 \<theta>)\<close> for the same quadrant's angle
  in each of the four corrected values. For the ellipse the two lower quadrant values that
  the extractor returns are 0 (the squareness of an ellipse), where the subtraction at the
  same quadrant's angle gives \<open>-2\<pi>\<close> and \<open>2\<pi>\<close>.
\<close>

theorem extract_lower_quadrants_not_same_angle:
  "geo_zeta_li (extract_analytic_geo ellipse_Z_at ellipse_contour) = Fin 0
   \<and> spec_corrected ellipse_contour (Fin 2) ellipse_Z_at 2 = Fin (- (2 * pi))
   \<and> geo_zeta_lo (extract_analytic_geo ellipse_Z_at ellipse_contour) = Fin 0
   \<and> spec_corrected ellipse_contour (Fin 2) ellipse_Z_at 3 = Fin (2 * pi)
   \<and> geo_zeta_li (extract_analytic_geo ellipse_Z_at ellipse_contour)
       \<noteq> spec_corrected ellipse_contour (Fin 2) ellipse_Z_at 2
   \<and> geo_zeta_lo (extract_analytic_geo ellipse_Z_at ellipse_contour)
       \<noteq> spec_corrected ellipse_contour (Fin 2) ellipse_Z_at 3"
  unfolding extract_zeta_closed_form(3,4) [of ellipse_Z_at ellipse_contour]
    spec_corrected_closed_form ellipse_kappa ellipse_arcsin arcsin_sin_quadrants
  by simp

text \<open>
  C5, amended: the extractor computes, at each of the four quadrant angles, the quantity
  \<open>arcsin((Z_\<zeta> - Z0) / (\<kappa> r)) / sin(2 \<theta>)\<close>, applies a sign flip and a shift by \<open>\<pi>\<close> on
  the two middle quadrants, subtracts \<open>\<theta> / sin(2 \<theta>)\<close> taken at \<open>\<pi>/4\<close> for the two outer
  quadrants and at \<open>3\<pi>/4\<close> for the two inner quadrants, and returns the squareness as the
  average of the four corrected values.
\<close>

theorem extract_zeta_quadrants:
  fixes Z_at fs
  defines "g \<equiv> extract_analytic_geo Z_at fs"
  defines "raw \<equiv> \<lambda>q. np_arcsin ((Z_at q - fs_Z0 fs) / (geo_kappa g * fs_r fs))
                        / np_sin (Fin (2 * q))"
  defines "sub \<equiv> \<lambda>q. Fin q / np_sin (Fin (2 * q))"
  shows "geo_zeta_uo g = raw (0.25 * pi) - sub (0.25 * pi)
       \<and> geo_zeta_ui g = (- raw (0.75 * pi) - Fin pi) - sub (0.75 * pi)
       \<and> geo_zeta_li g = (- raw (1.25 * pi) - Fin pi) - sub (0.75 * pi)
       \<and> geo_zeta_lo g = raw (1.75 * pi) - sub (0.25 * pi)
       \<and> geo_zeta g
           = Fin 0.25 * (geo_zeta_uo g + geo_zeta_ui g + geo_zeta_li g + geo_zeta_lo g)"
  unfolding raw_def sub_def g_def
    extract_zeta_closed_form(5) [of Z_at fs] extract_zeta_closed_form(1-4) [of Z_at fs]
  by (simp add: sin_quadrants split: npfloat.split)

section \<open>The residual of the default cost mode\<close>

lemma np_map_lengths:
  "length (L1_norm Rp Zp Rr Zr) = min (length Rp) (length Rr) + min (length Zp) (length Zr)"
  "length (L2_norm Rp Zp Rr Zr)
     = min (min (length Rp) (length Rr)) (min (length Zp) (length Zr))"
  by (simp_all add: L1_norm_def L2_norm_def)

text \<open>
  C7. Under the default cost mode \<^verbatim>\<open>'l1l2'\<close>, the residual vector that
  \<^verbatim>\<open>cost_param\<close> returns equals \<open>n_theta\<close> times the concatenation of the pointwise
  L2 distance \<open>sqrt((R_param - R_ref)\<^sup>2 + (Z_param - Z_ref)\<^sup>2)\<close> with the elementwise
  L1 terms \<open>|\<Delta>R|\<close> and \<open>|\<Delta>Z|\<close>, for every parameter vector on which the geometry
  model returns its curves; \<open>R_ref\<close> and \<open>Z_ref\<close> are the contour interpolated at the
  reference angles, less the first two parameters.
\<close>

theorem cost_param_l1l2:
  fixes c :: cost_ctx and interp1d and p0 p1 :: npfloat and theta_ref :: "npfloat list"
  assumes mode: "cc_cost_param_f c = ''l1l2''"
    and theta: "cc_theta c = t0 # ts"
    and curves: "param params (cc_theta c @ [t0]) True = Inr (R_param, Z_param, theta_ref)"
    and len: "length R_param = length theta_ref" "length Z_param = length theta_ref"
    and params: "params = p0 # p1 # ps"
  defines "R_ref \<equiv> map (\<lambda>t. interp1d True (cc_theta_RZ c) (cc_R c) t - p0) theta_ref"
  defines "Z_ref \<equiv> map (\<lambda>t. interp1d True (cc_theta_RZ c) (cc_Z c) t - p1) theta_ref"
  shows "cost_param param interp1d c params =
           Inr (map (\<lambda>v. Fin (of_int (cc_n_theta c)) * v)
                  (map2 (\<lambda>dR dZ. np_sqrt (np_pow dR 2 + np_pow dZ 2))
                     (map2 (-) R_param R_ref) (map2 (-) Z_param Z_ref)
                   @ map2 (\<lambda>a b. \<bar>a - b\<bar>) R_param R_ref
                   @ map2 (\<lambda>a b. \<bar>a - b\<bar>) Z_param Z_ref))"
  unfolding R_ref_def Z_ref_def
  using mode theta curves len params
  by (simp add: cost_param_def Let_def L1_norm_def L2_norm_def)

theorem cost_param_l1l2_witness:
  "cc_cost_param_f example_ctx = ''l1l2''
   \<and> cc_theta example_ctx = [Fin 0]
   \<and> turnbull [Fin 1, Fin 0, Fin (1/2), Fin 1, Fin 0, Fin 0] (cc_theta example_ctx @ [Fin 0]) True
       = Inr ([Fin (1/2), Fin (1/2)], [Fin 0, Fin 0], [Fin 0, Fin 0])
   \<and> cost_param turnbull nearest_interp1d example_ctx [Fin 1, Fin 0, Fin (1/2), Fin 1, Fin 0, Fin 0]
       = Inr [Fin 0, Fin 0, Fin 0, Fin 0, Fin 0, Fin 0]"
proof -
  have mode: "cc_cost_param_f example_ctx = ''l1l2''"
    and theta: "cc_theta example_ctx = Fin 0 # []"
    by (simp_all add: example_ctx_def)
  have curves: "turnbull [Fin 1, Fin 0, Fin (1/2), Fin 1, Fin 0, Fin 0]
                  (cc_theta example_ctx @ [Fin 0]) True
                = Inr ([Fin (1/2), Fin (1/2)], [Fin 0, Fin 0], [Fin 0, Fin 0])"
    by (simp add: turnbull_def Let_def example_ctx_def arctan2pi_def arctan2_def)
  have "cost_param turnbull nearest_interp1d example_ctx
          [Fin 1, Fin 0, Fin (1/2), Fin 1, Fin 0, Fin 0]
        = Inr [Fin 0, Fin 0, Fin 0, Fin 0, Fin 0, Fin 0]"
    using cost_param_l1l2 [where c = example_ctx and ?t0.0 = "Fin 0" and ts = "[]"
        and param = turnbull and params = "[Fin 1, Fin 0, Fin (1/2), Fin 1, Fin 0, Fin 0]"
        and R_param = "[Fin (1/2), Fin (1/2)]" and Z_param = "[Fin 0, Fin 0]"
        and theta_ref = "[Fin 0, Fin 0]" and ?p0.0 = "Fin 1" and ?p1.0 = "Fin 0"
        and ps = "[Fin (1/2), Fin 1, Fin 0, Fin 0]" and interp1d = nearest_interp1d,
        OF mode theta curves]
    by (simp add: example_ctx_def nearest_interp1d_def)
  with mode theta curves show ?thesis by simp
qed

section \<open>Which profile each poloidal-field parameter differentiates\<close>

lemma err_bind_Inr [simp]:
  "err_bind m f = Inr y \<longleftrightarrow> (\<exists>v. m = Inr v \<and> f v = Inr y)"
  by (cases m) (simp_all add: err_bind_def)

lemma err_bind_simps [simp]: "err_bind (Inr v) f = f v" "err_bind (Inl e) f = Inl e"
  by (simp_all add: err_bind_def)

lemma dict_get_Inr [simp]: "dict_get d k = Inr v \<longleftrightarrow> d k = Some v"
  by (simp add: dict_get_def split: option.split)

lemma str_nat_nonempty: "str_nat n \<noteq> []"
  by (induction n rule: str_nat.induct) (subst str_nat.simps, simp)

lemma digit_char_zero: "d < 10 \<Longrightarrow> digit_char d = CHR ''0'' \<longleftrightarrow> d = 0"
proof -
  assume "d < 10"
  then have "d \<in> {0, 1, 2, 3, 4, 5, 6, 7, 8, 9}" by auto
  then show ?thesis
    by (auto simp: digit_char_def)
qed

lemma str_nat_zero: "str_nat n = ''0'' \<longleftrightarrow> n = 0"
proof (cases "n < 10")
  case True
  then show ?thesis
    by (subst str_nat.simps) (simp add: digit_char_zero)
next
  case False
  have "length (str_nat n) = length (str_nat (n div 10)) + 1"
    using False by (subst str_nat.simps) simp
  moreover have "0 < length (str_nat (n div 10))"
    using str_nat_nonempty by simp
  ultimately have "length (str_nat n) \<noteq> 1" by simp
  with False show ?thesis by auto
qed

lemma bpol_loop_other_keys:
  "bpol_loop gradient dxdr x sd labels i_x_loc i keys (fg, sb) = (err, fg', sb')
   \<Longrightarrow> k \<notin> set keys \<Longrightarrow> fg' k = fg k"
proof (induction keys arbitrary: i fg sb)
  case Nil
  then show ?case by simp
next
  case (Cons key keys)
  then show ?case
    by (fastforce split: if_splits sum.splits)
qed


lemma s_deriv_keys:
  assumes "s_deriv gradient dxdr x labels fit_geo = Inr sd"
  shows "dom sd \<subseteq> {''s_kappa'', ''s_delta'', ''s_zeta'', ''s_tilt''}"
  using assms unfolding s_deriv_def
  by (auto split: if_splits)

lemma harmonic_labels_not_dc_0dr:
  "''dc_0dr'' \<notin> set (concat (map (\<lambda>n. [''dc_'' @ str_nat n @ ''dr'', ''ds_'' @ str_nat n @ ''dr''])
                               [1..<H + 1]))"
proof
  assume "''dc_0dr'' \<in> set (concat (map (\<lambda>n. [''dc_'' @ str_nat n @ ''dr'',
                                               ''ds_'' @ str_nat n @ ''dr'']) [1..<H + 1]))"
  then obtain n where n: "1 \<le> n"
    and "''dc_0dr'' = ''dc_'' @ str_nat n @ ''dr'' \<or> ''dc_0dr'' = ''ds_'' @ str_nat n @ ''dr''"
    by auto
  then have "''0'' @ ''dr'' = str_nat n @ ''dr''" by simp
  then have "str_nat n = ''0''" by (simp only: append_same_eq)
  with n show False by (simp add: str_nat_zero)
qed

lemma mxh_entry:
  "method_lookup H ''mxh'' = Inr m \<longleftrightarrow>
     m = \<lparr> param_initial = replicate (5 + 2 * H) (Fin 0),
           param_labels = [''R0'', ''Z0'', ''r'', ''kappa'', ''c_0'']
             @ concat (map (\<lambda>n. [''c_'' @ str_nat n, ''s_'' @ str_nat n]) [1..<H + 1]),
           bpol_initial = replicate (4 + 2 * H) (Fin 1),
           bpol_labels = [''dR0dr'', ''dZ0dr'', ''s_kappa'', ''dc_0dr'']
             @ concat (map (\<lambda>n. [''dc_'' @ str_nat n @ ''dr'', ''ds_'' @ str_nat n @ ''dr''])
                         [1..<H + 1]) \<rparr>"
  by (auto simp: method_lookup_def methods_table_def)

text \<open>
  C4. The claim: for every model, each poloidal-field parameter other than \<open>s_kappa\<close>,
  \<open>s_delta\<close>, \<open>s_zeta\<close>, \<open>s_tilt\<close> is \<open>(dx/dr) d(param)/dx\<close> for the shape
  parameter that its label names, at every position of the label lists. For the model
  \<^verbatim>\<open>mxh\<close> the loop reads the shape label at the position of \<open>dc_0dr\<close>, which is
  \<open>kappa\<close>: whenever lines 220-237 complete, the profile stored under \<open>dc_0dr\<close> is
  \<open>dx/dr\<close> times the gradient of the elongation profile, not of \<open>c_0\<close>.
\<close>

theorem mxh_dc_0dr_differentiates_kappa:
  assumes m: "method_lookup n_harmonics ''mxh'' = Inr m"
    and run: "shape_bpol_of gradient dxdr x i_x_loc m fit_geo = (None, fit_geo', shape_bpol)"
  shows "bpol_labels m ! 3 = ''dc_0dr'' \<and> param_labels m ! 3 = ''kappa''
         \<and> param_labels m ! 4 = ''c_0''
         \<and> (\<exists>kap g. fit_geo ''kappa'' = Some kap \<and> gradient kap x = Inr g
                     \<and> fit_geo' ''dc_0dr'' = Some (map2 (*) dxdr g))"
proof -
  define rest where
    "rest = concat (map (\<lambda>n. [''dc_'' @ str_nat n @ ''dr'', ''ds_'' @ str_nat n @ ''dr''])
                      [1..<n_harmonics + 1])"
  define ls where "ls = param_labels m"
  have bs: "bpol_labels m = ''dR0dr'' # ''dZ0dr'' # ''s_kappa'' # ''dc_0dr'' # rest"
    and ls: "ls ! 0 = ''R0''" "ls ! 1 = ''Z0''" "ls ! 3 = ''kappa''" "ls ! 4 = ''c_0''"
      "5 \<le> length ls"
    using m by (simp_all add: mxh_entry rest_def ls_def numeral_3_eq_3 nth_append)
  from run obtain sd where sd: "s_deriv gradient dxdr x ls fit_geo = Inr sd"
    and loop: "bpol_loop gradient dxdr x sd ls i_x_loc 0 (bpol_labels m) (fit_geo, [])
                = (None, fit_geo', shape_bpol)"
    by (auto simp: shape_bpol_of_def ls_def split: sum.splits)
  have none: "sd ''dR0dr'' = None" "sd ''dZ0dr'' = None" "sd ''dc_0dr'' = None"
    using s_deriv_keys [OF sd] by (auto simp: domIff subset_iff)
  from loop obtain v0 v1 v2 v3 sb where
      v3: "bpol_value gradient dxdr x sd ls
             (fit_geo(''dR0dr'' \<mapsto> v0, ''dZ0dr'' \<mapsto> v1, ''s_kappa'' \<mapsto> v2))
             (Suc (Suc (Suc 0))) ''dc_0dr'' = Inr v3"
      and loop4: "bpol_loop gradient dxdr x sd ls i_x_loc (Suc (Suc (Suc (Suc 0)))) rest
                   (fit_geo(''dR0dr'' \<mapsto> v0, ''dZ0dr'' \<mapsto> v1, ''s_kappa'' \<mapsto> v2,
                            ''dc_0dr'' \<mapsto> v3), sb) = (None, fit_geo', shape_bpol)"
    unfolding bs by (auto split: if_splits sum.splits)
  have "ls ! Suc (Suc (Suc 0)) = ''kappa''"
    using ls by (simp add: numeral_3_eq_3)
  with v3 none ls obtain kap g where
      "fit_geo ''kappa'' = Some kap" "gradient kap x = Inr g" "v3 = map2 (*) dxdr g"
    by (auto simp: bpol_value_def split: if_splits)
  moreover have "fit_geo' ''dc_0dr''
      = (fit_geo(''dR0dr'' \<mapsto> v0, ''dZ0dr'' \<mapsto> v1, ''s_kappa'' \<mapsto> v2,
                 ''dc_0dr'' \<mapsto> v3)) ''dc_0dr''"
    using loop4 harmonic_labels_not_dc_0dr [of n_harmonics]
    unfolding rest_def by (rule bpol_loop_other_keys)
  ultimately show ?thesis
    using bs ls by (simp add: ls_def)
qed


lemma str_nat_1: "str_nat (Suc 0) = ''1''"
  by (subst str_nat.simps) (simp add: digit_char_def)

theorem mxh_dc_0dr_differentiates_kappa_witness:
  "(case method_lookup 1 ''mxh'' of
      Inl e \<Rightarrow> False
    | Inr m \<Rightarrow>
        (case shape_bpol_of example_gradient [Fin 1, Fin 1, Fin 1] [Fin 1, Fin 2, Fin 3] (Inr 1) m
                example_fit_geo of
           (err, fg, sb) \<Rightarrow>
             err = None \<and> fg ''dc_0dr'' = Some [Fin 1, Fin 1, Fin 1]
             \<and> example_fit_geo ''c_0'' = Some [Fin 0, Fin 0, Fin 0]))"
proof -
  obtain m where m: "method_lookup 1 ''mxh'' = Inr m"
    by (simp add: mxh_entry)
  then have labels: "param_labels m = [''R0'', ''Z0'', ''r'', ''kappa'', ''c_0'', ''c_1'', ''s_1'']"
      "bpol_labels m = [''dR0dr'', ''dZ0dr'', ''s_kappa'', ''dc_0dr'', ''dc_1dr'', ''ds_1dr'']"
    by (simp_all add: mxh_entry str_nat_1)
  have "\<exists>fg sb. shape_bpol_of example_gradient [Fin 1, Fin 1, Fin 1] [Fin 1, Fin 2, Fin 3] (Inr 1) m
                  example_fit_geo = (None, fg, sb)"
    by (simp add: shape_bpol_of_def labels s_deriv_def example_fit_geo_def example_gradient_def
        bpol_value_def dict_get_def)
  then obtain fg sb where
      run: "shape_bpol_of example_gradient [Fin 1, Fin 1, Fin 1] [Fin 1, Fin 2, Fin 3] (Inr 1) m
              example_fit_geo = (None, fg, sb)"
    by blast
  from mxh_dc_0dr_differentiates_kappa [OF m run]
  have "fg ''dc_0dr'' = Some [Fin 1, Fin 1, Fin 1]"
    by (auto simp: example_fit_geo_def example_gradient_def)
  with m run show ?thesis
    by (simp add: example_fit_geo_def)
qed

text \<open>
  The positions agree for the other four models: there every label outside
  \<^verbatim>\<open>s_deriv\<close> names the shape parameter at its own position.
\<close>

lemma aligned_models:
  "map (\<lambda>(name, m). (name, aligned m)) (methods_table H) =
     [(''miller'', True), (''turnbull'', True), (''turnbull_tilt'', True),
      (''miller_general'', True), (''mxh'', False)]"
proof -
  have "aligned \<lparr> param_initial = a, param_labels = ls, bpol_initial = b,
                   bpol_labels = map (\<lambda>label. ''d'' @ label @ ''dr'') ls \<rparr>" for a b ls
    by (simp add: aligned_def derivative_label_def list_all_length nth_enumerate_eq)
  then show ?thesis
    by (simp add: methods_table_def aligned_def derivative_label_def numeral_3_eq_3)
qed

section \<open>The initial condition of each fit\<close>

lemma seed_loop_length:
  "seed_loop pt i keys p = Inr s \<Longrightarrow> length s = length p"
  by (induction pt i keys p rule: seed_loop.induct)
    (auto split: option.splits if_splits)

lemma seed_loop_nth:
  assumes "seed_loop pt i keys p = Inr s"
  shows "(\<forall>n < i. s ! n = p ! n)
       \<and> (\<forall>k < length keys. \<exists>mg. pt_miller_geo pt = Some mg
            \<and> s ! (i + k) = (case mg (keys ! k) of
                               Some v \<Rightarrow> v
                             | None \<Rightarrow> (case pt_scalars pt (keys ! k) of
                                          Some v \<Rightarrow> v
                                        | None \<Rightarrow> p ! (i + k))))"
  using assms
proof (induction pt i keys p rule: seed_loop.induct)
  case (1 pt i_key p)
  then show ?case by simp
next
  case (2 pt i_key key keys p)
  from "2.prems" obtain mg where mg: "pt_miller_geo pt = Some mg"
    by (auto split: option.splits)
  define p' where "p' = (case mg key of
                           Some v \<Rightarrow> p[i_key := v]
                         | None \<Rightarrow> (case pt_scalars pt key of
                                      Some v \<Rightarrow> p[i_key := v]
                                    | None \<Rightarrow> p))"
  have rec: "seed_loop pt (Suc i_key) keys p' = Inr s"
    and inb: "mg key \<noteq> None \<or> pt_scalars pt key \<noteq> None \<Longrightarrow> i_key < length p"
    using "2.prems" mg by (auto simp: p'_def split: option.splits if_splits)
  have IH: "(\<forall>n < Suc i_key. s ! n = p' ! n)
       \<and> (\<forall>k < length keys. \<exists>mg. pt_miller_geo pt = Some mg
            \<and> s ! (Suc i_key + k) = (case mg (keys ! k) of
                               Some v \<Rightarrow> v
                             | None \<Rightarrow> (case pt_scalars pt (keys ! k) of
                                          Some v \<Rightarrow> v
                                        | None \<Rightarrow> p' ! (Suc i_key + k))))"
    using "2.IH" "2.prems" mg rec
    by (auto simp: p'_def split: option.splits if_splits)
  have other: "n \<noteq> i_key \<Longrightarrow> p' ! n = p ! n" for n
    by (simp add: p'_def split: option.splits)
  have here: "p' ! i_key = (case mg key of
                              Some v \<Rightarrow> v
                            | None \<Rightarrow> (case pt_scalars pt key of
                                         Some v \<Rightarrow> v
                                       | None \<Rightarrow> p ! i_key))"
    using inb by (auto simp: p'_def split: option.splits)
  show ?case
  proof (intro conjI allI impI)
    fix n assume "n < i_key"
    with IH other show "s ! n = p ! n" by simp
  next
    fix k assume k: "k < length (key # keys)"
    show "\<exists>mg. pt_miller_geo pt = Some mg
            \<and> s ! (i_key + k) = (case mg ((key # keys) ! k) of
                               Some v \<Rightarrow> v
                             | None \<Rightarrow> (case pt_scalars pt ((key # keys) ! k) of
                                          Some v \<Rightarrow> v
                                        | None \<Rightarrow> p ! (i_key + k)))"
    proof (cases k)
      case 0
      with IH here mg show ?thesis by (simp cong: option.case_cong)
    next
      case (Suc k')
      with k IH obtain mg' where "pt_miller_geo pt = Some mg'"
        and "s ! (Suc i_key + k') = (case mg' (keys ! k') of
                               Some v \<Rightarrow> v
                             | None \<Rightarrow> (case pt_scalars pt (keys ! k') of
                                          Some v \<Rightarrow> v
                                        | None \<Rightarrow> p' ! (Suc i_key + k')))"
        by auto
      with Suc other [of "Suc i_key + k'"] show ?thesis by (simp cong: option.case_cong)
    qed
  qed
qed


lemma fit_point_seed:
  assumes "fit_point env pt p = Inr (seed, params, fs)"
  shows "seed_loop pt 0 (fe_labels env) p = Inr seed"
proof (cases "fe_theta env")
  case Nil
  with assms show ?thesis by (simp add: fit_point_def)
next
  case (Cons t0 ts)
  with assms show ?thesis
    by (auto simp: fit_point_def split: if_splits)
qed

text \<open>
  Every grid point that the loop has fitted took its initial condition from the list that
  the grid point before it left, which is its initial condition and not its fitted vector.
\<close>

lemma fit_loop_trace:
  assumes "fit_loop env e x_loc grid st0 = (err, st)"
  shows "\<exists>new. st_trace st = st_trace st0 @ new \<and> length new \<le> length grid
           \<and> (\<forall>j < length new. \<exists>pt.
                  point_at e (fe_labels env) (fst (grid ! j)) = Inr pt
                  \<and> seed_loop pt 0 (fe_labels env)
                        (if j = 0 then st_param_initial st0 else fst (new ! (j - 1)))
                      = Inr (fst (new ! j)))"
  using assms
proof (induction grid arbitrary: st0)
  case Nil
  then show ?case by simp
next
  case (Cons g grid)
  obtain i_x_loc xfs where g: "g = (i_x_loc, xfs)" by (cases g)
  show ?case
  proof (cases "err_bind (point_at e (fe_labels env) i_x_loc)
                  (\<lambda>pt. fit_point env pt (st_param_initial st0))")
    case (Inl a)
    with Cons.prems g have "st = st0" by simp
    then show ?thesis by simp
  next
    case (Inr res)
    obtain seed params fs where res: "res = (seed, params, fs)" by (cases res)
    define st1 where
      "st1 = \<lparr> st_param_initial = seed, st_fit_geo = merge_trees fs (st_fit_geo st0),
               st_shape = (if xfs = x_loc then Some params else st_shape st0),
               st_trace = st_trace st0 @ [(seed, params)] \<rparr>"
    from Inr res obtain pt where pt: "point_at e (fe_labels env) i_x_loc = Inr pt"
      and "fit_point env pt (st_param_initial st0) = Inr (seed, params, fs)"
      by auto
    then have seed: "seed_loop pt 0 (fe_labels env) (st_param_initial st0) = Inr seed"
      by (simp add: fit_point_seed)
    from Cons.prems g Inr res have "fit_loop env e x_loc grid st1 = (err, st)"
      by (simp add: st1_def)
    from Cons.IH [OF this] obtain new where
        new: "st_trace st = st_trace st1 @ new" "length new \<le> length grid"
        and steps: "\<And>j. j < length new \<Longrightarrow> \<exists>pt.
                  point_at e (fe_labels env) (fst (grid ! j)) = Inr pt
                  \<and> seed_loop pt 0 (fe_labels env)
                        (if j = 0 then st_param_initial st1 else fst (new ! (j - 1)))
                      = Inr (fst (new ! j))"
      by blast
    let ?new = "(seed, params) # new"
    have "st_trace st = st_trace st0 @ ?new" "length ?new \<le> length (g # grid)"
      using new by (simp_all add: st1_def)
    moreover have "\<exists>pt. point_at e (fe_labels env) (fst ((g # grid) ! j)) = Inr pt
                  \<and> seed_loop pt 0 (fe_labels env)
                        (if j = 0 then st_param_initial st0 else fst (?new ! (j - 1)))
                      = Inr (fst (?new ! j))" if "j < length ?new" for j
    proof (cases j)
      case 0
      with pt seed g show ?thesis by simp
    next
      case (Suc j')
      with that have "j' < length new" by simp
      from steps [OF this] Suc show ?thesis
        by (cases j') (simp_all add: st1_def)
    qed
    ultimately show ?thesis by blast
  qed
qed


text \<open>The example: both grid points, and the fit of either from either starting list.\<close>

lemma example_point:
  "point_at example_eq (fe_labels example_env) 0 =
     Inr \<lparr> pt_scalars = [''r'' \<mapsto> Fin (1/2), ''Z0'' \<mapsto> Fin 0, ''R0'' \<mapsto> Fin (17/10)],
           pt_contours = [''theta_RZ'' \<mapsto> [Fin 0, Fin pi], ''Z'' \<mapsto> [Fin 0, Fin 0],
                          ''R'' \<mapsto> [Fin (11/5), Fin (6/5)]],
           pt_miller_geo = Some [''zeta'' \<mapsto> Fin 0, ''delta'' \<mapsto> Fin 0, ''kappa'' \<mapsto> Fin 1] \<rparr>"
  "point_at example_eq (fe_labels example_env) (Suc 0) =
     Inr \<lparr> pt_scalars = [''r'' \<mapsto> Fin (1/2), ''Z0'' \<mapsto> Fin 0, ''R0'' \<mapsto> Fin (17/10)],
           pt_contours = [''theta_RZ'' \<mapsto> [Fin 0, Fin pi], ''Z'' \<mapsto> [Fin 0, Fin 0],
                          ''R'' \<mapsto> [Fin (11/5), Fin (6/5)]],
           pt_miller_geo = Some [''zeta'' \<mapsto> Fin 0, ''delta'' \<mapsto> Fin 0, ''kappa'' \<mapsto> Fin 1] \<rparr>"
  by (simp_all add: point_at_def example_eq_def example_env_def)

lemma example_fit:
  fixes p
  defines "pt \<equiv> \<lparr> pt_scalars = [''r'' \<mapsto> Fin (1/2), ''Z0'' \<mapsto> Fin 0, ''R0'' \<mapsto> Fin (17/10)],
           pt_contours = [''theta_RZ'' \<mapsto> [Fin 0, Fin pi], ''Z'' \<mapsto> [Fin 0, Fin 0],
                          ''R'' \<mapsto> [Fin (11/5), Fin (6/5)]],
           pt_miller_geo = Some [''zeta'' \<mapsto> Fin 0, ''delta'' \<mapsto> Fin 0, ''kappa'' \<mapsto> Fin 1] \<rparr>"
  assumes "p = [Fin 0, Fin 0, Fin 0, Fin 1, Fin 0, Fin 0, Fin 0]
           \<or> p = [Fin (17/10), Fin 0, Fin (1/2), Fin 1, Fin 0, Fin 0, Fin 0]"
  shows "fit_point example_env pt p =
           Inr ([Fin (17/10), Fin 0, Fin (1/2), Fin 1, Fin 0, Fin 0, Fin 0],
                [Fin (17/10), Fin 0, Fin (1/2), Fin 1, Fin 0, Fin 0, Fin (1/10)],
                fit_scalars (fe_labels example_env) pt
                  [Fin (17/10), Fin 0, Fin (1/2), Fin 1, Fin 0, Fin 0, Fin (1/10)])"
proof -
  have seed: "seed_loop pt 0 (fe_labels example_env) p
                = Inr [Fin (17/10), Fin 0, Fin (1/2), Fin 1, Fin 0, Fin 0, Fin 0]"
    using assms(2) by (auto simp: pt_def example_env_def)
  have cost: "cost_param turnbull_tilt nearest_interp1d
          \<lparr> cc_theta = [Fin 0], cc_n_theta = 1, cc_cost_param_f = ''l1l2'',
            cc_theta_RZ = [Fin 0, Fin pi], cc_R = [Fin (11/5), Fin (6/5)], cc_Z = [Fin 0, Fin 0],
            cc_psi = NaN, cc_derived_psi = [], cc_derived_fpol = [] \<rparr>
          [Fin (17/10), Fin 0, Fin (1/2), Fin 1, Fin 0, Fin 0, Fin 0]
        = Inr [Fin 0, Fin 0, Fin 0, Fin 0, Fin 0, Fin 0]"
    by (simp add: cost_param_def turnbull_tilt_def Let_def arctan2pi_def arctan2_def
        nearest_interp1d_def L1_norm_def L2_norm_def)
  have pt: "pt_contours pt ''theta_RZ'' = Some [Fin 0, Fin pi]"
    "pt_contours pt ''R'' = Some [Fin (11/5), Fin (6/5)]"
    "pt_contours pt ''Z'' = Some [Fin 0, Fin 0]"
    by (simp_all add: pt_def)
  have env: "fe_param example_env = turnbull_tilt" "fe_interp1d example_env = nearest_interp1d"
    "fe_least_squares example_env = example_least_squares" "fe_theta example_env = [Fin 0]"
    "fe_n_theta example_env = 1" "fe_cost_f example_env = ''l1l2''"
    "fe_derived_psi example_env = []" "fe_derived_fpol example_env = []"
    "length (fe_labels example_env) = 7"
    by (simp_all add: example_env_def)
  have geo: "\<exists>g. turnbull_tilt [Fin (17/10), Fin 0, Fin (1/2), Fin 1, Fin 0, Fin 0, Fin 0]
                 [Fin 0, Fin 0] False = Inr g"
    by (simp add: turnbull_tilt_def Let_def)
  show ?thesis
    using geo
    by (auto simp: fit_point_def seed env pt cost example_least_squares_def dict_get_def)
qed


lemma example_trace:
  "st_trace (snd (fit_loop example_env example_eq (1/2) [(0, 199/400), (1, 1/2)] example_state))
     = [([Fin (17/10), Fin 0, Fin (1/2), Fin 1, Fin 0, Fin 0, Fin 0],
         [Fin (17/10), Fin 0, Fin (1/2), Fin 1, Fin 0, Fin 0, Fin (1/10)]),
        ([Fin (17/10), Fin 0, Fin (1/2), Fin 1, Fin 0, Fin 0, Fin 0],
         [Fin (17/10), Fin 0, Fin (1/2), Fin 1, Fin 0, Fin 0, Fin (1/10)])]"
  by (simp add: example_point example_fit example_state_def)

text \<open>
  C6, as stated: for every grid point after the first, the initial guess for a label
  without a prior-analysis value equals the fitted value of the previous grid point. In
  the example the label \<open>tilt\<close> has no prior-analysis value and no entry in the
  equilibrium; the first grid point is fitted to a tilt of \<open>0.1\<close>, and the second
  grid point starts from the default \<open>0\<close> all the same.
\<close>

theorem fit_loop_seed_not_previous_fit:
  "st_trace (snd (fit_loop example_env example_eq (1/2) [(0, 199/400), (1, 1/2)] example_state))
     = [([Fin (17/10), Fin 0, Fin (1/2), Fin 1, Fin 0, Fin 0, Fin 0],
         [Fin (17/10), Fin 0, Fin (1/2), Fin 1, Fin 0, Fin 0, Fin (1/10)]),
        ([Fin (17/10), Fin 0, Fin (1/2), Fin 1, Fin 0, Fin 0, Fin 0],
         [Fin (17/10), Fin 0, Fin (1/2), Fin 1, Fin 0, Fin 0, Fin (1/10)])]
   \<and> fe_labels example_env ! 6 = ''tilt''
   \<and> map_of (the (eq_miller_geo example_eq)) ''tilt'' = None
   \<and> eq_scalars example_eq ''tilt'' = None
   \<and> st_param_initial example_state ! 6 = Fin 0
   \<and> fst (st_trace (snd (fit_loop example_env example_eq (1/2) [(0, 199/400), (1, 1/2)]
                             example_state)) ! 1) ! 6 = Fin 0
   \<and> snd (st_trace (snd (fit_loop example_env example_eq (1/2) [(0, 199/400), (1, 1/2)]
                             example_state)) ! 0) ! 6 = Fin (1/10)"
  unfolding example_trace
  by (simp add: example_env_def example_eq_def example_state_def)

text \<open>
  C6, amended: for every radial grid point, the initial guess of the fit for each
  parameter label is the prior-analysis (analytic extractor) value of that grid point
  when present; otherwise it is the value that the equilibrium stores under that label
  for the grid point, when present; when neither exists it is the initial guess of the
  previous grid point for that label, and for the first grid point the default initial
  guess of the model. The fitted values of the previous grid point are not used.
\<close>

theorem fit_loop_seed:
  assumes run: "fit_loop env e x_loc grid st0 = (err, st)"
    and fresh: "st_trace st0 = []"
    and j: "j < length (st_trace st)"
    and i: "i < length (fe_labels env)"
  shows "\<exists>pt mg. point_at e (fe_labels env) (fst (grid ! j)) = Inr pt
           \<and> pt_miller_geo pt = Some mg
           \<and> fst (st_trace st ! j) ! i =
               (case mg (fe_labels env ! i) of
                  Some v \<Rightarrow> v
                | None \<Rightarrow>
                    (case pt_scalars pt (fe_labels env ! i) of
                       Some v \<Rightarrow> v
                     | None \<Rightarrow> (if j = 0 then st_param_initial st0 ! i
                                else fst (st_trace st ! (j - 1)) ! i)))"
proof -
  from fit_loop_trace [OF run] fresh j obtain pt where
      pt: "point_at e (fe_labels env) (fst (grid ! j)) = Inr pt"
      and seed: "seed_loop pt 0 (fe_labels env)
                   (if j = 0 then st_param_initial st0 else fst (st_trace st ! (j - 1)))
                 = Inr (fst (st_trace st ! j))"
    by auto
  from seed_loop_nth [OF seed] i obtain mg where
      "pt_miller_geo pt = Some mg"
      "fst (st_trace st ! j) ! (0 + i) =
         (case mg (fe_labels env ! i) of
            Some v \<Rightarrow> v
          | None \<Rightarrow>
              (case pt_scalars pt (fe_labels env ! i) of
                 Some v \<Rightarrow> v
               | None \<Rightarrow> (if j = 0 then st_param_initial st0
                          else fst (st_trace st ! (j - 1))) ! (0 + i)))"
    by blast
  with pt show ?thesis
    by (auto simp: if_distrib [of "\<lambda>p. p ! i"] cong: option.case_cong if_cong)
qed

theorem fit_loop_seed_witness:
  "st_trace example_state = []
   \<and> 1 < length (st_trace (snd (fit_loop example_env example_eq (1/2) [(0, 199/400), (1, 1/2)]
                                    example_state)))
   \<and> 6 < length (fe_labels example_env)
   \<and> fst (st_trace (snd (fit_loop example_env example_eq (1/2) [(0, 199/400), (1, 1/2)]
                             example_state)) ! 1) ! 6
       = fst (st_trace (snd (fit_loop example_env example_eq (1/2) [(0, 199/400), (1, 1/2)]
                               example_state)) ! 0) ! 6"
proof -
  define run where
    "run = fit_loop example_env example_eq (1/2) [(0, 199/400), (1, 1/2)] example_state"
  have run: "fit_loop example_env example_eq (1/2) [(0, 199/400), (1, 1/2)] example_state
               = (fst run, snd run)"
    unfolding run_def by (rule prod.collapse [symmetric])
  have fresh: "st_trace example_state = []" by (simp add: example_state_def)
  have j: "1 < length (st_trace (snd run))" unfolding run_def example_trace by simp
  have i: "6 < length (fe_labels example_env)" by (simp add: example_env_def)
  from fit_loop_seed [OF run fresh j i] obtain pt mg where
      pt: "point_at example_eq (fe_labels example_env) (fst ([(0, 199/400), (1::nat, 1/2::real)] ! 1))
         = Inr pt"
      and mg: "pt_miller_geo pt = Some mg"
      and eq: "fst (st_trace (snd run) ! 1) ! 6 =
          (case mg (fe_labels example_env ! 6) of
             Some v \<Rightarrow> v
           | None \<Rightarrow>
               (case pt_scalars pt (fe_labels example_env ! 6) of
                  Some v \<Rightarrow> v
                | None \<Rightarrow> (if (1::nat) = 0 then st_param_initial example_state ! 6
                           else fst (st_trace (snd run) ! (1 - 1)) ! 6)))"
    by blast
  from pt have "point_at example_eq (fe_labels example_env) (Suc 0) = Inr pt" by simp
  with mg have "mg ''tilt'' = None" "pt_scalars pt ''tilt'' = None"
    by (auto simp: example_point)
  moreover have "fe_labels example_env ! 6 = ''tilt''"
    by (simp add: example_env_def)
  ultimately have "fst (st_trace (snd run) ! 1) ! 6 = fst (st_trace (snd run) ! 0) ! 6"
    using eq by simp
  with fresh j i show ?thesis unfolding run_def by blast
qed

section \<open>The caller's equilibrium is not written\<close>

lemma keeps_return: "keeps n b (h_return v)"
  by (simp add: keeps_def h_return_def)

lemma keeps_lift: "keeps n b (h_lift r)"
  by (simp add: keeps_def h_lift_def)

lemma keeps_bind:
  assumes "keeps n b m" "\<And>v. keeps n b (f v)"
  shows "keeps n b (h_bind m f)"
  unfolding keeps_def h_bind_def
proof (intro allI impI)
  fix h assume h: "fresh_copy n b h"
  obtain r h1 where m: "m h = (r, h1)" by (cases "m h")
  with assms(1) h have h1: "fresh_copy n b h1" "\<forall>a < n. h1 ! a = h ! a"
    by (auto simp: keeps_def)
  show "case (case m h of (Inl e, h') \<Rightarrow> (Inl e, h') | (Inr v, h') \<Rightarrow> f v h') of
          (r, h') \<Rightarrow> fresh_copy n b h' \<and> (\<forall>a < n. h' ! a = h ! a)"
  proof (cases r)
    case (Inl e)
    with m h1 show ?thesis by simp
  next
    case (Inr v)
    obtain r2 h2 where f: "f v h1 = (r2, h2)" by (cases "f v h1")
    with assms(2) [of v] h1 have "fresh_copy n b h2" "\<forall>a < n. h2 ! a = h1 ! a"
      by (auto simp: keeps_def)
    with m Inr f h1 show ?thesis by simp
  qed
qed

lemma keeps_read_eq: "keeps n b (read_eq b)"
  by (auto simp: keeps_def read_eq_def split: obj.splits)

lemma keeps_modify_flux: "keeps n b (modify_flux b g)"
  by (auto simp: keeps_def modify_flux_def fresh_copy_def nth_list_update split: obj.splits)

lemma keeps_store_fit_geo: "keeps n b (store_fit_geo b fit_geo)"
  unfolding store_fit_geo_def by (rule keeps_modify_flux)

lemma keeps_reset_flux: "keeps n b (reset_flux b)"
  by (auto simp: keeps_def reset_flux_def fresh_copy_def nth_list_update nth_append
      split: obj.splits)

lemma keeps_case_prod:
  "(\<And>x y. keeps n b (f x y)) \<Longrightarrow> keeps n b (case p of (x, y) \<Rightarrow> f x y)"
  by (cases p) simp

lemma keeps_if:
  "keeps n b m1 \<Longrightarrow> keeps n b m2 \<Longrightarrow> keeps n b (if c then m1 else m2)"
  by simp

lemmas keeps_intros =
  keeps_bind keeps_return keeps_lift keeps_read_eq keeps_modify_flux keeps_store_fit_geo
  keeps_reset_flux keeps_case_prod keeps_if

lemma keeps_init_fit: "keeps n b (init_fit ext args b m grid)"
  unfolding init_fit_def
  by (intro keeps_intros)

lemma keeps_init_shear: "keeps n b (init_shear ext args b m grid st)"
  unfolding init_shear_def
  by (intro keeps_intros)

lemma keeps_init_opt: "keeps n b (init_opt ext args b m i_x_loc shape_bpol)"
  unfolding init_opt_def
  by (intro keeps_intros)


lemma keeps_init_setup: "keeps n b (init_setup ext args b)"
  unfolding init_setup_def Let_def
  by (intro keeps_intros)

lemma deepcopy_fresh:
  assumes "deepcopy a h = (r, h')"
  shows "(\<forall>x < length h. h' ! x = h ! x)
       \<and> (case r of Inr b \<Rightarrow> fresh_copy (length h) b h' | Inl e \<Rightarrow> h' = h)"
  using assms
  by (auto simp: deepcopy_def fresh_copy_def nth_append split: if_splits obj.splits)

text \<open>
  C9. The equilibrium that is passed to the constructor is only read: for every run of
  the constructor, whether it returns or raises, every object of the caller's store, and
  so the equilibrium and its dictionaries of flux surfaces and derived quantities, is
  unchanged afterwards; what the constructor stores goes to the objects of its copy.
\<close>

theorem init_keeps_callers_store:
  assumes run: "LocalEquilibrium_init ext args a h = (r, h')"
    and old: "x < length h"
  shows "h' ! x = h ! x"
proof -
  obtain r0 h0 where copy: "deepcopy a h = (r0, h0)" by (cases "deepcopy a h")
  note c = deepcopy_fresh [OF copy]
  show ?thesis
  proof (cases r0)
    case (Inl e)
    with run copy c show ?thesis
      by (simp add: LocalEquilibrium_init_def h_bind_def)
  next
    case (Inr b)
    define rest where
      "rest = h_bind (init_setup ext args b) (\<lambda>(m, grid).
              h_bind (init_fit ext args b m grid) (\<lambda>st.
              h_bind (init_shear ext args b m grid st) (\<lambda>(i_x_loc, shape, shape_bpol).
              h_bind (init_opt ext args b m i_x_loc shape_bpol) (\<lambda>shape_bpol'.
              h_return (shape, shape_bpol')))))"
    have "keeps (length h) b rest"
      unfolding rest_def
      by (intro keeps_intros keeps_init_setup keeps_init_fit keeps_init_shear keeps_init_opt)
    moreover from c Inr have "fresh_copy (length h) b h0" by simp
    moreover from run copy Inr have "rest h0 = (r, h')"
      by (simp add: LocalEquilibrium_init_def h_bind_def rest_def)
    ultimately have "\<forall>a < length h. h' ! a = h0 ! a"
      by (auto simp: keeps_def)
    with c old show ?thesis by simp
  qed
qed


theorem init_keeps_callers_store_witness:
  "2 < length example_store
   \<and> snd (LocalEquilibrium_init example_ext example_args 2 example_store) ! 2
       = Equilibrium 0 1
   \<and> snd (LocalEquilibrium_init example_ext example_args 2 example_store) ! 0
       = example_store ! 0"
proof -
  define run where "run = LocalEquilibrium_init example_ext example_args 2 example_store"
  have run: "LocalEquilibrium_init example_ext example_args 2 example_store = (fst run, snd run)"
    unfolding run_def by (rule prod.collapse [symmetric])
  have len: "2 < length example_store" "0 < length example_store"
    by (simp_all add: example_store_def)
  from init_keeps_callers_store [OF run len(1)] init_keeps_callers_store [OF run len(2)] len
  show ?thesis
    unfolding run_def by (simp add: example_store_def)
qed

text \<open>
  With a shallow copy in the place of the deep copy, line 113 alone would write the
  caller's dictionary of flux surfaces.
\<close>

lemma shallow_copy_writes_callers_store:
  "snd (h_bind (shallow_copy 2) (\<lambda>b. store_fit_geo b Map.empty)
          [FluxDict F, DerivedDict D, Equilibrium 0 1]) ! 0
     = FluxDict (F\<lparr>eq_fit_geo := Some Map.empty\<rparr>)"
  by (simp add: h_bind_def shallow_copy_def store_fit_geo_def modify_flux_def)


text \<open>
  The example run: one grid point, fitted with \<^verbatim>\<open>turnbull_tilt\<close>. The fit is stored in
  the dictionary of the copy, at address 3; the run ends at line 217 with the
  \<^verbatim>\<open>ValueError\<close> of a gradient over a single grid point.
\<close>

lemma example_deepcopy:
  "deepcopy 2 example_store =
     (Inr 5, [FluxDict example_flux, DerivedDict Map.empty, Equilibrium 0 1,
              FluxDict example_flux, DerivedDict Map.empty, Equilibrium 3 4])"
  by (simp add: deepcopy_def example_store_def)

lemma example_setup:
  "\<exists>m. init_setup example_ext example_args 5
          [FluxDict example_flux, DerivedDict Map.empty, Equilibrium 0 1,
           FluxDict example_flux, DerivedDict Map.empty, Equilibrium 3 4] =
        (Inr (m, [199/400]),
         [FluxDict example_flux, DerivedDict Map.empty, Equilibrium 0 1,
          FluxDict (example_flux\<lparr>eq_fit_geo := Some Map.empty\<rparr>), DerivedDict Map.empty,
          Equilibrium 3 4])
      \<and> param_labels m = [''R0'', ''Z0'', ''r'', ''kappa'', ''delta'', ''zeta'', ''tilt'']
      \<and> param_initial m = [Fin 0, Fin 0, Fin 0, Fin 1, Fin 0, Fin 0, Fin 0]"
  by (simp add: init_setup_def example_args_def h_bind_def h_lift_def h_return_def
      method_lookup_def methods_table_def x_grid_def store_fit_geo_def modify_flux_def)

lemma example_fit_loop:
  "\<exists>st. fit_loop example_env (example_flux\<lparr>eq_fit_geo := Some Map.empty\<rparr>) (199/400)
          [(0, 199/400)]
          \<lparr> st_param_initial = [Fin 0, Fin 0, Fin 0, Fin 1, Fin 0, Fin 0, Fin 0],
            st_fit_geo = Map.empty, st_shape = None, st_trace = [] \<rparr> = (None, st)
        \<and> st_fit_geo st ''tilt'' = Some [Fin (1/10)] \<and> st_fit_geo st ''r'' = Some [Fin (1/2)]
        \<and> st_shape st \<noteq> None"
proof -
  have labels: "fe_labels example_env = [''R0'', ''Z0'', ''r'', ''kappa'', ''delta'', ''zeta'', ''tilt'']"
    by (simp add: example_env_def)
  have "point_at (example_flux\<lparr>eq_fit_geo := Some Map.empty\<rparr>)
          [''R0'', ''Z0'', ''r'', ''kappa'', ''delta'', ''zeta'', ''tilt''] 0 =
     Inr \<lparr> pt_scalars = [''r'' \<mapsto> Fin (1/2), ''Z0'' \<mapsto> Fin 0, ''R0'' \<mapsto> Fin (17/10)],
           pt_contours = [''theta_RZ'' \<mapsto> [Fin 0, Fin pi], ''Z'' \<mapsto> [Fin 0, Fin 0],
                          ''R'' \<mapsto> [Fin (11/5), Fin (6/5)]],
           pt_miller_geo = Some [''zeta'' \<mapsto> Fin 0, ''delta'' \<mapsto> Fin 0, ''kappa'' \<mapsto> Fin 1] \<rparr>"
    by (simp add: point_at_def example_eq_def example_flux_def)
  then show ?thesis
    by (simp add: example_fit fit_scalars_def labels)
qed

lemma example_run:
  "\<exists>g. LocalEquilibrium_init example_ext example_args 2 example_store =
        (Inl ValueError,
         [FluxDict example_flux, DerivedDict Map.empty, Equilibrium 0 1,
          FluxDict (example_flux\<lparr>eq_fit_geo := Some g\<rparr>), DerivedDict Map.empty,
          Equilibrium 3 4])
      \<and> g ''tilt'' = Some [Fin (1/10)]"
proof -
  from example_setup obtain m where
      prep: "init_setup example_ext example_args 5
          [FluxDict example_flux, DerivedDict Map.empty, Equilibrium 0 1,
           FluxDict example_flux, DerivedDict Map.empty, Equilibrium 3 4] =
        (Inr (m, [199/400]),
         [FluxDict example_flux, DerivedDict Map.empty, Equilibrium 0 1,
          FluxDict (example_flux\<lparr>eq_fit_geo := Some Map.empty\<rparr>), DerivedDict Map.empty,
          Equilibrium 3 4])"
      and m: "param_labels m = [''R0'', ''Z0'', ''r'', ''kappa'', ''delta'', ''zeta'', ''tilt'']"
        "param_initial m = [Fin 0, Fin 0, Fin 0, Fin 1, Fin 0, Fin 0, Fin 0]"
    by blast
  from example_fit_loop obtain st where
      loop: "fit_loop example_env (example_flux\<lparr>eq_fit_geo := Some Map.empty\<rparr>) (199/400)
          [(0, 199/400)]
          \<lparr> st_param_initial = [Fin 0, Fin 0, Fin 0, Fin 1, Fin 0, Fin 0, Fin 0],
            st_fit_geo = Map.empty, st_shape = None, st_trace = [] \<rparr> = (None, st)"
      and st: "st_fit_geo st ''tilt'' = Some [Fin (1/10)]" "st_fit_geo st ''r'' = Some [Fin (1/2)]"
        "st_shape st \<noteq> None"
    by blast
  have theta: "theta_grid (example_flux\<lparr>eq_fit_geo := Some Map.empty\<rparr>) 1 = Inr [Fin 0]"
    by (simp add: theta_grid_def example_eq_def example_flux_def dict_get_def np_min_def
        np_max_def linspace_def)
  have env: "\<lparr> fe_param = geometry_of ''turnbull_tilt'', fe_interp1d = nearest_interp1d,
       fe_least_squares = example_least_squares,
       fe_labels = [''R0'', ''Z0'', ''r'', ''kappa'', ''delta'', ''zeta'', ''tilt''],
       fe_theta = [Fin 0], fe_n_theta = 1, fe_cost_f = ''l1l2'',
       fe_derived_psi = [], fe_derived_fpol = [] \<rparr> = example_env"
    by (simp add: example_env_def geometry_of_def)
  have fit: "init_fit example_ext example_args 5 m [199/400]
         [FluxDict example_flux, DerivedDict Map.empty, Equilibrium 0 1,
          FluxDict (example_flux\<lparr>eq_fit_geo := Some Map.empty\<rparr>), DerivedDict Map.empty,
          Equilibrium 3 4] =
        (Inr st,
         [FluxDict example_flux, DerivedDict Map.empty, Equilibrium 0 1,
          FluxDict (example_flux\<lparr>eq_fit_geo := Some (st_fit_geo st)\<rparr>), DerivedDict Map.empty,
          Equilibrium 3 4])"
    by (simp add: init_fit_def example_args_def example_ext_def h_bind_def h_lift_def
        h_return_def read_eq_def theta m env loop store_fit_geo_def modify_flux_def
        del: fit_loop.simps)
  have x: "eq_scalars example_flux ''rho_tor'' = Some [Fin (199/400), Fin (1/2)]"
    by (simp add: example_flux_def)
  have shear: "init_shear example_ext example_args 5 m [199/400] st
         [FluxDict example_flux, DerivedDict Map.empty, Equilibrium 0 1,
          FluxDict (example_flux\<lparr>eq_fit_geo := Some (st_fit_geo st)\<rparr>), DerivedDict Map.empty,
          Equilibrium 3 4] =
        (Inl ValueError,
         [FluxDict example_flux, DerivedDict Map.empty, Equilibrium 0 1,
          FluxDict (example_flux\<lparr>eq_fit_geo := Some (st_fit_geo st)\<rparr>), DerivedDict Map.empty,
          Equilibrium 3 4])"
    using st
    by (auto simp: init_shear_def example_args_def example_ext_def h_bind_def h_lift_def
        h_return_def read_eq_def x dict_get_def example_gradient_def)
  have "LocalEquilibrium_init example_ext example_args 2 example_store =
        (Inl ValueError,
         [FluxDict example_flux, DerivedDict Map.empty, Equilibrium 0 1,
          FluxDict (example_flux\<lparr>eq_fit_geo := Some (st_fit_geo st)\<rparr>), DerivedDict Map.empty,
          Equilibrium 3 4])"
    using example_deepcopy prep fit shear
    by (simp add: LocalEquilibrium_init_def h_bind_def)
  with st show ?thesis by blast
qed

end
